theory Spec2Isabelle
  imports Complex_Main "HOL-Library.Word" "HOL-Library.Log_Nat"
begin

unbundle bit_operations_syntax

section \<open>Scalars, vectors and spectra\<close>

text \<open>
  The wavefront stages of \<^verbatim>\<open>pbrt/gpu/media.cpp\<close> and \<^verbatim>\<open>pbrt/gpu/optix.cu\<close> are embedded
  as functions over explicit queue states. \<^verbatim>\<open>Float\<close> arithmetic is taken over the reals:
  rounding, overflow to infinity and NaN are outside this reading, so the statements made
  in it are about the exact-arithmetic reading of the code. The one non-finite value the
  code tests for, \<^verbatim>\<open>Infinity\<close> as a segment end, is a constructor of its own. The one
  property that is about rounding itself, the exactness of the overflow rescale, is stated
  on a second embedding of that branch over binary32 values.
\<close>

type_synonym Float = real

datatype FloatInf = Fin Float | Infinity

type_synonym Vector3f = "Float \<times> Float \<times> Float"
type_synonym Point3f = "Float \<times> Float \<times> Float"
type_synonym Normal3f = "Float \<times> Float \<times> Float"
type_synonym Point2f = "Float \<times> Float"
type_synonym Interval = "Float \<times> Float"
type_synonym Point3fi = "Interval \<times> Interval \<times> Interval"

text \<open>Unary minus of a vector, \<^verbatim>\<open>-ray.d\<close>.\<close>
fun vneg :: "Vector3f \<Rightarrow> Vector3f" where
  "vneg (x, y, z) = (- x, - y, - z)"

text \<open>Point difference, \<^verbatim>\<open>ls.pLight.p() - ms.p\<close>.\<close>
fun psub :: "Point3f \<Rightarrow> Point3f \<Rightarrow> Vector3f" where
  "psub (a, b, c) (x, y, z) = (a - x, b - y, c - z)"

text \<open>\<^verbatim>\<open>ray(t)\<close>: the point \<^verbatim>\<open>o + d * t\<close>.\<close>
fun ray_at :: "Point3f \<Rightarrow> Vector3f \<Rightarrow> Float \<Rightarrow> Point3f" where
  "ray_at (a, b, c) (x, y, z) t = (a + x * t, b + y * t, c + z * t)"

text \<open>\<^verbatim>\<open>Length(v)\<close> and \<^verbatim>\<open>Distance(p, q)\<close>.\<close>
fun Length :: "Vector3f \<Rightarrow> Float" where
  "Length (x, y, z) = sqrt (x * x + y * y + z * z)"

definition Distance :: "Point3f \<Rightarrow> Point3f \<Rightarrow> Float" where
  "Distance p q = Length (psub p q)"

text \<open>
  Modelled from the spec: the conversions between \<^verbatim>\<open>Point3fi\<close> and \<^verbatim>\<open>Point3f\<close>
  (\<^verbatim>\<open>pbrt/util/vecmath.h\<close> is not among the sources). An interval point is read at the
  midpoint of each interval, and a point becomes the degenerate interval.
\<close>
fun Point3f_of :: "Point3fi \<Rightarrow> Point3f" where
  "Point3f_of ((xl, xh), (yl, yh), (zl, zh)) = ((xl + xh) / 2, (yl + yh) / 2, (zl + zh) / 2)"

fun Point3fi_of :: "Point3f \<Rightarrow> Point3fi" where
  "Point3fi_of (x, y, z) = ((x, x), (y, y), (z, z))"

text \<open>
  Modelled from the spec: \<^verbatim>\<open>SampledSpectrum\<close> (\<^verbatim>\<open>pbrt/util/spectrum.h\<close> is not among the
  sources): "a fixed small number of wavelength samples (here 4) carried alongside every
  radiometric quantity", with component-wise arithmetic, the average and the maximum
  component; converted to \<^verbatim>\<open>bool\<close> it is true when some component is not zero.
\<close>
datatype SampledSpectrum = SampledSpectrum Float Float Float Float

type_synonym SampledWavelengths = SampledSpectrum

definition spec_const :: "Float \<Rightarrow> SampledSpectrum" where
  "spec_const c = SampledSpectrum c c c c"

fun smul :: "SampledSpectrum \<Rightarrow> SampledSpectrum \<Rightarrow> SampledSpectrum" where
  "smul (SampledSpectrum a b c d) (SampledSpectrum e f g h) =
     SampledSpectrum (a * e) (b * f) (c * g) (d * h)"

fun sadd :: "SampledSpectrum \<Rightarrow> SampledSpectrum \<Rightarrow> SampledSpectrum" where
  "sadd (SampledSpectrum a b c d) (SampledSpectrum e f g h) =
     SampledSpectrum (a + e) (b + f) (c + g) (d + h)"

fun ssub :: "SampledSpectrum \<Rightarrow> SampledSpectrum \<Rightarrow> SampledSpectrum" where
  "ssub (SampledSpectrum a b c d) (SampledSpectrum e f g h) =
     SampledSpectrum (a - e) (b - f) (c - g) (d - h)"

fun sscale :: "SampledSpectrum \<Rightarrow> Float \<Rightarrow> SampledSpectrum" where
  "sscale (SampledSpectrum a b c d) k = SampledSpectrum (a * k) (b * k) (c * k) (d * k)"

fun sdivf :: "SampledSpectrum \<Rightarrow> Float \<Rightarrow> SampledSpectrum" where
  "sdivf (SampledSpectrum a b c d) k = SampledSpectrum (a / k) (b / k) (c / k) (d / k)"

fun Average :: "SampledSpectrum \<Rightarrow> Float" where
  "Average (SampledSpectrum a b c d) = (a + b + c + d) / 4"

fun MaxComponentValue :: "SampledSpectrum \<Rightarrow> Float" where
  "MaxComponentValue (SampledSpectrum a b c d) = max (max (max a b) c) d"

fun ClampZero :: "SampledSpectrum \<Rightarrow> SampledSpectrum" where
  "ClampZero (SampledSpectrum a b c d) =
     SampledSpectrum (max 0 a) (max 0 b) (max 0 c) (max 0 d)"

text \<open>\<^verbatim>\<open>s[0]\<close>, the hero wavelength's component.\<close>
fun comp0 :: "SampledSpectrum \<Rightarrow> Float" where
  "comp0 (SampledSpectrum a b c d) = a"

text \<open>The conversion to \<^verbatim>\<open>bool\<close>.\<close>
fun nonzero :: "SampledSpectrum \<Rightarrow> bool" where
  "nonzero (SampledSpectrum a b c d) = (a \<noteq> 0 \<or> b \<noteq> 0 \<or> c \<noteq> 0 \<or> d \<noteq> 0)"

section \<open>Handles and scene objects\<close>

text \<open>
  Modelled from the spec: the handle types (declared in headers that are not among the
  sources). A handle is a nullable tagged pointer; \<open>None\<close> is the null handle. A medium
  is known by its identity only: what it reports along a ray is supplied by the external
  interface below.
\<close>
type_synonym Medium = nat
type_synonym MediumHandle = "Medium option"

record MediumInterface =
  mi_inside :: MediumHandle
  mi_outside :: MediumHandle

text \<open>\<^verbatim>\<open>MediumInterface(rayMedium)\<close>: the same medium on both sides.\<close>
definition MediumInterface_of :: "MediumHandle \<Rightarrow> MediumInterface" where
  "MediumInterface_of m = \<lparr>mi_inside = m, mi_outside = m\<rparr>"

record FloatTexture =
  tex_id :: nat
  tex_basicCanEvaluate :: bool

type_synonym FloatTextureHandle = "FloatTexture option"

record Material =
  mat_Tag :: nat
  mat_basicCanEvaluateTextures :: bool
  mat_Displacement :: FloatTextureHandle
  mat_IsTransparent :: bool

type_synonym MaterialHandle = "Material option"

datatype LightType = DeltaPosition | DeltaDirection | Area | Infinite

fun IsDeltaLight :: "LightType \<Rightarrow> bool" where
  "IsDeltaLight DeltaPosition = True"
| "IsDeltaLight DeltaDirection = True"
| "IsDeltaLight Area = False"
| "IsDeltaLight Infinite = False"

record Light =
  light_id :: nat
  light_Type :: LightType

type_synonym LightHandle = "Light option"

record HGPhaseFunction =
  hg_g :: Float

text \<open>
  Modelled from the spec: the phase function handle, a tagged pointer over the phase
  function kinds. \<^verbatim>\<open>CastOrNullptr<HGPhaseFunction>\<close> gives the pointer when the tag is
  Henyey-Greenstein and the null pointer otherwise.
\<close>
datatype PhaseFunctionHandle = NullPhase | HGPhase HGPhaseFunction | OtherPhase nat

fun CastOrNullptr_HG :: "PhaseFunctionHandle \<Rightarrow> HGPhaseFunction option" where
  "CastOrNullptr_HG (HGPhase hg) = Some hg"
| "CastOrNullptr_HG NullPhase = None"
| "CastOrNullptr_HG (OtherPhase k) = None"

record Ray =
  ray_o :: Point3f
  ray_d :: Vector3f
  ray_time :: Float
  ray_medium :: MediumHandle

record MediumInteraction =
  intr_p :: Point3f
  intr_sigma_a :: SampledSpectrum
  intr_sigma_s :: SampledSpectrum
  intr_sigma_maj :: SampledSpectrum
  intr_Le :: SampledSpectrum
  intr_phase :: PhaseFunctionHandle

text \<open>
  Modelled from the spec: \<^verbatim>\<open>MediumInteraction::sigma_n()\<close> (\<^verbatim>\<open>pbrt/interaction.h\<close> is not
  among the sources): "derived null coefficient sigma_n = sigma_maj - sigma_a - sigma_s
  (component-wise, clamped \<ge> 0)".
\<close>
definition sigma_n :: "MediumInteraction \<Rightarrow> SampledSpectrum" where
  "sigma_n intr = ClampZero (ssub (ssub (intr_sigma_maj intr) (intr_sigma_a intr)) (intr_sigma_s intr))"

record MediumSample =
  smp_intr :: "MediumInteraction option"
  smp_Tmaj :: SampledSpectrum

section \<open>Work items and queues\<close>

record RayWorkItem =
  r_ray :: Ray
  r_piPrev :: Point3fi
  r_nPrev :: Normal3f
  r_nsPrev :: Normal3f
  r_beta :: SampledSpectrum
  r_pdfUni :: SampledSpectrum
  r_pdfNEE :: SampledSpectrum
  r_lambda :: SampledWavelengths
  r_etaScale :: Float
  r_isSpecularBounce :: bool
  r_anyNonSpecularBounces :: bool
  r_pixelIndex :: int

record MediumSampleWorkItem =
  ms_ray :: Ray
  ms_tMax :: FloatInf
  ms_lambda :: SampledWavelengths
  ms_beta :: SampledSpectrum
  ms_pdfUni :: SampledSpectrum
  ms_pdfNEE :: SampledSpectrum
  ms_rayIndex :: int
  ms_pixelIndex :: int
  ms_piPrev :: Point3fi
  ms_nPrev :: Normal3f
  ms_nsPrev :: Normal3f
  ms_isSpecularBounce :: bool
  ms_anyNonSpecularBounces :: bool
  ms_etaScale :: Float
  ms_areaLight :: LightHandle
  ms_pi :: Point3fi
  ms_n :: Normal3f
  ms_wo :: Vector3f
  ms_uv :: Point2f
  ms_material :: MaterialHandle
  ms_ns :: Normal3f
  ms_dpdus :: Vector3f
  ms_dpdvs :: Vector3f
  ms_dndus :: Normal3f
  ms_dndvs :: Normal3f
  ms_mediumInterface :: MediumInterface

record MediumScatterWorkItem =
  sc_p :: Point3f
  sc_lambda :: SampledWavelengths
  sc_beta :: SampledSpectrum
  sc_pdfUni :: SampledSpectrum
  sc_rayIndex :: int
  sc_phase :: HGPhaseFunction
  sc_wo :: Vector3f
  sc_etaScale :: Float
  sc_medium :: MediumHandle
  sc_pixelIndex :: int

record EscapedRayWorkItem =
  er_beta :: SampledSpectrum
  er_pdfUni :: SampledSpectrum
  er_pdfNEE :: SampledSpectrum
  er_lambda :: SampledWavelengths
  er_rayo :: Point3f
  er_rayd :: Vector3f
  er_piPrev :: Point3fi
  er_nPrev :: Normal3f
  er_nsPrev :: Normal3f
  er_specularBounce :: int
  er_pixelIndex :: int

record MediumTransitionWorkItem =
  mt_ray :: Ray
  mt_lambda :: SampledWavelengths
  mt_beta :: SampledSpectrum
  mt_pdfUni :: SampledSpectrum
  mt_pdfNEE :: SampledSpectrum
  mt_piPrev :: Point3fi
  mt_nPrev :: Normal3f
  mt_nsPrev :: Normal3f
  mt_isSpecularBounce :: bool
  mt_anyNonSpecularBounces :: bool
  mt_etaScale :: Float
  mt_pixelIndex :: int

record HitAreaLightWorkItem =
  al_areaLight :: LightHandle
  al_lambda :: SampledWavelengths
  al_beta :: SampledSpectrum
  al_pdfUni :: SampledSpectrum
  al_pdfNEE :: SampledSpectrum
  al_p :: Point3f
  al_n :: Normal3f
  al_uv :: Point2f
  al_wo :: Vector3f
  al_piPrev :: Point3fi
  al_rayd :: Vector3f
  al_rayTime :: Float
  al_nPrev :: Normal3f
  al_nsPrev :: Normal3f
  al_isSpecularBounce :: int
  al_pixelIndex :: int

record MaterialEvalWorkItem =
  me_material :: Material
  me_lambda :: SampledWavelengths
  me_beta :: SampledSpectrum
  me_pdfUni :: SampledSpectrum
  me_pi :: Point3fi
  me_n :: Normal3f
  me_ns :: Normal3f
  me_dpdus :: Vector3f
  me_dpdvs :: Vector3f
  me_dndus :: Normal3f
  me_dndvs :: Normal3f
  me_wo :: Vector3f
  me_uv :: Point2f
  me_time :: Float
  me_anyNonSpecularBounces :: bool
  me_etaScale :: Float
  me_mediumInterface :: MediumInterface
  me_rayIndex :: int
  me_pixelIndex :: int

record ShadowRayWorkItem =
  sr_ray :: Ray
  sr_tMax :: Float
  sr_lambda :: SampledWavelengths
  sr_Ld :: SampledSpectrum
  sr_pdfUni :: SampledSpectrum
  sr_pdfNEE :: SampledSpectrum
  sr_pixelIndex :: int

text \<open>
  The queues a stage writes. \<^verbatim>\<open>Push\<close> appends at the end of the list; the capacity of a
  queue and the interleaving of parallel workers are outside the model. The escaped-ray
  queue is a nullable pointer in the source. The two ray queues are indexed by the parity of
  the depth, and the pixels' radiance by the pixel index. The radiance a shadow ray resolves
  to is stored beside the shadow queue, by the item's index.
\<close>
record RaySamples =
  direct_uc :: Float
  direct_u :: Point2f
  indirect_u :: Point2f
  indirect_rr :: Float

record Queues =
  mediumSampleQueue :: "MediumSampleWorkItem list"
  mediumScatterQueue :: "MediumScatterWorkItem list"
  escapedRayQueue :: "EscapedRayWorkItem list option"
  mediumTransitionQueue :: "MediumTransitionWorkItem list"
  hitAreaLightQueue :: "HitAreaLightWorkItem list"
  basicEvalMaterialQueue :: "MaterialEvalWorkItem list"
  universalEvalMaterialQueue :: "MaterialEvalWorkItem list"
  shadowRayQueue :: "ShadowRayWorkItem list"
  shadowRayQueue_Ld :: "int \<Rightarrow> SampledSpectrum"
  rayQueues :: "int \<Rightarrow> RayWorkItem list"
  rayQueues_raySamples :: "int \<Rightarrow> int \<Rightarrow> RaySamples"
  pixelSampleState_L :: "int \<Rightarrow> SampledSpectrum"

section \<open>External collaborators\<close>

record SurfaceInteraction =
  si_pi :: Point3fi
  si_n :: Normal3f
  si_uv :: Point2f
  si_wo :: Vector3f
  si_time :: Float
  si_material :: MaterialHandle
  si_areaLight :: LightHandle
  si_mediumInterface :: "MediumInterface option"
  si_shading_n :: Normal3f
  si_shading_dpdu :: Vector3f
  si_shading_dpdv :: Vector3f
  si_shading_dndu :: Normal3f
  si_shading_dndv :: Normal3f

record LightSampleContext =
  lsc_pi :: Point3fi
  lsc_n :: Normal3f
  lsc_ns :: Normal3f

record SampledLight =
  sl_light :: LightHandle
  sl_pdf :: Float

record LightLiSample =
  ls_L :: SampledSpectrum
  ls_wi :: Vector3f
  ls_pdf :: Float
  ls_pLight :: Point3f

record PhaseFunctionSample =
  ps_p :: Float
  ps_wi :: Vector3f
  ps_pdf :: Float

text \<open>
  Modelled from the spec: everything the two source files call and do not define. The
  hash functions, the random number generator, \<^verbatim>\<open>SampleDiscrete\<close>, the media's majorant
  traversal, the ray spawning of an interaction, the intersection engine, the light sampler,
  the lights and the phase function are parameters of the model, collected in one record.
  A sample that converts to \<^verbatim>\<open>false\<close> (\<^verbatim>\<open>!ls\<close>, \<^verbatim>\<open>!phaseSample\<close>) is \<open>None\<close>. The
  intersection engine returns the closest accepted hit, \<open>None\<close> for a miss; its last
  argument tells a shadow query.
\<close>
record ('rng, 'ts) Ext =
  Hash_Float :: "FloatInf \<Rightarrow> 64 word"
  Hash_Vector3f :: "Vector3f \<Rightarrow> 64 word"
  Hash_Point3f :: "Point3f \<Rightarrow> 64 word"
  RNG_init :: "64 word \<Rightarrow> 64 word \<Rightarrow> 'rng"
  RNG_Uniform :: "'rng \<Rightarrow> Float \<times> 'rng"
  SampleDiscrete :: "Float list \<Rightarrow> Float \<Rightarrow> int"
  Tmaj_begin :: "Medium \<Rightarrow> Ray \<Rightarrow> FloatInf \<Rightarrow> SampledWavelengths \<Rightarrow> 'ts"
  Tmaj_next :: "'ts \<Rightarrow> 'rng \<Rightarrow> MediumSample \<times> 'ts \<times> 'rng"
  Interaction_SpawnRay :: "Point3fi \<Rightarrow> Normal3f \<Rightarrow> MediumInterface \<Rightarrow> Vector3f \<Rightarrow> Ray"
  Interaction_SpawnRayTo :: "Point3fi \<Rightarrow> Normal3f \<Rightarrow> MediumInterface \<Rightarrow> Point3f \<Rightarrow> Ray"
  SurfaceInteraction_SpawnRay :: "SurfaceInteraction \<Rightarrow> Vector3f \<Rightarrow> Ray"
  Trace :: "Ray \<Rightarrow> Float \<Rightarrow> Float \<Rightarrow> bool \<Rightarrow> SurfaceInteraction option"
  lightSampler_Sample :: "LightSampleContext \<Rightarrow> Float \<Rightarrow> SampledLight option"
  light_SampleLi :: "Light \<Rightarrow> LightSampleContext \<Rightarrow> Point2f \<Rightarrow> SampledWavelengths \<Rightarrow> LightLiSample option"
  phase_p :: "HGPhaseFunction \<Rightarrow> Vector3f \<Rightarrow> Vector3f \<Rightarrow> Float"
  phase_PDF :: "HGPhaseFunction \<Rightarrow> Vector3f \<Rightarrow> Vector3f \<Rightarrow> Float"
  phase_Sample_p :: "HGPhaseFunction \<Rightarrow> Vector3f \<Rightarrow> Point2f \<Rightarrow> PhaseFunctionSample option"
  ShadowEpsilon :: Float

text \<open>What the source leaves undefined is an error value of the model.\<close>
datatype error = NullPointerDereference | EmptyOptional

text \<open>
  Modelled from the spec: \<^verbatim>\<open>Medium::SampleTmaj\<close> (\<^verbatim>\<open>pbrt/media.h\<close> is not among the
  sources): "repeatedly sample a free-flight distance from the medium's majorant", hand
  each candidate collision point to the callback, and stop when the callback returns
  \<^verbatim>\<open>false\<close> or after the sample that ends the segment (the one with no interaction). The
  traversal shares the caller's generator. Nothing bounds the number of null collisions, so
  the loop runs on fuel and \<open>None\<close> is a traversal that has not returned.
\<close>
fun SampleTmaj_loop ::
  "nat \<Rightarrow> ('ts \<Rightarrow> 'rng \<Rightarrow> MediumSample \<times> 'ts \<times> 'rng) \<Rightarrow>
   (MediumSample \<Rightarrow> 'st \<times> 'rng \<Rightarrow> error + (bool \<times> 'st \<times> 'rng)) \<Rightarrow>
   'ts \<Rightarrow> 'st \<times> 'rng \<Rightarrow> (error + ('st \<times> 'rng)) option" where
  "SampleTmaj_loop 0 nxt cb ts s = None"
| "SampleTmaj_loop (Suc n) nxt cb ts s =
     (case nxt ts (snd s) of (smp, ts', rng') \<Rightarrow>
       (case cb smp (fst s, rng') of
          Inl e \<Rightarrow> Some (Inl e)
        | Inr (cont, st', rng'') \<Rightarrow>
            if cont \<and> smp_intr smp \<noteq> None then SampleTmaj_loop n nxt cb ts' (st', rng'')
            else Some (Inr (st', rng''))))"

definition SampleTmaj ::
  "('rng, 'ts) Ext \<Rightarrow> nat \<Rightarrow> Ray \<Rightarrow> FloatInf \<Rightarrow> SampledWavelengths \<Rightarrow>
   (MediumSample \<Rightarrow> 'st \<times> 'rng \<Rightarrow> error + (bool \<times> 'st \<times> 'rng)) \<Rightarrow>
   'st \<times> 'rng \<Rightarrow> (error + ('st \<times> 'rng)) option" where
  "SampleTmaj ext fuel ray tMax lambda cb s =
     (case ray_medium ray of
        None \<Rightarrow> Some (Inl NullPointerDereference)
      | Some m \<Rightarrow> SampleTmaj_loop fuel (Tmaj_next ext) cb (Tmaj_begin ext m ray tMax lambda) s)"

section \<open>The medium free-flight sampler\<close>

text \<open>
  The locals the callback of \<^verbatim>\<open>SampleMediumInteraction\<close> captures by reference, and the
  medium-scatter queue it pushes to.
\<close>
record SamplerState =
  st_beta :: SampledSpectrum
  st_pdfUni :: SampledSpectrum
  st_pdfNEE :: SampledSpectrum
  st_L :: SampledSpectrum
  st_scattered :: bool
  st_mediumScatterQueue :: "MediumScatterWorkItem list"

text \<open>The three event probabilities, from the hero wavelength.\<close>
definition pAbsorb :: "MediumInteraction \<Rightarrow> Float" where
  "pAbsorb intr = comp0 (intr_sigma_a intr) / comp0 (intr_sigma_maj intr)"

definition pScatter :: "MediumInteraction \<Rightarrow> Float" where
  "pScatter intr = comp0 (intr_sigma_s intr) / comp0 (intr_sigma_maj intr)"

definition pNull :: "MediumInteraction \<Rightarrow> Float" where
  "pNull intr = max 0 (1 - pAbsorb intr - pScatter intr)"

text \<open>\<^verbatim>\<open>um = rng.Uniform<Float>(); mode = SampleDiscrete({pAbsorb, pScatter, pNull}, um)\<close>.\<close>
definition drawn_mode :: "('rng, 'ts) Ext \<Rightarrow> MediumInteraction \<Rightarrow> 'rng \<Rightarrow> int" where
  "drawn_mode ext intr rng =
     SampleDiscrete ext [pAbsorb intr, pScatter intr, pNull intr] (fst (RNG_Uniform ext rng))"

text \<open>The emission added at a sampled point (lines 78-80).\<close>
definition add_emission ::
  "int \<Rightarrow> int \<Rightarrow> MediumInteraction \<Rightarrow> SamplerState \<Rightarrow> SampledSpectrum" where
  "add_emission depth maxDepth intr st =
     (if depth < maxDepth \<and> nonzero (intr_Le intr)
      then sadd (st_L st)
             (sdivf (smul (smul (st_beta st) (intr_Le intr)) (intr_sigma_a intr))
                    (comp0 (intr_sigma_maj intr) * Average (st_pdfUni st)))
      else st_L st)"

text \<open>
  The callback handed to \<^verbatim>\<open>SampleTmaj\<close> (lines 51-143). In this reading the overflow
  test of the null-collision branch compares exact products with \<open>2^24\<close>; what the branch
  does on binary32 values, where the products are rounded before they are tested, is
  \<open>null_collision32\<close> below.
\<close>
definition SampleMedium_callback ::
  "('rng, 'ts) Ext \<Rightarrow> int \<Rightarrow> int \<Rightarrow> MediumSampleWorkItem \<Rightarrow> SampledWavelengths \<Rightarrow> Ray \<Rightarrow>
   MediumSample \<Rightarrow> SamplerState \<times> 'rng \<Rightarrow> error + (bool \<times> SamplerState \<times> 'rng)" where
  "SampleMedium_callback ext depth maxDepth ms lambda ray mediumSample s =
     (case s of (st, rng) \<Rightarrow>
      (case smp_intr mediumSample of
         None \<Rightarrow>
           Inr (False,
                st\<lparr>st_beta := smul (st_beta st) (smp_Tmaj mediumSample),
                   st_pdfUni := smul (st_pdfUni st) (smp_Tmaj mediumSample)\<rparr>,
                rng)
       | Some intr \<Rightarrow>
           (let sigma_a = intr_sigma_a intr;
                sigma_s = intr_sigma_s intr;
                Tmaj = smp_Tmaj mediumSample;
                L = add_emission depth maxDepth intr st;
                rng' = snd (RNG_Uniform ext rng);
                mode = drawn_mode ext intr rng
            in if mode = 0 then
                 Inr (False, st\<lparr>st_L := L, st_beta := spec_const 0\<rparr>, rng')
               else if mode = 1 then
                 (let beta = smul (st_beta st) (smul Tmaj sigma_s);
                      pdfUni = smul (st_pdfUni st) (smul Tmaj sigma_s)
                  in case CastOrNullptr_HG (intr_phase intr) of
                       None \<Rightarrow> Inl NullPointerDereference
                     | Some phase \<Rightarrow>
                         Inr (False,
                              st\<lparr>st_L := L, st_beta := beta, st_pdfUni := pdfUni,
                                 st_scattered := True,
                                 st_mediumScatterQueue := st_mediumScatterQueue st @
                                   [\<lparr>sc_p = intr_p intr, sc_lambda = lambda, sc_beta = beta,
                                     sc_pdfUni = pdfUni, sc_rayIndex = ms_rayIndex ms,
                                     sc_phase = phase, sc_wo = vneg (ray_d ray),
                                     sc_etaScale = ms_etaScale ms, sc_medium = ray_medium ray,
                                     sc_pixelIndex = ms_pixelIndex ms\<rparr>]\<rparr>,
                              rng'))
               else
                 (let beta = smul (st_beta st) (smul Tmaj (sigma_n intr));
                      pdfUni = smul (st_pdfUni st) (smul Tmaj (sigma_n intr));
                      pdfNEE = smul (st_pdfNEE st) (smul Tmaj (intr_sigma_maj intr))
                  in if MaxComponentValue beta > 2 ^ 24 \<or>
                        MaxComponentValue pdfUni > 2 ^ 24 \<or>
                        MaxComponentValue pdfNEE > 2 ^ 24
                     then Inr (True,
                               st\<lparr>st_L := L,
                                  st_beta := sscale beta (1 / 2 ^ 24),
                                  st_pdfUni := sscale pdfUni (1 / 2 ^ 24),
                                  st_pdfNEE := sscale pdfNEE (1 / 2 ^ 24)\<rparr>,
                               rng')
                     else Inr (True,
                               st\<lparr>st_L := L, st_beta := beta, st_pdfUni := pdfUni,
                                  st_pdfNEE := pdfNEE\<rparr>,
                               rng')))))"

text \<open>The generator of a work item: \<^verbatim>\<open>RNG rng(Hash(tMax), Hash(ray.d))\<close> (line 40).\<close>
definition SampleMedium_rng :: "('rng, 'ts) Ext \<Rightarrow> MediumSampleWorkItem \<Rightarrow> 'rng" where
  "SampleMedium_rng ext ms =
     RNG_init ext (Hash_Float ext (ms_tMax ms)) (Hash_Vector3f ext (ray_d (ms_ray ms)))"

text \<open>The locals at the start of an item (lines 35-49).\<close>
definition SampleMedium_init :: "MediumSampleWorkItem \<Rightarrow> Queues \<Rightarrow> SamplerState" where
  "SampleMedium_init ms qs =
     \<lparr>st_beta = ms_beta ms, st_pdfUni = ms_pdfUni ms, st_pdfNEE = ms_pdfNEE ms,
      st_L = spec_const 0, st_scattered = False,
      st_mediumScatterQueue = mediumScatterQueue qs\<rparr>"

text \<open>The traversal of the segment (lines 50-143).\<close>
definition SampleMedium_traverse ::
  "('rng, 'ts) Ext \<Rightarrow> nat \<Rightarrow> int \<Rightarrow> int \<Rightarrow> MediumSampleWorkItem \<Rightarrow> Queues \<Rightarrow>
   (error + (SamplerState \<times> 'rng)) option" where
  "SampleMedium_traverse ext fuel depth maxDepth ms qs =
     SampleTmaj ext fuel (ms_ray ms) (ms_tMax ms) (ms_lambda ms)
       (SampleMedium_callback ext depth maxDepth ms (ms_lambda ms) (ms_ray ms))
       (SampleMedium_init ms qs, SampleMedium_rng ext ms)"

text \<open>\<^verbatim>\<open>(int)b\<close> of a \<^verbatim>\<open>bool\<close>.\<close>
definition int_of_bool :: "bool \<Rightarrow> int" where
  "int_of_bool b = (if b then 1 else 0)"

text \<open>The choice between the two material queues (lines 207-214 and, in optix.cu, 222-228).\<close>
definition basicEval :: "Material \<Rightarrow> bool" where
  "basicEval material =
     (mat_basicCanEvaluateTextures material \<and>
      (case mat_Displacement material of None \<Rightarrow> True | Some t \<Rightarrow> tex_basicCanEvaluate t))"

definition push_materialEval :: "Material \<Rightarrow> MaterialEvalWorkItem \<Rightarrow> Queues \<Rightarrow> Queues" where
  "push_materialEval material w qs =
     (if basicEval material
      then qs\<lparr>basicEvalMaterialQueue := basicEvalMaterialQueue qs @ [w]\<rparr>
      else qs\<lparr>universalEvalMaterialQueue := universalEvalMaterialQueue qs @ [w]\<rparr>)"

text \<open>The code after the traversal (lines 151-225).\<close>
definition SampleMedium_finish ::
  "('rng, 'ts) Ext \<Rightarrow> MediumSampleWorkItem \<Rightarrow> SamplerState \<Rightarrow> Queues \<Rightarrow> Queues" where
  "SampleMedium_finish ext ms st qs0 =
     (let ray = ms_ray ms; lambda = ms_lambda ms;
          beta = st_beta st; pdfUni = st_pdfUni st; pdfNEE = st_pdfNEE st; L = st_L st;
          qs = qs0\<lparr>mediumScatterQueue := st_mediumScatterQueue st\<rparr>;
          qs1 = (if nonzero L
                 then qs\<lparr>pixelSampleState_L := (pixelSampleState_L qs)
                          (ms_pixelIndex ms := sadd (pixelSampleState_L qs (ms_pixelIndex ms)) L)\<rparr>
                 else qs)
      in if st_scattered st then qs1
         else
           (let qs2 =
              (if ms_tMax ms = Infinity
               then (case escapedRayQueue qs1 of
                       None \<Rightarrow> qs1
                     | Some q \<Rightarrow>
                         qs1\<lparr>escapedRayQueue := Some (q @
                           [\<lparr>er_beta = beta, er_pdfUni = pdfUni, er_pdfNEE = pdfNEE,
                             er_lambda = lambda, er_rayo = ray_o ray, er_rayd = ray_d ray,
                             er_piPrev = ms_piPrev ms, er_nPrev = ms_nPrev ms,
                             er_nsPrev = ms_nsPrev ms,
                             er_specularBounce = int_of_bool (ms_isSpecularBounce ms),
                             er_pixelIndex = ms_pixelIndex ms\<rparr>])\<rparr>)
               else qs1)
            in case ms_material ms of
                 None \<Rightarrow>
                   qs2\<lparr>mediumTransitionQueue := mediumTransitionQueue qs2 @
                     [\<lparr>mt_ray = Interaction_SpawnRay ext (ms_pi ms) (ms_n ms)
                                  (ms_mediumInterface ms) (ray_d ray),
                       mt_lambda = lambda, mt_beta = beta, mt_pdfUni = pdfUni,
                       mt_pdfNEE = pdfNEE, mt_piPrev = ms_piPrev ms, mt_nPrev = ms_nPrev ms,
                       mt_nsPrev = ms_nsPrev ms, mt_isSpecularBounce = ms_isSpecularBounce ms,
                       mt_anyNonSpecularBounces = ms_anyNonSpecularBounces ms,
                       mt_etaScale = ms_etaScale ms, mt_pixelIndex = ms_pixelIndex ms\<rparr>]\<rparr>
               | Some material \<Rightarrow>
                   (let qs3 =
                      (case ms_areaLight ms of
                         None \<Rightarrow> qs2
                       | Some l \<Rightarrow>
                           qs2\<lparr>hitAreaLightQueue := hitAreaLightQueue qs2 @
                             [\<lparr>al_areaLight = ms_areaLight ms, al_lambda = lambda,
                               al_beta = beta, al_pdfUni = pdfUni, al_pdfNEE = pdfNEE,
                               al_p = Point3f_of (ms_pi ms), al_n = ms_n ms, al_uv = ms_uv ms,
                               al_wo = vneg (ray_d ray), al_piPrev = ms_piPrev ms,
                               al_rayd = ray_d ray, al_rayTime = ray_time ray,
                               al_nPrev = ms_nPrev ms, al_nsPrev = ms_nsPrev ms,
                               al_isSpecularBounce = int_of_bool (ms_isSpecularBounce ms),
                               al_pixelIndex = ms_pixelIndex ms\<rparr>]\<rparr>)
                    in push_materialEval material
                         \<lparr>me_material = material, me_lambda = lambda, me_beta = beta,
                          me_pdfUni = pdfUni, me_pi = ms_pi ms, me_n = ms_n ms,
                          me_ns = ms_ns ms, me_dpdus = ms_dpdus ms, me_dpdvs = ms_dpdvs ms,
                          me_dndus = ms_dndus ms, me_dndvs = ms_dndvs ms,
                          me_wo = vneg (ray_d ray), me_uv = ms_uv ms, me_time = ray_time ray,
                          me_anyNonSpecularBounces = ms_anyNonSpecularBounces ms,
                          me_etaScale = ms_etaScale ms,
                          me_mediumInterface = ms_mediumInterface ms,
                          me_rayIndex = ms_rayIndex ms, me_pixelIndex = ms_pixelIndex ms\<rparr>
                         qs3)))"

text \<open>
  One work item of the first kernel of \<^verbatim>\<open>SampleMediumInteraction\<close> (lines 26-226):
  \<open>None\<close> when the traversal has not returned within the fuel, an error where the source
  dereferences a null pointer, the queues after the item otherwise.
\<close>
definition SampleMediumInteraction_item ::
  "('rng, 'ts) Ext \<Rightarrow> nat \<Rightarrow> int \<Rightarrow> int \<Rightarrow> MediumSampleWorkItem \<Rightarrow> Queues \<Rightarrow>
   (error + Queues) option" where
  "SampleMediumInteraction_item ext fuel depth maxDepth ms qs =
     (case SampleMedium_traverse ext fuel depth maxDepth ms qs of
        None \<Rightarrow> None
      | Some (Inl e) \<Rightarrow> Some (Inl e)
      | Some (Inr (st, rng)) \<Rightarrow> Some (Inr (SampleMedium_finish ext ms st qs)))"

text \<open>
  What a traversal did, for stating properties of a run: the calls it made to its callback,
  in order, each as the sample handed over together with the callback's state and the
  generator at the call. The recursion is that of \<open>SampleTmaj_loop\<close>.
\<close>
fun SampleTmaj_calls ::
  "nat \<Rightarrow> ('ts \<Rightarrow> 'rng \<Rightarrow> MediumSample \<times> 'ts \<times> 'rng) \<Rightarrow>
   (MediumSample \<Rightarrow> 'st \<times> 'rng \<Rightarrow> error + (bool \<times> 'st \<times> 'rng)) \<Rightarrow>
   'ts \<Rightarrow> 'st \<times> 'rng \<Rightarrow> (MediumSample \<times> 'st \<times> 'rng) list" where
  "SampleTmaj_calls 0 nxt cb ts s = []"
| "SampleTmaj_calls (Suc n) nxt cb ts s =
     (case nxt ts (snd s) of (smp, ts', rng') \<Rightarrow>
       (smp, fst s, rng') #
       (case cb smp (fst s, rng') of
          Inl e \<Rightarrow> []
        | Inr (cont, st', rng'') \<Rightarrow>
            if cont \<and> smp_intr smp \<noteq> None then SampleTmaj_calls n nxt cb ts' (st', rng'')
            else []))"

text \<open>The calls of the traversal of a work item (lines 50-143).\<close>
definition SampleMedium_calls ::
  "('rng, 'ts) Ext \<Rightarrow> nat \<Rightarrow> int \<Rightarrow> int \<Rightarrow> MediumSampleWorkItem \<Rightarrow> Queues \<Rightarrow>
   (MediumSample \<times> SamplerState \<times> 'rng) list" where
  "SampleMedium_calls ext fuel depth maxDepth ms qs =
     (case ray_medium (ms_ray ms) of
        None \<Rightarrow> []
      | Some m \<Rightarrow>
          SampleTmaj_calls fuel (Tmaj_next ext)
            (SampleMedium_callback ext depth maxDepth ms (ms_lambda ms) (ms_ray ms))
            (Tmaj_begin ext m (ms_ray ms) (ms_tMax ms) (ms_lambda ms))
            (SampleMedium_init ms qs, SampleMedium_rng ext ms))"

text \<open>
  A traversal ends in absorption when its last call is at a collision sample and draws
  mode 0, the branch of lines 93-98.
\<close>
definition ends_in_absorption ::
  "('rng, 'ts) Ext \<Rightarrow> nat \<Rightarrow> int \<Rightarrow> int \<Rightarrow> MediumSampleWorkItem \<Rightarrow> Queues \<Rightarrow> bool" where
  "ends_in_absorption ext fuel depth maxDepth ms qs =
     (case rev (SampleMedium_calls ext fuel depth maxDepth ms qs) of
        [] \<Rightarrow> False
      | (smp, st, rng) # earlier \<Rightarrow>
          (case smp_intr smp of
             None \<Rightarrow> False
           | Some intr \<Rightarrow> drawn_mode ext intr rng = 0))"

text \<open>
  The factor by which null collisions at the samples \<open>smps\<close> multiply a running value:
  at each of them \<^verbatim>\<open>Tmaj\<close> times the coefficient \<open>coeff\<close> of the interaction (lines
  120-122), and \<open>2^-24\<close> as well where the flag says that the overflow rescale was applied
  (lines 136-138).
\<close>
fun null_factor ::
  "(MediumInteraction \<Rightarrow> SampledSpectrum) \<Rightarrow> MediumSample list \<Rightarrow> bool list \<Rightarrow>
   SampledSpectrum" where
  "null_factor coeff (smp # smps) (rescaled # flags) =
     smul (sscale (smul (smp_Tmaj smp)
                        (case smp_intr smp of None \<Rightarrow> spec_const 1 | Some intr \<Rightarrow> coeff intr))
                  (if rescaled then 1 / 2 ^ 24 else 1))
          (null_factor coeff smps flags)"
| "null_factor coeff [] flags = spec_const 1"
| "null_factor coeff smps [] = spec_const 1"

section \<open>The medium scatter handler\<close>

text \<open>
  Modelled from the spec: \<^verbatim>\<open>RayQueue::PushIndirect\<close> (\<^verbatim>\<open>pbrt/gpu/workitems.h\<close> is not
  among the sources): the arguments become the fields of a new ray work item.
\<close>
definition PushIndirect ::
  "Ray \<Rightarrow> Point3fi \<Rightarrow> Normal3f \<Rightarrow> Normal3f \<Rightarrow> SampledSpectrum \<Rightarrow> SampledSpectrum \<Rightarrow>
   SampledSpectrum \<Rightarrow> SampledWavelengths \<Rightarrow> Float \<Rightarrow> bool \<Rightarrow> bool \<Rightarrow> int \<Rightarrow>
   RayWorkItem list \<Rightarrow> RayWorkItem list" where
  "PushIndirect ray piPrev nPrev nsPrev beta pdfUni pdfNEE lambda etaScale isSpecularBounce
                anyNonSpecularBounces pixelIndex q =
     q @ [\<lparr>r_ray = ray, r_piPrev = piPrev, r_nPrev = nPrev, r_nsPrev = nsPrev, r_beta = beta,
           r_pdfUni = pdfUni, r_pdfNEE = pdfNEE, r_lambda = lambda, r_etaScale = etaScale,
           r_isSpecularBounce = isSpecularBounce,
           r_anyNonSpecularBounces = anyNonSpecularBounces, r_pixelIndex = pixelIndex\<rparr>]"

text \<open>
  Direct lighting at the scattering point (lines 237-277). The light sampler's optional is
  dereferenced unchecked, so an empty one is an error of the model.
\<close>
definition SampleDirect ::
  "('rng, 'ts) Ext \<Rightarrow> MediumScatterWorkItem \<Rightarrow> RaySamples \<Rightarrow> ShadowRayWorkItem list \<Rightarrow>
   error + ShadowRayWorkItem list" where
  "SampleDirect ext ms raySamples q =
     (let time = 0; wo = sc_wo ms;
          ctx = \<lparr>lsc_pi = Point3fi_of (sc_p ms), lsc_n = (0, 0, 0), lsc_ns = (0, 0, 0)\<rparr>
      in case lightSampler_Sample ext ctx (direct_uc raySamples) of
           None \<Rightarrow> Inl EmptyOptional
         | Some sampledLight \<Rightarrow>
             (case sl_light sampledLight of
                None \<Rightarrow> Inr q
              | Some light \<Rightarrow>
                  (case light_SampleLi ext light ctx (direct_u raySamples) (sc_lambda ms) of
                     None \<Rightarrow> Inr q
                   | Some ls \<Rightarrow>
                       if nonzero (ls_L ls) then
                         (let wi = ls_wi ls;
                              beta = sscale (sc_beta ms) (phase_p ext (sc_phase ms) wo wi);
                              lightPDF = ls_pdf ls * sl_pdf sampledLight;
                              phasePDF = (if IsDeltaLight (light_Type light) then 0
                                          else phase_PDF ext (sc_phase ms) wo wi);
                              pdfUni = sscale (sc_pdfUni ms) phasePDF;
                              pdfNEE = sscale (sc_pdfUni ms) lightPDF;
                              Ld = smul beta (ls_L ls);
                              ray = \<lparr>ray_o = sc_p ms, ray_d = psub (ls_pLight ls) (sc_p ms),
                                     ray_time = time, ray_medium = sc_medium ms\<rparr>
                          in Inr (q @ [\<lparr>sr_ray = ray, sr_tMax = 1 - ShadowEpsilon ext,
                                         sr_lambda = sc_lambda ms, sr_Ld = Ld,
                                         sr_pdfUni = pdfUni, sr_pdfNEE = pdfNEE,
                                         sr_pixelIndex = sc_pixelIndex ms\<rparr>]))
                       else Inr q)))"

text \<open>The indirect continuation with Russian roulette (lines 279-312).\<close>
definition SampleIndirect ::
  "('rng, 'ts) Ext \<Rightarrow> int \<Rightarrow> MediumScatterWorkItem \<Rightarrow> RaySamples \<Rightarrow>
   (int \<Rightarrow> RayWorkItem list) \<Rightarrow> (int \<Rightarrow> RayWorkItem list)" where
  "SampleIndirect ext depth ms raySamples rqs =
     (let time = 0; wo = sc_wo ms
      in case phase_Sample_p ext (sc_phase ms) wo (indirect_u raySamples) of
           None \<Rightarrow> rqs
         | Some phaseSample \<Rightarrow>
             (let beta = sscale (sc_beta ms) (ps_p phaseSample);
                  pdfUni = sscale (sc_pdfUni ms) (ps_pdf phaseSample);
                  pdfNEE = sc_pdfUni ms;
                  rrBeta = sdivf (sscale beta (sc_etaScale ms)) (Average pdfUni);
                  ray = \<lparr>ray_o = sc_p ms, ray_d = ps_wi phaseSample, ray_time = time,
                         ray_medium = sc_medium ms\<rparr>;
                  isSpecularBounce = False;
                  anyNonSpecularBounces = True;
                  push = (\<lambda>pdfUni pdfNEE.
                    rqs((depth + 1) AND 1 :=
                      PushIndirect ray (Point3fi_of (sc_p ms)) (0, 0, 0) (0, 0, 0) beta pdfUni
                        pdfNEE (sc_lambda ms) (sc_etaScale ms) isSpecularBounce
                        anyNonSpecularBounces (sc_pixelIndex ms) (rqs ((depth + 1) AND 1))))
              in if MaxComponentValue rrBeta < 1 \<and> depth > 1 then
                   (let q = max 0 (1 - MaxComponentValue rrBeta)
                    in if indirect_rr raySamples < q then rqs
                       else push (sscale pdfUni (1 - q)) (sscale pdfNEE (1 - q)))
                 else push pdfUni pdfNEE))"

text \<open>One work item of the second kernel of \<^verbatim>\<open>SampleMediumInteraction\<close> (lines 232-313).\<close>
definition MediumScatter_item ::
  "('rng, 'ts) Ext \<Rightarrow> int \<Rightarrow> MediumScatterWorkItem \<Rightarrow> Queues \<Rightarrow> error + Queues" where
  "MediumScatter_item ext depth ms qs =
     (let rs = rayQueues_raySamples qs (depth AND 1) (sc_rayIndex ms)
      in case SampleDirect ext ms rs (shadowRayQueue qs) of
           Inl e \<Rightarrow> Inl e
         | Inr sq \<Rightarrow>
             Inr (qs\<lparr>shadowRayQueue := sq,
                     rayQueues := SampleIndirect ext depth ms rs (rayQueues qs)\<rparr>))"

section \<open>The closest-hit dispatcher\<close>

record ClosestHitContext =
  ctx_rayMedium :: MediumHandle
  ctx_shadowRay :: bool
  ctx_piHit :: Point3fi
  ctx_nHit :: Normal3f
  ctx_material :: MaterialHandle
  ctx_mediumInterface :: MediumInterface

text \<open>
  \<^verbatim>\<open>ClosestHitContext(rayMedium, shadowRay)\<close>: the constructor sets the two inputs; the
  outputs are default-constructed (a null material handle).
\<close>
definition ClosestHitContext_new :: "MediumHandle \<Rightarrow> bool \<Rightarrow> ClosestHitContext" where
  "ClosestHitContext_new rayMedium shadowRay =
     \<lparr>ctx_rayMedium = rayMedium, ctx_shadowRay = shadowRay,
      ctx_piHit = ((0, 0), (0, 0), (0, 0)), ctx_nHit = (0, 0, 0), ctx_material = None,
      ctx_mediumInterface = \<lparr>mi_inside = None, mi_outside = None\<rparr>\<rparr>"

text \<open>The outputs written into the payload's context (optix.cu, lines 148-156).\<close>
definition fill_context :: "ClosestHitContext \<Rightarrow> SurfaceInteraction \<Rightarrow> ClosestHitContext" where
  "fill_context ctx intr =
     ctx\<lparr>ctx_mediumInterface :=
           (case si_mediumInterface intr of
              Some mi \<Rightarrow> mi
            | None \<Rightarrow> MediumInterface_of (ctx_rayMedium ctx)),
         ctx_piHit := si_pi intr, ctx_nHit := si_n intr, ctx_material := si_material intr\<rparr>"

text \<open>
  \<^verbatim>\<open>ProcessClosestIntersection\<close> (optix.cu, lines 144-243). \<open>r\<close> is the ray work item
  read from \<^verbatim>\<open>params.rayQueue\<close> at the launch index \<open>rayIndex\<close>, \<open>tHit\<close> is
  \<^verbatim>\<open>optixGetRayTmax()\<close>.
\<close>
definition ProcessClosestIntersection ::
  "('rng, 'ts) Ext \<Rightarrow> ClosestHitContext \<Rightarrow> SurfaceInteraction \<Rightarrow> int \<Rightarrow> Float \<Rightarrow>
   RayWorkItem \<Rightarrow> Queues \<Rightarrow> ClosestHitContext \<times> Queues" where
  "ProcessClosestIntersection ext ctx0 intr rayIndex tHit r qs =
     (let rayMedium = ctx_rayMedium ctx0;
          ctx = fill_context ctx0 intr
      in if ctx_shadowRay ctx then (ctx, qs)
         else if rayMedium \<noteq> None then
           (ctx, qs\<lparr>mediumSampleQueue := mediumSampleQueue qs @
              [\<lparr>ms_ray = r_ray r, ms_tMax = Fin tHit, ms_lambda = r_lambda r,
                ms_beta = r_beta r, ms_pdfUni = r_pdfUni r, ms_pdfNEE = r_pdfNEE r,
                ms_rayIndex = rayIndex, ms_pixelIndex = r_pixelIndex r,
                ms_piPrev = r_piPrev r, ms_nPrev = r_nPrev r, ms_nsPrev = r_nsPrev r,
                ms_isSpecularBounce = r_isSpecularBounce r,
                ms_anyNonSpecularBounces = r_anyNonSpecularBounces r,
                ms_etaScale = r_etaScale r, ms_areaLight = si_areaLight intr,
                ms_pi = si_pi intr, ms_n = si_n intr, ms_wo = vneg (ray_d (r_ray r)),
                ms_uv = si_uv intr, ms_material = si_material intr,
                ms_ns = si_shading_n intr, ms_dpdus = si_shading_dpdu intr,
                ms_dpdvs = si_shading_dpdv intr, ms_dndus = si_shading_dndu intr,
                ms_dndvs = si_shading_dndv intr,
                ms_mediumInterface = ctx_mediumInterface ctx\<rparr>]\<rparr>)
         else
           (case si_material intr of
              None \<Rightarrow>
                (ctx, qs\<lparr>mediumTransitionQueue := mediumTransitionQueue qs @
                   [\<lparr>mt_ray = SurfaceInteraction_SpawnRay ext intr (ray_d (r_ray r)),
                     mt_lambda = r_lambda r, mt_beta = r_beta r, mt_pdfUni = r_pdfUni r,
                     mt_pdfNEE = r_pdfNEE r, mt_piPrev = r_piPrev r, mt_nPrev = r_nPrev r,
                     mt_nsPrev = r_nsPrev r, mt_isSpecularBounce = r_isSpecularBounce r,
                     mt_anyNonSpecularBounces = r_anyNonSpecularBounces r,
                     mt_etaScale = r_etaScale r, mt_pixelIndex = r_pixelIndex r\<rparr>]\<rparr>)
            | Some material \<Rightarrow>
                (let qs1 =
                   (case si_areaLight intr of
                      None \<Rightarrow> qs
                    | Some l \<Rightarrow>
                        qs\<lparr>hitAreaLightQueue := hitAreaLightQueue qs @
                          [\<lparr>al_areaLight = si_areaLight intr, al_lambda = r_lambda r,
                            al_beta = r_beta r, al_pdfUni = r_pdfUni r,
                            al_pdfNEE = r_pdfNEE r, al_p = Point3f_of (si_pi intr),
                            al_n = si_n intr, al_uv = si_uv intr, al_wo = si_wo intr,
                            al_piPrev = r_piPrev r, al_rayd = ray_d (r_ray r),
                            al_rayTime = ray_time (r_ray r), al_nPrev = r_nPrev r,
                            al_nsPrev = r_nsPrev r,
                            al_isSpecularBounce = int_of_bool (r_isSpecularBounce r),
                            al_pixelIndex = r_pixelIndex r\<rparr>]\<rparr>)
                 in (ctx,
                     push_materialEval material
                       \<lparr>me_material = material, me_lambda = r_lambda r, me_beta = r_beta r,
                        me_pdfUni = r_pdfUni r, me_pi = si_pi intr, me_n = si_n intr,
                        me_ns = si_shading_n intr, me_dpdus = si_shading_dpdu intr,
                        me_dpdvs = si_shading_dpdv intr, me_dndus = si_shading_dndu intr,
                        me_dndvs = si_shading_dndv intr, me_wo = si_wo intr,
                        me_uv = si_uv intr, me_time = si_time intr,
                        me_anyNonSpecularBounces = r_anyNonSpecularBounces r,
                        me_etaScale = r_etaScale r,
                        me_mediumInterface = ctx_mediumInterface ctx,
                        me_rayIndex = rayIndex, me_pixelIndex = r_pixelIndex r\<rparr>
                       qs1))))"

section \<open>The shadow resolver, transmittance mode\<close>

text \<open>The locals the callback of \<^verbatim>\<open>__raygen__shadow_Tr\<close> captures by reference.\<close>
record ShadowState =
  sh_Ld :: SampledSpectrum
  sh_pdfUni :: SampledSpectrum
  sh_pdfNEE :: SampledSpectrum

text \<open>The generator of a shadow item: \<^verbatim>\<open>RNG rng(Hash(ray.o), Hash(ray.d))\<close> (line 371).\<close>
definition shadow_Tr_rng :: "('rng, 'ts) Ext \<Rightarrow> ShadowRayWorkItem \<Rightarrow> 'rng" where
  "shadow_Tr_rng ext sr =
     RNG_init ext (Hash_Point3f ext (ray_o (sr_ray sr))) (Hash_Vector3f ext (ray_d (sr_ray sr)))"

text \<open>The ratio-tracking callback (optix.cu, lines 400-426).\<close>
definition shadow_Tr_callback ::
  "MediumSample \<Rightarrow> ShadowState \<times> 'rng \<Rightarrow> error + (bool \<times> ShadowState \<times> 'rng)" where
  "shadow_Tr_callback mediumSample s =
     (case s of (st, rng) \<Rightarrow>
      (case smp_intr mediumSample of
         None \<Rightarrow> Inr (False, st, rng)
       | Some intr \<Rightarrow>
           (let Tmaj = smp_Tmaj mediumSample;
                Ld = smul (sh_Ld st) (smul Tmaj (sigma_n intr));
                pdfNEE = smul (sh_pdfNEE st) (smul Tmaj (intr_sigma_maj intr));
                pdfUni = smul (sh_pdfUni st) (smul Tmaj (sigma_n intr))
            in if \<not> nonzero Ld then
                 Inr (False, \<lparr>sh_Ld = Ld, sh_pdfUni = pdfUni, sh_pdfNEE = pdfNEE\<rparr>, rng)
               else if MaxComponentValue Ld > 2 ^ 24 \<or>
                       MaxComponentValue pdfNEE > 2 ^ 24 \<or>
                       MaxComponentValue pdfUni > 2 ^ 24
               then Inr (True,
                         \<lparr>sh_Ld = sscale Ld (1 / 2 ^ 24),
                          sh_pdfUni = sscale pdfUni (1 / 2 ^ 24),
                          sh_pdfNEE = sscale pdfNEE (1 / 2 ^ 24)\<rparr>,
                         rng)
               else Inr (True, \<lparr>sh_Ld = Ld, sh_pdfUni = pdfUni, sh_pdfNEE = pdfNEE\<rparr>, rng))))"

text \<open>What one pass through the body of \<^verbatim>\<open>while (true)\<close> ends with.\<close>
datatype 'a control = Break 'a | Continue 'a

text \<open>
  The intersection query of one pass (lines 374-385): whether the ray missed, and the
  context after the closest-hit program, which for a shadow query returns once it has
  filled the context (line 158).
\<close>
definition shadow_Tr_trace ::
  "('rng, 'ts) Ext \<Rightarrow> Ray \<Rightarrow> Float \<Rightarrow> bool \<times> ClosestHitContext" where
  "shadow_Tr_trace ext ray tMax =
     (let ctx = ClosestHitContext_new (ray_medium ray) True
      in case Trace ext ray (1 / 100000) tMax True of
           None \<Rightarrow> (True, ctx)
         | Some intr \<Rightarrow> (False, fill_context ctx intr))"

text \<open>The medium traversal of one pass (lines 394-427).\<close>
definition shadow_Tr_medium ::
  "('rng, 'ts) Ext \<Rightarrow> nat \<Rightarrow> SampledWavelengths \<Rightarrow> Float \<Rightarrow> Ray \<Rightarrow> bool \<Rightarrow>
   ClosestHitContext \<Rightarrow> ShadowState \<times> 'rng \<Rightarrow> (error + (ShadowState \<times> 'rng)) option" where
  "shadow_Tr_medium ext fuel lambda tMax ray missed ctx s =
     (if ray_medium ray \<noteq> None then
        (let tEnd = (if missed then tMax
                     else Distance (ray_o ray) (Point3f_of (ctx_piHit ctx)) / Length (ray_d ray))
         in SampleTmaj ext fuel ray (Fin tEnd) lambda shadow_Tr_callback s)
      else Some (Inr s))"

text \<open>The body of the loop (lines 373-437).\<close>
definition shadow_Tr_body ::
  "('rng, 'ts) Ext \<Rightarrow> nat \<Rightarrow> SampledWavelengths \<Rightarrow> Float \<Rightarrow> Point3f \<Rightarrow>
   Ray \<times> ShadowState \<times> 'rng \<Rightarrow> (error + (Ray \<times> ShadowState \<times> 'rng) control) option" where
  "shadow_Tr_body ext fuel lambda tMax pLight s =
     (case s of (ray, st, rng) \<Rightarrow>
      (case shadow_Tr_trace ext ray tMax of (missed, ctx) \<Rightarrow>
         if \<not> missed \<and> ctx_material ctx \<noteq> None then
           Some (Inr (Break (ray, st\<lparr>sh_Ld := spec_const 0\<rparr>, rng)))
         else
           (case shadow_Tr_medium ext fuel lambda tMax ray missed ctx (st, rng) of
              None \<Rightarrow> None
            | Some (Inl e) \<Rightarrow> Some (Inl e)
            | Some (Inr (st', rng')) \<Rightarrow>
                if missed \<or> \<not> nonzero (sh_Ld st') then Some (Inr (Break (ray, st', rng')))
                else
                  (let ray' = Interaction_SpawnRayTo ext (ctx_piHit ctx) (ctx_nHit ctx)
                                (ctx_mediumInterface ctx) pLight
                   in if ray_d ray' = (0, 0, 0) then Some (Inr (Break (ray', st', rng')))
                      else Some (Inr (Continue (ray', st', rng')))))))"

text \<open>
  The loop. Nothing in the source bounds the number of passes, so it runs on fuel:
  \<open>passes\<close> for the loop and \<open>fuel\<close> for each medium traversal.
\<close>
fun shadow_Tr_loop ::
  "nat \<Rightarrow> ('rng, 'ts) Ext \<Rightarrow> nat \<Rightarrow> SampledWavelengths \<Rightarrow> Float \<Rightarrow> Point3f \<Rightarrow>
   Ray \<times> ShadowState \<times> 'rng \<Rightarrow> (error + (Ray \<times> ShadowState \<times> 'rng)) option" where
  "shadow_Tr_loop 0 ext fuel lambda tMax pLight s = None"
| "shadow_Tr_loop (Suc passes) ext fuel lambda tMax pLight s =
     (case shadow_Tr_body ext fuel lambda tMax pLight s of
        None \<Rightarrow> None
      | Some (Inl e) \<Rightarrow> Some (Inl e)
      | Some (Inr (Break s')) \<Rightarrow> Some (Inr s')
      | Some (Inr (Continue s')) \<Rightarrow> shadow_Tr_loop passes ext fuel lambda tMax pLight s')"

text \<open>The radiance a shadow item resolves to (lines 359-439).\<close>
definition shadow_Tr_Ld ::
  "('rng, 'ts) Ext \<Rightarrow> nat \<Rightarrow> nat \<Rightarrow> ShadowRayWorkItem \<Rightarrow> (error + SampledSpectrum) option" where
  "shadow_Tr_Ld ext passes fuel sr =
     (let lambda = sr_lambda sr; ray = sr_ray sr; tMax = sr_tMax sr;
          pLight = ray_at (ray_o ray) (ray_d ray) tMax
      in case shadow_Tr_loop passes ext fuel lambda tMax pLight
                (ray, \<lparr>sh_Ld = sr_Ld sr, sh_pdfUni = sr_pdfUni sr, sh_pdfNEE = sr_pdfNEE sr\<rparr>,
                 shadow_Tr_rng ext sr) of
           None \<Rightarrow> None
         | Some (Inl e) \<Rightarrow> Some (Inl e)
         | Some (Inr (ray', st, rng)) \<Rightarrow>
             Some (Inr (sdivf (sh_Ld st) (Average (sadd (sh_pdfUni st) (sh_pdfNEE st))))))"

text \<open>
  \<^verbatim>\<open>__raygen__shadow_Tr\<close> at launch index \<open>index\<close> (lines 353-444): nothing happens
  beyond the end of the shadow queue; otherwise the item's radiance is stored at its index.
\<close>
definition raygen_shadow_Tr ::
  "('rng, 'ts) Ext \<Rightarrow> nat \<Rightarrow> nat \<Rightarrow> int \<Rightarrow> Queues \<Rightarrow> (error + Queues) option" where
  "raygen_shadow_Tr ext passes fuel index qs =
     (if index \<ge> int (length (shadowRayQueue qs)) then Some (Inr qs)
      else
        (case shadow_Tr_Ld ext passes fuel (shadowRayQueue qs ! nat index) of
           None \<Rightarrow> None
         | Some (Inl e) \<Rightarrow> Some (Inl e)
         | Some (Inr Ld) \<Rightarrow> Some (Inr (qs\<lparr>shadowRayQueue_Ld := (shadowRayQueue_Ld qs)(index := Ld)\<rparr>))))"

section \<open>The null-collision branch on binary32 values\<close>

text \<open>
  \<^verbatim>\<open>Float\<close> is IEEE binary32 in the source. Where a property is about rounding itself the
  real-valued reading says nothing, so the arithmetic of the null-collision branch is
  embedded a second time, over binary32 values. A finite value is the real number it
  denotes (the sign of a zero is not tracked). A product is the exact product rounded to
  the nearest representable number, a tie going to the even significand, with gradual
  underflow below \<open>2^-126\<close> and an infinity from \<open>2^128 - 2^103\<close> on.
\<close>
datatype binary32 = Finite32 real | PosInf32 | NegInf32 | NaN32

text \<open>The exponent \<open>e\<close> of a real other than zero: \<open>2^e \<le> |x| < 2^(e+1)\<close>.\<close>
definition binade :: "real \<Rightarrow> int" where
  "binade x =
     (if 1 \<le> \<bar>x\<bar> then bitlen \<lfloor>\<bar>x\<bar>\<rfloor> - 1 else - bitlen (\<lceil>1 / \<bar>x\<bar>\<rceil> - 1))"

text \<open>The nearest integer, a tie going to the even one.\<close>
definition nearest_even :: "real \<Rightarrow> int" where
  "nearest_even y =
     (let f = \<lfloor>y\<rfloor>
      in if y - of_int f < 1 / 2 then f
         else if 1 / 2 < y - of_int f then f + 1
         else if even f then f else f + 1)"

text \<open>
  Rounding to binary32: 24 significant bits, and a spacing of \<open>2^-149\<close> for everything
  below \<open>2^-126\<close>.
\<close>
definition round32 :: "real \<Rightarrow> binary32" where
  "round32 x =
     (if x = 0 then Finite32 0
      else
        (let ulp = 2 powi (max (binade x) (- 126) - 23);
             y = of_int (nearest_even (x / ulp)) * ulp
         in if 2 ^ 128 \<le> \<bar>y\<bar> then (if 0 < x then PosInf32 else NegInf32) else Finite32 y))"

text \<open>\<^verbatim>\<open>a * b\<close>, \<^verbatim>\<open>a < b\<close> and \<^verbatim>\<open>std::max(a, b)\<close> on binary32 values.\<close>
fun negative32 :: "binary32 \<Rightarrow> bool" where
  "negative32 (Finite32 a) = (a < 0)"
| "negative32 NegInf32 = True"
| "negative32 PosInf32 = False"
| "negative32 NaN32 = False"

fun mul32 :: "binary32 \<Rightarrow> binary32 \<Rightarrow> binary32" where
  "mul32 NaN32 y = NaN32"
| "mul32 x NaN32 = NaN32"
| "mul32 (Finite32 a) (Finite32 b) = round32 (a * b)"
| "mul32 x y =
     (if x = Finite32 0 \<or> y = Finite32 0 then NaN32
      else if negative32 x = negative32 y then PosInf32 else NegInf32)"

fun less32 :: "binary32 \<Rightarrow> binary32 \<Rightarrow> bool" where
  "less32 NaN32 y = False"
| "less32 x NaN32 = False"
| "less32 (Finite32 a) (Finite32 b) = (a < b)"
| "less32 x PosInf32 = (x \<noteq> PosInf32)"
| "less32 NegInf32 y = (y \<noteq> NegInf32)"
| "less32 x y = False"

definition max32 :: "binary32 \<Rightarrow> binary32 \<Rightarrow> binary32" where
  "max32 a b = (if less32 a b then b else a)"

text \<open>
  Modelled from the spec: the operators of \<^verbatim>\<open>SampledSpectrum\<close> that the branch uses, as
  above, on four binary32 components: the component-wise product, the product with a
  \<^verbatim>\<open>Float\<close>, and the maximum component.
\<close>
datatype SampledSpectrum32 = SampledSpectrum32 binary32 binary32 binary32 binary32

definition spec_const32 :: "real \<Rightarrow> SampledSpectrum32" where
  "spec_const32 c = SampledSpectrum32 (Finite32 c) (Finite32 c) (Finite32 c) (Finite32 c)"

fun smul32 :: "SampledSpectrum32 \<Rightarrow> SampledSpectrum32 \<Rightarrow> SampledSpectrum32" where
  "smul32 (SampledSpectrum32 a b c d) (SampledSpectrum32 e f g h) =
     SampledSpectrum32 (mul32 a e) (mul32 b f) (mul32 c g) (mul32 d h)"

fun sscale32 :: "SampledSpectrum32 \<Rightarrow> binary32 \<Rightarrow> SampledSpectrum32" where
  "sscale32 (SampledSpectrum32 a b c d) k =
     SampledSpectrum32 (mul32 a k) (mul32 b k) (mul32 c k) (mul32 d k)"

fun MaxComponentValue32 :: "SampledSpectrum32 \<Rightarrow> binary32" where
  "MaxComponentValue32 (SampledSpectrum32 a b c d) = max32 (max32 (max32 a b) c) d"

text \<open>
  The arithmetic of the null-collision branch (lines 118-141) on binary32 values: the three
  products, the overflow test on the rounded products, the rescale by \<^verbatim>\<open>1.f / 0x1p24f\<close>,
  which is \<open>2^-24\<close>, and \<^verbatim>\<open>return true\<close>. \<open>sigma_n_value\<close> is what
  \<^verbatim>\<open>intr.sigma_n()\<close> returned.
\<close>
definition null_collision32 ::
  "SampledSpectrum32 \<times> SampledSpectrum32 \<times> SampledSpectrum32 \<Rightarrow>
   SampledSpectrum32 \<Rightarrow> SampledSpectrum32 \<Rightarrow> SampledSpectrum32 \<Rightarrow>
   bool \<times> SampledSpectrum32 \<times> SampledSpectrum32 \<times> SampledSpectrum32" where
  "null_collision32 s Tmaj sigma_n_value sigma_maj =
     (case s of (beta0, pdfUni0, pdfNEE0) \<Rightarrow>
       (let beta = smul32 beta0 (smul32 Tmaj sigma_n_value);
            pdfUni = smul32 pdfUni0 (smul32 Tmaj sigma_n_value);
            pdfNEE = smul32 pdfNEE0 (smul32 Tmaj sigma_maj)
        in if less32 (Finite32 (2 ^ 24)) (MaxComponentValue32 beta) \<or>
              less32 (Finite32 (2 ^ 24)) (MaxComponentValue32 pdfUni) \<or>
              less32 (Finite32 (2 ^ 24)) (MaxComponentValue32 pdfNEE)
           then (True, sscale32 beta (Finite32 (1 / 2 ^ 24)),
                 sscale32 pdfUni (Finite32 (1 / 2 ^ 24)),
                 sscale32 pdfNEE (Finite32 (1 / 2 ^ 24)))
           else (True, beta, pdfUni, pdfNEE)))"

text \<open>
  The quotient \<^verbatim>\<open>beta / pdfUni.Average()\<close> of two binary32 spectra, as the exact quotient
  of the numbers they hold when all of them are finite.
\<close>
fun finite_values :: "SampledSpectrum32 \<Rightarrow> SampledSpectrum option" where
  "finite_values (SampledSpectrum32 (Finite32 a) (Finite32 b) (Finite32 c) (Finite32 d)) =
     Some (SampledSpectrum a b c d)"
| "finite_values s = None"

definition quotient32 ::
  "SampledSpectrum32 \<Rightarrow> SampledSpectrum32 \<Rightarrow> SampledSpectrum option" where
  "quotient32 beta pdfUni =
     (case (finite_values beta, finite_values pdfUni) of
        (Some b, Some u) \<Rightarrow> Some (sdivf b (Average u))
      | _ \<Rightarrow> None)"

section \<open>A scripted scene\<close>

text \<open>
  A concrete instance of the external interface, for running the model: each medium reports
  a fixed list of collision samples and then the sample that ends the segment, the generator
  is a position in a fixed stream of uniform numbers, and \<^verbatim>\<open>SampleDiscrete\<close> walks the
  cumulative weights.
\<close>
type_synonym script = "MediumSample list \<times> SampledSpectrum"

definition script_next :: "script \<Rightarrow> nat \<Rightarrow> MediumSample \<times> script \<times> nat" where
  "script_next ts rng =
     (case fst ts of
        [] \<Rightarrow> (\<lparr>smp_intr = None, smp_Tmaj = snd ts\<rparr>, ts, rng)
      | x # xs \<Rightarrow> (x, (xs, snd ts), rng))"

fun walk_weights :: "Float list \<Rightarrow> Float \<Rightarrow> int" where
  "walk_weights [] up = 0"
| "walk_weights (w # ws) up = (if w \<le> up then 1 + walk_weights ws (up - w) else 0)"

definition scripted_SampleDiscrete :: "Float list \<Rightarrow> Float \<Rightarrow> int" where
  "scripted_SampleDiscrete ws u = (if ws = [] then - 1 else walk_weights ws (u * sum_list ws))"

definition scripted_ext ::
  "(Medium \<Rightarrow> script) \<Rightarrow> (nat \<Rightarrow> Float) \<Rightarrow> (Ray \<Rightarrow> SurfaceInteraction option) \<Rightarrow>
   (nat, script) Ext" where
  "scripted_ext media us tr =
     \<lparr>Hash_Float = (\<lambda>t. case t of Fin x \<Rightarrow> 1 | Infinity \<Rightarrow> 0),
      Hash_Vector3f = (\<lambda>v. 2),
      Hash_Point3f = (\<lambda>p. 3),
      RNG_init = (\<lambda>a b. 0),
      RNG_Uniform = (\<lambda>n. (us n, Suc n)),
      SampleDiscrete = scripted_SampleDiscrete,
      Tmaj_begin = (\<lambda>m ray tMax lambda. media m),
      Tmaj_next = script_next,
      Interaction_SpawnRay = (\<lambda>hp n mi d.
        \<lparr>ray_o = Point3f_of hp, ray_d = d, ray_time = 0, ray_medium = mi_outside mi\<rparr>),
      Interaction_SpawnRayTo = (\<lambda>hp n mi p.
        \<lparr>ray_o = Point3f_of hp, ray_d = psub p (Point3f_of hp), ray_time = 0,
         ray_medium = mi_outside mi\<rparr>),
      SurfaceInteraction_SpawnRay = (\<lambda>intr d.
        \<lparr>ray_o = Point3f_of (si_pi intr), ray_d = d, ray_time = si_time intr,
         ray_medium = None\<rparr>),
      Trace = (\<lambda>ray tMin tMax shadow. tr ray),
      lightSampler_Sample = (\<lambda>ctx u.
        Some \<lparr>sl_light = Some \<lparr>light_id = 0, light_Type = Area\<rparr>, sl_pdf = 1 / 2\<rparr>),
      light_SampleLi = (\<lambda>l ctx u lambda.
        Some \<lparr>ls_L = spec_const 1, ls_wi = (0, 0, 1), ls_pdf = 1 / 4, ls_pLight = (0, 0, 2)\<rparr>),
      phase_p = (\<lambda>hg wo wi. 1 / 8),
      phase_PDF = (\<lambda>hg wo wi. 1 / 8),
      phase_Sample_p = (\<lambda>hg wo u. Some \<lparr>ps_p = 1 / 8, ps_wi = (1, 0, 0), ps_pdf = 1 / 8\<rparr>),
      ShadowEpsilon = 1 / 10000\<rparr>"

text \<open>A ray along the z axis inside medium 0, and a work item carrying it to a hit at distance 1.\<close>
definition example_ray :: Ray where
  "example_ray = \<lparr>ray_o = (0, 0, 0), ray_d = (0, 0, 1), ray_time = 0, ray_medium = Some 0\<rparr>"

definition example_ms :: MediumSampleWorkItem where
  "example_ms =
     \<lparr>ms_ray = example_ray, ms_tMax = Fin 1, ms_lambda = SampledSpectrum 400 500 600 700,
      ms_beta = spec_const 1, ms_pdfUni = spec_const 1, ms_pdfNEE = spec_const 1,
      ms_rayIndex = 0, ms_pixelIndex = 7, ms_piPrev = ((0, 0), (0, 0), (0, 0)),
      ms_nPrev = (0, 0, 1), ms_nsPrev = (0, 0, 1), ms_isSpecularBounce = False,
      ms_anyNonSpecularBounces = False, ms_etaScale = 1, ms_areaLight = None,
      ms_pi = ((0, 0), (0, 0), (1, 1)), ms_n = (0, 0, - 1), ms_wo = (0, 0, - 1),
      ms_uv = (0, 0), ms_material = None, ms_ns = (0, 0, - 1), ms_dpdus = (1, 0, 0),
      ms_dpdvs = (0, 1, 0), ms_dndus = (0, 0, 0), ms_dndvs = (0, 0, 0),
      ms_mediumInterface = \<lparr>mi_inside = Some 0, mi_outside = None\<rparr>\<rparr>"

definition empty_queues :: Queues where
  "empty_queues =
     \<lparr>mediumSampleQueue = [], mediumScatterQueue = [], escapedRayQueue = Some [],
      mediumTransitionQueue = [], hitAreaLightQueue = [], basicEvalMaterialQueue = [],
      universalEvalMaterialQueue = [], shadowRayQueue = [],
      shadowRayQueue_Ld = (\<lambda>i. spec_const 0), rayQueues = (\<lambda>i. []),
      rayQueues_raySamples = (\<lambda>i j. \<lparr>direct_uc = 1 / 2, direct_u = (1 / 2, 1 / 2),
                                       indirect_u = (1 / 2, 1 / 2), indirect_rr = 1 / 2\<rparr>),
      pixelSampleState_L = (\<lambda>i. spec_const 0)\<rparr>"

text \<open>A collision sample with the given coefficients and majorant transmittance.\<close>
definition collision ::
  "Float \<Rightarrow> Float \<Rightarrow> Float \<Rightarrow> Float \<Rightarrow> Float \<Rightarrow> PhaseFunctionHandle \<Rightarrow> MediumSample" where
  "collision a s maj le T ph =
     \<lparr>smp_intr = Some \<lparr>intr_p = (0, 0, 1 / 2), intr_sigma_a = spec_const a,
                        intr_sigma_s = spec_const s, intr_sigma_maj = spec_const maj,
                        intr_Le = spec_const le, intr_phase = ph\<rparr>,
      smp_Tmaj = spec_const T\<rparr>"

definition example_st :: SamplerState where
  "example_st = SampleMedium_init example_ms empty_queues"

text \<open>
  A medium with one collision sample (\<^verbatim>\<open>sigma_a = sigma_s = 1/4\<close>, \<^verbatim>\<open>sigma_maj = 1\<close>,
  \<^verbatim>\<open>Tmaj = 1/2\<close>, emission \<open>le\<close>) before the end of the segment, and three scenes over it
  whose uniform numbers select a null collision, a scattering and an absorption.
\<close>
definition example_intr :: "Float \<Rightarrow> MediumInteraction" where
  "example_intr le =
     \<lparr>intr_p = (0, 0, 1 / 2), intr_sigma_a = spec_const (1 / 4),
      intr_sigma_s = spec_const (1 / 4), intr_sigma_maj = spec_const 1,
      intr_Le = spec_const le, intr_phase = HGPhase \<lparr>hg_g = 0\<rparr>\<rparr>"

definition fog :: "Float \<Rightarrow> Medium \<Rightarrow> script" where
  "fog le m = ([\<lparr>smp_intr = Some (example_intr le), smp_Tmaj = spec_const (1 / 2)\<rparr>], spec_const 1)"

definition null_scene :: "(nat, script) Ext" where
  "null_scene = scripted_ext (fog 2) (\<lambda>n. 9 / 10) (\<lambda>r. None)"

definition scatter_scene :: "(nat, script) Ext" where
  "scatter_scene = scripted_ext (fog 2) (\<lambda>n. 3 / 10) (\<lambda>r. None)"

definition absorb_scene :: "(nat, script) Ext" where
  "absorb_scene = scripted_ext (fog 0) (\<lambda>n. 1 / 10) (\<lambda>r. None)"

text \<open>The medium-transition item the absorbed example item is expected to leave.\<close>
definition absorbed_transition :: MediumTransitionWorkItem where
  "absorbed_transition =
     \<lparr>mt_ray = \<lparr>ray_o = (0, 0, 1), ray_d = (0, 0, 1), ray_time = 0, ray_medium = None\<rparr>,
      mt_lambda = SampledSpectrum 400 500 600 700, mt_beta = spec_const 0,
      mt_pdfUni = spec_const 1, mt_pdfNEE = spec_const 1,
      mt_piPrev = ((0, 0), (0, 0), (0, 0)), mt_nPrev = (0, 0, 1), mt_nsPrev = (0, 0, 1),
      mt_isSpecularBounce = False, mt_anyNonSpecularBounces = False, mt_etaScale = 1,
      mt_pixelIndex = 7\<rparr>"

text \<open>A ray in vacuum, and a hit on an emitter with no material bound.\<close>
definition example_r :: RayWorkItem where
  "example_r =
     \<lparr>r_ray = \<lparr>ray_o = (0, 0, 0), ray_d = (0, 0, 1), ray_time = 0, ray_medium = None\<rparr>,
      r_piPrev = ((0, 0), (0, 0), (0, 0)), r_nPrev = (0, 0, 1), r_nsPrev = (0, 0, 1),
      r_beta = spec_const 1, r_pdfUni = spec_const 1, r_pdfNEE = spec_const 1,
      r_lambda = SampledSpectrum 400 500 600 700, r_etaScale = 1,
      r_isSpecularBounce = False, r_anyNonSpecularBounces = False, r_pixelIndex = 7\<rparr>"

definition emitter_hit :: SurfaceInteraction where
  "emitter_hit =
     \<lparr>si_pi = ((0, 0), (0, 0), (1, 1)), si_n = (0, 0, - 1), si_uv = (0, 0),
      si_wo = (0, 0, - 1), si_time = 0, si_material = None,
      si_areaLight = Some \<lparr>light_id = 1, light_Type = Area\<rparr>, si_mediumInterface = None,
      si_shading_n = (0, 0, - 1), si_shading_dpdu = (1, 0, 0), si_shading_dpdv = (0, 1, 0),
      si_shading_dndu = (0, 0, 0), si_shading_dndv = (0, 0, 0)\<rparr>"

definition example_material :: Material where
  "example_material =
     \<lparr>mat_Tag = 1, mat_basicCanEvaluateTextures = True, mat_Displacement = None,
      mat_IsTransparent = False\<rparr>"

text \<open>A scatter work item at the collision point of the example medium.\<close>
definition example_sc :: MediumScatterWorkItem where
  "example_sc =
     \<lparr>sc_p = (0, 0, 1 / 2), sc_lambda = SampledSpectrum 400 500 600 700,
      sc_beta = spec_const (1 / 16), sc_pdfUni = spec_const 1, sc_rayIndex = 0,
      sc_phase = \<lparr>hg_g = 0\<rparr>, sc_wo = (0, 0, - 1), sc_etaScale = 1, sc_medium = Some 0,
      sc_pixelIndex = 7\<rparr>"

definition example_rs :: "Float \<Rightarrow> RaySamples" where
  "example_rs rr =
     \<lparr>direct_uc = 1 / 2, direct_u = (1 / 2, 1 / 2), indirect_u = (1 / 2, 1 / 2),
      indirect_rr = rr\<rparr>"

text \<open>The null scene with a point light in place of the area light.\<close>
definition point_light_scene :: "(nat, script) Ext" where
  "point_light_scene =
     null_scene\<lparr>lightSampler_Sample := (\<lambda>ctx u.
       Some \<lparr>sl_light = Some \<lparr>light_id = 0, light_Type = DeltaPosition\<rparr>, sl_pdf = 1 / 2\<rparr>)\<rparr>"

text \<open>
  A medium that neither absorbs nor scatters (\<^verbatim>\<open>sigma_a = sigma_s = 0\<close>) under a majorant
  of 1: one collision sample with \<^verbatim>\<open>Tmaj = 1/2\<close>, then the end of the segment. And the
  same medium under a majorant of 0: no collision, and a transmittance of 1 to the end.
\<close>
definition clear_intr :: MediumInteraction where
  "clear_intr =
     \<lparr>intr_p = (0, 0, 1 / 2), intr_sigma_a = spec_const 0, intr_sigma_s = spec_const 0,
      intr_sigma_maj = spec_const 1, intr_Le = spec_const 0,
      intr_phase = HGPhase \<lparr>hg_g = 0\<rparr>\<rparr>"

definition void_scene :: "(nat, script) Ext" where
  "void_scene = scripted_ext (\<lambda>m. ([], spec_const 1)) (\<lambda>n. 9 / 10) (\<lambda>r. None)"

definition clear_scene :: "(nat, script) Ext" where
  "clear_scene =
     scripted_ext (\<lambda>m. ([\<lparr>smp_intr = Some clear_intr, smp_Tmaj = spec_const (1 / 2)\<rparr>],
                          spec_const 1))
       (\<lambda>n. 9 / 10) (\<lambda>r. None)"

text \<open>
  Two media without collisions, of transmittance 1 and 1/2 to the end of the segment, a
  generator seeded by the sum of the two hashes, and the example item in the second medium.
\<close>
definition two_media_scene :: "(nat, script) Ext" where
  "two_media_scene =
     (scripted_ext (\<lambda>m. ([], spec_const (if m = 0 then 1 else 1 / 2))) (\<lambda>n. 9 / 10) (\<lambda>r. None))
       \<lparr>Hash_Float := (\<lambda>t. case t of Fin x \<Rightarrow> (if x < 1 then 1 else 2) | Infinity \<Rightarrow> 0),
        Hash_Vector3f := (\<lambda>v. if snd (snd v) > 0 then 4 else 8),
        RNG_init := (\<lambda>a b. unat a + unat b)\<rparr>"

definition example_ms_1 :: MediumSampleWorkItem where
  "example_ms_1 = example_ms\<lparr>ms_ray := example_ray\<lparr>ray_medium := Some 1\<rparr>\<rparr>"

text \<open>The spectral outcome of a traversal: everything but the medium-scatter queue.\<close>
definition spectral ::
  "SamplerState \<Rightarrow> SampledSpectrum \<times> SampledSpectrum \<times> SampledSpectrum \<times> SampledSpectrum \<times> bool"
  where
  "spectral st = (st_beta st, st_pdfUni st, st_pdfNEE st, st_L st, st_scattered st)"

fun spectral_outcome ::
  "(error + (SamplerState \<times> 'rng)) option \<Rightarrow>
   (error + ((SampledSpectrum \<times> SampledSpectrum \<times> SampledSpectrum \<times> SampledSpectrum \<times> bool)
             \<times> 'rng)) option" where
  "spectral_outcome None = None"
| "spectral_outcome (Some (Inl e)) = Some (Inl e)"
| "spectral_outcome (Some (Inr (st, rng))) = Some (Inr (spectral st, rng))"

text \<open>
  A shadow scene: from the origin a shadow ray first crosses a boundary with no material
  at \<open>z = 1\<close>, and the continuation from there hits an opaque surface; rays from anywhere
  else miss. And two shadow items toward the light point \<open>(0, 0, 2)\<close>: one from the origin
  in vacuum, one from \<open>(5, 0, 0)\<close> through the example medium.
\<close>
definition interface_hit :: SurfaceInteraction where
  "interface_hit =
     emitter_hit\<lparr>si_areaLight := None,
                 si_mediumInterface := Some \<lparr>mi_inside = None, mi_outside = None\<rparr>\<rparr>"

definition opaque_hit :: SurfaceInteraction where
  "opaque_hit =
     emitter_hit\<lparr>si_pi := ((0, 0), (0, 0), (3 / 2, 3 / 2)), si_areaLight := None,
                 si_material := Some example_material\<rparr>"

definition shadow_scene :: "(nat, script) Ext" where
  "shadow_scene =
     scripted_ext (fog 0) (\<lambda>n. 9 / 10)
       (\<lambda>ray. if ray_o ray = (0, 0, 0) then Some interface_hit
              else if ray_o ray = (0, 0, 1) then Some opaque_hit else None)"

definition example_sr :: ShadowRayWorkItem where
  "example_sr =
     \<lparr>sr_ray = \<lparr>ray_o = (0, 0, 0), ray_d = (0, 0, 2), ray_time = 0, ray_medium = None\<rparr>,
      sr_tMax = 1, sr_lambda = SampledSpectrum 400 500 600 700, sr_Ld = spec_const 1,
      sr_pdfUni = spec_const 1, sr_pdfNEE = spec_const 1, sr_pixelIndex = 7\<rparr>"

definition example_sr_fog :: ShadowRayWorkItem where
  "example_sr_fog =
     example_sr\<lparr>sr_ray := \<lparr>ray_o = (5, 0, 0), ray_d = (- 5, 0, 2), ray_time = 0,
                            ray_medium = Some 0\<rparr>\<rparr>"

definition shadow_queues :: Queues where
  "shadow_queues = empty_queues\<lparr>shadowRayQueue := [example_sr, example_sr_fog]\<rparr>"

definition second_ray :: Ray where
  "second_ray = \<lparr>ray_o = (0, 0, 1), ray_d = (0, 0, 1), ray_time = 0, ray_medium = None\<rparr>"

definition unit_shadow_state :: ShadowState where
  "unit_shadow_state = \<lparr>sh_Ld = spec_const 1, sh_pdfUni = spec_const 1, sh_pdfNEE = spec_const 1\<rparr>"

text \<open>The empty queues with the given roulette sample for every ray.\<close>
definition roulette_queues :: "Float \<Rightarrow> Queues" where
  "roulette_queues rr = empty_queues\<lparr>rayQueues_raySamples := (\<lambda>i j. example_rs rr)\<rparr>"

text \<open>
  The example item with no hit (\<^verbatim>\<open>tMax\<close> is \<^verbatim>\<open>Infinity\<close>) but a material and an area light
  bound, to exercise every push of the code after the traversal.
\<close>
definition lit_example_ms :: MediumSampleWorkItem where
  "lit_example_ms =
     example_ms\<lparr>ms_tMax := Infinity, ms_material := Some example_material,
                ms_areaLight := Some \<lparr>light_id = 1, light_Type = Area\<rparr>\<rparr>"

section \<open>Verified properties\<close>

subsection \<open>Spectra and the scripted scene\<close>

lemma scripted_ext_sel [simp]:
  "RNG_Uniform (scripted_ext media us tr) n = (us n, Suc n)"
  "SampleDiscrete (scripted_ext media us tr) = scripted_SampleDiscrete"
  "RNG_init (scripted_ext media us tr) a b = 0"
  "Tmaj_begin (scripted_ext media us tr) m ray tMax lambda = media m"
  "Tmaj_next (scripted_ext media us tr) = script_next"
  "Trace (scripted_ext media us tr) ray tMin tEnd shadow = tr ray"
  "ShadowEpsilon (scripted_ext media us tr) = 1 / 10000"
  "Interaction_SpawnRay (scripted_ext media us tr) hp hn mi d =
     \<lparr>ray_o = Point3f_of hp, ray_d = d, ray_time = 0, ray_medium = mi_outside mi\<rparr>"
  "Interaction_SpawnRayTo (scripted_ext media us tr) hp hn mi p =
     \<lparr>ray_o = Point3f_of hp, ray_d = psub p (Point3f_of hp), ray_time = 0,
      ray_medium = mi_outside mi\<rparr>"
  "lightSampler_Sample (scripted_ext media us tr) ctx u =
     Some \<lparr>sl_light = Some \<lparr>light_id = 0, light_Type = Area\<rparr>, sl_pdf = 1 / 2\<rparr>"
  "light_SampleLi (scripted_ext media us tr) l ctx u2 lambda =
     Some \<lparr>ls_L = spec_const 1, ls_wi = (0, 0, 1), ls_pdf = 1 / 4, ls_pLight = (0, 0, 2)\<rparr>"
  "phase_p (scripted_ext media us tr) hg wo wi = 1 / 8"
  "phase_PDF (scripted_ext media us tr) hg wo wi = 1 / 8"
  "phase_Sample_p (scripted_ext media us tr) hg wo u2 =
     Some \<lparr>ps_p = 1 / 8, ps_wi = (1, 0, 0), ps_pdf = 1 / 8\<rparr>"
  by (simp_all add: scripted_ext_def)

lemma spec_const_ops [simp]:
  "smul (spec_const a) (spec_const b) = spec_const (a * b)"
  "sadd (spec_const a) (spec_const b) = spec_const (a + b)"
  "ssub (spec_const a) (spec_const b) = spec_const (a - b)"
  "sscale (spec_const a) k = spec_const (a * k)"
  "sdivf (spec_const a) k = spec_const (a / k)"
  "ClampZero (spec_const a) = spec_const (max 0 a)"
  "Average (spec_const a) = a"
  "MaxComponentValue (spec_const a) = a"
  "comp0 (spec_const a) = a"
  "nonzero (spec_const a) = (a \<noteq> 0)"
  "(spec_const a = spec_const b) = (a = b)"
  by (simp_all add: spec_const_def)

lemma collision_mode:
  "drawn_mode (scripted_ext media us tr)
     \<lparr>intr_p = p, intr_sigma_a = spec_const a, intr_sigma_s = spec_const s,
      intr_sigma_maj = spec_const maj, intr_Le = le, intr_phase = ph\<rparr> n =
   walk_weights [a / maj, s / maj, max 0 (1 - a / maj - s / maj)]
     (us n * (a / maj + (s / maj + max 0 (1 - a / maj - s / maj))))"
  by (simp add: drawn_mode_def scripted_SampleDiscrete_def pAbsorb_def pScatter_def pNull_def
      spec_const_def)

subsection \<open>Null collisions and the overflow rescale\<close>

text \<open>
  The exponent function is the floor of the binary logarithm: \<open>binade x = e\<close> for the one
  \<open>e\<close> with \<open>2^e \<le> |x| < 2^(e+1)\<close>. The first two lemmas evaluate it at a given number.
\<close>
lemma bitlen_eqI:
  assumes "2 ^ n \<le> k" and "k < 2 ^ Suc n"
  shows "bitlen k = int n + 1"
proof (rule antisym)
  show "bitlen k \<le> int n + 1"
    using assms(2) by (simp add: bitlen_le_iff_power nat_add_distrib)
  show "int n + 1 \<le> bitlen k"
    using assms(1) by (simp add: bitlen_ge_iff_power nat_add_distrib)
qed

lemma binade_ge1:
  assumes "2 ^ n \<le> \<bar>x\<bar>" and "\<bar>x\<bar> < 2 ^ Suc n"
  shows "binade x = int n"
proof -
  have one: "1 \<le> \<bar>x\<bar>"
    using assms(1) by (meson one_le_numeral one_le_power order_trans)
  have "(2::real) ^ n = of_int (2 ^ n)" by simp
  then have lo: "(2::int) ^ n \<le> \<lfloor>\<bar>x\<bar>\<rfloor>"
    using assms(1) by (metis le_floor_iff)
  have "(2::real) ^ Suc n = of_int (2 ^ Suc n)" by simp
  then have hi: "\<lfloor>\<bar>x\<bar>\<rfloor> < (2::int) ^ Suc n"
    using assms(2) by (metis floor_less_iff)
  from bitlen_eqI [OF lo hi] one show ?thesis
    by (simp add: binade_def)
qed

lemma binade_lt1:
  assumes "1 / 2 ^ Suc n \<le> \<bar>x\<bar>" and "\<bar>x\<bar> < 1 / 2 ^ n"
  shows "binade x = - int (Suc n)"
proof -
  have pos: "0 < \<bar>x\<bar>"
    using assms(1) by (smt (verit) divide_pos_pos zero_less_power)
  have lt1: "\<bar>x\<bar> < 1"
    using assms(2) by (smt (verit) divide_le_eq_1_pos one_le_power zero_less_power)
  have up: "1 / \<bar>x\<bar> \<le> 2 ^ Suc n"
    using assms(1) pos by (simp add: field_simps)
  have dn: "2 ^ n < 1 / \<bar>x\<bar>"
    using assms(2) pos by (simp add: field_simps)
  have "(2::real) ^ Suc n = of_int (2 ^ Suc n)" by simp
  then have "\<lceil>1 / \<bar>x\<bar>\<rceil> \<le> (2::int) ^ Suc n"
    using up by (metis ceiling_le_iff)
  then have hi: "\<lceil>1 / \<bar>x\<bar>\<rceil> - 1 < (2::int) ^ Suc n" by simp
  have "(2::real) ^ n = of_int (2 ^ n)" by simp
  then have "(2::int) ^ n < \<lceil>1 / \<bar>x\<bar>\<rceil>"
    using dn by (metis less_ceiling_iff)
  then have lo: "(2::int) ^ n \<le> \<lceil>1 / \<bar>x\<bar>\<rceil> - 1" by simp
  from bitlen_eqI [OF lo hi] lt1 show ?thesis
    by (simp add: binade_def)
qed

text \<open>
  Rounding at the numbers of the example below: \<open>1.5 * 2^-150\<close> lies between the
  neighbours \<open>0\<close> and \<open>2^-149\<close> and goes to the nearer; the others are binary32 numbers.
\<close>
lemma round32_underflow: "round32 (3 / 2 ^ 151) = Finite32 (1 / 2 ^ 149)"
proof -
  have b: "binade (3 / 2 ^ 151) = - 150"
    using binade_lt1 [of 149 "3 / 2 ^ 151"] by simp
  show ?thesis
    using b by (simp add: round32_def Let_def nearest_even_def power_int_minus)
qed

lemma round32_exact:
  "round32 1 = Finite32 1"
  "round32 2 = Finite32 2"
  "round32 (2 ^ 25) = Finite32 (2 ^ 25)"
  "round32 (3 / 2 ^ 127) = Finite32 (3 / 2 ^ 127)"
  "round32 (1 / 2 ^ 125) = Finite32 (1 / 2 ^ 125)"
  "round32 (1 / 2 ^ 149) = Finite32 (1 / 2 ^ 149)"
proof -
  have b: "binade 1 = 0" "binade 2 = 1" "binade (2 ^ 25) = 25"
    "binade (3 / 2 ^ 127) = - 126" "binade (1 / 2 ^ 125) = - 125"
    "binade (1 / 2 ^ 149) = - 149"
    using binade_ge1 [of 0 1] binade_ge1 [of 1 2] binade_ge1 [of 25 "2 ^ 25"]
      binade_lt1 [of 125 "3 / 2 ^ 127"] binade_lt1 [of 124 "1 / 2 ^ 125"]
      binade_lt1 [of 148 "1 / 2 ^ 149"]
    by simp_all
  show "round32 1 = Finite32 1" "round32 2 = Finite32 2"
    "round32 (2 ^ 25) = Finite32 (2 ^ 25)"
    "round32 (3 / 2 ^ 127) = Finite32 (3 / 2 ^ 127)"
    "round32 (1 / 2 ^ 125) = Finite32 (1 / 2 ^ 125)"
    "round32 (1 / 2 ^ 149) = Finite32 (1 / 2 ^ 149)"
    using b by (simp_all add: round32_def Let_def nearest_even_def power_int_minus)
qed

text \<open>The same for every exponent, and the bounds of \<open>binade\<close> at every number.\<close>
lemma binade_unique:
  assumes "2 powi e \<le> \<bar>x\<bar>" and "\<bar>x\<bar> < 2 powi (e + 1)"
  shows "binade x = e"
proof (cases "0 \<le> e")
  case True
  have "2 powi e = (2::real) ^ nat e" "2 powi (e + 1) = (2::real) ^ Suc (nat e)"
    using True by (simp_all add: power_int_def nat_add_distrib)
  with assms have "2 ^ nat e \<le> \<bar>x\<bar>" "\<bar>x\<bar> < 2 ^ Suc (nat e)" by simp_all
  from binade_ge1 [OF this] True show ?thesis by simp
next
  case False
  define n where "n = nat (- e - 1)"
  have e: "e = - int (Suc n)" and e1: "e + 1 = - int n" using False by (simp_all add: n_def)
  have "2 powi e = 1 / (2::real) ^ Suc n"
    unfolding e power_int_minus power_int_of_nat by (simp add: field_simps)
  moreover have "2 powi (e + 1) = 1 / (2::real) ^ n"
    unfolding e1 power_int_minus power_int_of_nat by (simp add: field_simps)
  ultimately have "1 / 2 ^ Suc n \<le> \<bar>x\<bar>" "\<bar>x\<bar> < 1 / 2 ^ n" using assms by simp_all
  from binade_lt1 [OF this] e show ?thesis by simp
qed

lemma powr_powi: "(2::real) powr (of_int e) = 2 powi e"
  by (simp add: powr_real_of_int power_int_def power_inverse inverse_eq_divide power_divide)

lemma binade_bounds:
  assumes "x \<noteq> 0"
  shows "2 powi binade x \<le> \<bar>x\<bar> \<and> \<bar>x\<bar> < 2 powi (binade x + 1)"
proof -
  define e where "e = \<lfloor>log 2 \<bar>x\<bar>\<rfloor>"
  have pos: "0 < \<bar>x\<bar>" using assms by simp
  have "2 powr (of_int e) \<le> \<bar>x\<bar> \<and> \<bar>x\<bar> < 2 powr (of_int e + 1)"
    using floor_log_eq_powr_iff [OF pos, of 2 e] by (simp add: e_def)
  moreover have "(2::real) powr (of_int e + 1) = 2 powr (of_int (e + 1))" by simp
  ultimately have b: "2 powi e \<le> \<bar>x\<bar>" "\<bar>x\<bar> < 2 powi (e + 1)"
    unfolding powr_powi by simp_all
  from binade_unique [OF b] b show ?thesis by simp
qed

text \<open>
  Above the underflow range the rescale is exact, as the comment at lines 133-135 has it: a
  binary32 number whose \<open>2^24\<close>-th part is at least \<open>2^-126\<close> in magnitude is divided by
  \<open>2^24\<close> without rounding.
\<close>
lemma round32_rescale_exact:
  assumes rep: "round32 x = Finite32 x"
      and normal: "1 / 2 ^ 126 \<le> \<bar>x\<bar> / 2 ^ 24"
  shows "round32 (x / 2 ^ 24) = Finite32 (x / 2 ^ 24)"
proof -
  have x0: "x \<noteq> 0" using normal by auto
  define e where "e = binade x"
  from binade_bounds [OF x0] have b: "2 powi e \<le> \<bar>x\<bar>" "\<bar>x\<bar> < 2 powi (e + 1)"
    by (simp_all add: e_def)
  have p24: "(2::real) powi (k - 24) = 2 powi k / 2 ^ 24" for k
    by (simp add: power_int_diff)
  have b': "2 powi (e - 24) \<le> \<bar>x / 2 ^ 24\<bar>" "\<bar>x / 2 ^ 24\<bar> < 2 powi (e - 24 + 1)"
    using b p24 [of e] p24 [of "e + 1"] by (simp_all add: divide_le_cancel divide_strict_right_mono algebra_simps)
  have be: "binade (x / 2 ^ 24) = e - 24"
    by (rule binade_unique [OF b'])
  have lo: "- 126 \<le> e - 24"
  proof (rule ccontr)
    assume "\<not> - 126 \<le> e - 24"
    then have "e - 24 + 1 \<le> - 126" by simp
    then have "(2::real) powi (e - 24 + 1) \<le> 2 powi (- 126)"
      by (intro power_int_increasing) simp_all
    with b'(2) have "\<bar>x / 2 ^ 24\<bar> < 2 powi (- 126)" by simp
    with normal show False by (simp add: power_int_minus field_simps)
  qed
  then have m: "max e (- 126) = e" "max (e - 24) (- 126) = e - 24" by simp_all
  define ulp :: real where "ulp = 2 powi (e - 23)"
  have ulp': "2 powi (e - 24 - 23) = ulp / 2 ^ 24"
    unfolding ulp_def using p24 [of "e - 23"] by (simp add: algebra_simps)
  have ulp0: "ulp \<noteq> 0" unfolding ulp_def by simp
  from rep x0 have y: "of_int (nearest_even (x / ulp)) * ulp = x"
    unfolding round32_def Let_def e_def [symmetric] m ulp_def [symmetric]
    by (simp split: if_splits)
  from rep x0 have fin: "\<not> 2 ^ 128 \<le> \<bar>of_int (nearest_even (x / ulp)) * ulp\<bar>"
    unfolding round32_def Let_def e_def [symmetric] m ulp_def [symmetric]
    by (simp split: if_splits)
  have q: "x / 2 ^ 24 / (ulp / 2 ^ 24) = x / ulp" by simp
  have y': "of_int (nearest_even (x / ulp)) * (ulp / 2 ^ 24) = x / 2 ^ 24"
    using y by (simp add: field_simps)
  have fin': "\<not> 2 ^ 128 \<le> \<bar>x / 2 ^ 24\<bar>"
  proof -
    have "\<bar>x / 2 ^ 24\<bar> \<le> \<bar>x\<bar>" by (simp add: field_simps)
    with fin y show ?thesis by simp
  qed
  show ?thesis
    unfolding round32_def Let_def be m ulp' q y'
    using x0 fin' by simp
qed

text \<open>
  The overflow test is on the rounded products: \<open>24929 * 673 = 2^24 + 1\<close> rounds to
  \<open>2^24\<close>, which does not exceed \<open>2^24\<close>, so nothing is rescaled.
\<close>
lemma null_collision32_rounded_test:
  "null_collision32 (spec_const32 24929, spec_const32 1, spec_const32 1)
     (spec_const32 1) (spec_const32 673) (spec_const32 1) =
     (True, spec_const32 (2 ^ 24), spec_const32 673, spec_const32 1)"
proof -
  have b: "binade 673 = 9" "binade 16777217 = 24"
    using binade_ge1 [of 9 673] binade_ge1 [of 24 16777217] by simp_all
  have r: "round32 673 = Finite32 673" "round32 16777217 = Finite32 16777216"
    using b by (simp_all add: round32_def Let_def nearest_even_def)
  show ?thesis
    using r round32_exact(1)
    by (simp add: null_collision32_def Let_def spec_const32_def max32_def)
qed

text \<open>
  Claim C1 fails in the code, on underflow. Take a null collision with \<^verbatim>\<open>Tmaj\<close> \<open>= 1/2\<close>
  and \<^verbatim>\<open>sigma_n = sigma_maj\<close> \<open>= 2\<close> on running values that are, in all four components,
  \<^verbatim>\<open>beta\<close> \<open>= 1.5 * 2^-126\<close>, \<^verbatim>\<open>pdfUni\<close> \<open>= 2^-125\<close> and \<^verbatim>\<open>pdfNEE\<close> \<open>= 2^25\<close>. The three
  products leave the values as they are, \<^verbatim>\<open>pdfNEE\<close> exceeds \<open>2^24\<close>, and all three are
  multiplied by \<open>2^-24\<close>: \<^verbatim>\<open>pdfUni\<close> and \<^verbatim>\<open>pdfNEE\<close> become \<open>2^-149\<close> and \<open>2\<close>, but
  \<open>1.5 * 2^-150\<close> is no binary32 number and \<^verbatim>\<open>beta\<close> is rounded to \<open>2^-149\<close>. The
  quotient \<^verbatim>\<open>beta / pdfUni.Average()\<close> is \<open>3/4\<close> before the rescale and \<open>1\<close> after it,
  where the claim, like the comment at lines 133-135, has the rescale lose no precision.
\<close>
theorem C1_rescale_underflow:
  "null_collision32
     (spec_const32 (3 / 2 ^ 127), spec_const32 (1 / 2 ^ 125), spec_const32 (2 ^ 25))
     (spec_const32 (1 / 2)) (spec_const32 2) (spec_const32 2) =
     (True, spec_const32 (1 / 2 ^ 149), spec_const32 (1 / 2 ^ 149), spec_const32 2) \<and>
   smul32 (spec_const32 (3 / 2 ^ 127)) (smul32 (spec_const32 (1 / 2)) (spec_const32 2)) =
     spec_const32 (3 / 2 ^ 127) \<and>
   smul32 (spec_const32 (1 / 2 ^ 125)) (smul32 (spec_const32 (1 / 2)) (spec_const32 2)) =
     spec_const32 (1 / 2 ^ 125) \<and>
   quotient32 (spec_const32 (3 / 2 ^ 127)) (spec_const32 (1 / 2 ^ 125)) =
     Some (spec_const (3 / 4)) \<and>
   quotient32 (spec_const32 (1 / 2 ^ 149)) (spec_const32 (1 / 2 ^ 149)) = Some (spec_const 1)"
proof -
  have one: "smul32 (spec_const32 (1 / 2)) (spec_const32 2) = spec_const32 1"
    using round32_exact(1) by (simp add: spec_const32_def)
  have b: "smul32 (spec_const32 (3 / 2 ^ 127)) (spec_const32 1) = spec_const32 (3 / 2 ^ 127)"
    using round32_exact(4) by (simp add: spec_const32_def)
  have u: "smul32 (spec_const32 (1 / 2 ^ 125)) (spec_const32 1) = spec_const32 (1 / 2 ^ 125)"
    using round32_exact(5) by (simp add: spec_const32_def)
  have e: "smul32 (spec_const32 (2 ^ 25)) (spec_const32 1) = spec_const32 (2 ^ 25)"
    using round32_exact(3) by (simp add: spec_const32_def)
  have big: "less32 (Finite32 (2 ^ 24)) (MaxComponentValue32 (spec_const32 (2 ^ 25)))"
    by (simp add: spec_const32_def max32_def)
  have b': "sscale32 (spec_const32 (3 / 2 ^ 127)) (Finite32 (1 / 2 ^ 24)) =
              spec_const32 (1 / 2 ^ 149)"
    using round32_underflow by (simp add: spec_const32_def)
  have u': "sscale32 (spec_const32 (1 / 2 ^ 125)) (Finite32 (1 / 2 ^ 24)) =
              spec_const32 (1 / 2 ^ 149)"
    using round32_exact(6) by (simp add: spec_const32_def)
  have e': "sscale32 (spec_const32 (2 ^ 25)) (Finite32 (1 / 2 ^ 24)) = spec_const32 2"
    using round32_exact(2) by (simp add: spec_const32_def)
  have run: "null_collision32
     (spec_const32 (3 / 2 ^ 127), spec_const32 (1 / 2 ^ 125), spec_const32 (2 ^ 25))
     (spec_const32 (1 / 2)) (spec_const32 2) (spec_const32 2) =
     (True, spec_const32 (1 / 2 ^ 149), spec_const32 (1 / 2 ^ 149), spec_const32 2)"
    using one b u e big b' u' e' by (simp add: null_collision32_def Let_def)
  have q: "quotient32 (spec_const32 (3 / 2 ^ 127)) (spec_const32 (1 / 2 ^ 125)) =
             Some (spec_const (3 / 4))"
    "quotient32 (spec_const32 (1 / 2 ^ 149)) (spec_const32 (1 / 2 ^ 149)) = Some (spec_const 1)"
    by (simp_all add: quotient32_def spec_const32_def spec_const_def)
  from run one b u q show ?thesis by simp
qed

subsection \<open>The traversal loop\<close>

text \<open>
  Fuel only decides whether a traversal is seen to return: once it returns, more fuel
  returns the same.
\<close>
lemma SampleTmaj_loop_fuel:
  "SampleTmaj_loop n nxt cb ts s = Some r \<Longrightarrow> SampleTmaj_loop (n + k) nxt cb ts s = Some r"
proof (induction n arbitrary: ts s)
  case 0
  then show ?case by simp
next
  case (Suc n)
  then show ?case
    by (auto split: prod.splits sum.splits if_splits)
qed

lemma shadow_Tr_loop_fuel:
  "shadow_Tr_loop n ext fuel lambda tMax pLight s = Some r \<Longrightarrow>
   shadow_Tr_loop (n + k) ext fuel lambda tMax pLight s = Some r"
proof (induction n arbitrary: s)
  case 0
  then show ?case by simp
next
  case (Suc n)
  then show ?case
    by (auto split: option.splits sum.splits control.splits)
qed

text \<open>
  The last call of a traversal, once the callback has answered it with \<^verbatim>\<open>false\<close>, gives
  the result of the traversal; and what holds of the callback's state at the start and is
  kept by every call that lets the traversal go on holds at every call.
\<close>
lemma SampleTmaj_calls_last:
  assumes "SampleTmaj_calls n nxt cb ts s \<noteq> []"
      and "last (SampleTmaj_calls n nxt cb ts s) = (smp, st0, r0)"
      and "cb smp (st0, r0) = Inr (False, st1, r1)"
  shows "SampleTmaj_loop n nxt cb ts s = Some (Inr (st1, r1))"
  using assms
proof (induction n arbitrary: ts s)
  case 0
  then show ?case by simp
next
  case (Suc n)
  obtain smp' ts' rng' where nx: "nxt ts (snd s) = (smp', ts', rng')"
    by (cases "nxt ts (snd s)") auto
  show ?case
  proof (cases "cb smp' (fst s, rng')")
    case (Inl e)
    with Suc.prems nx show ?thesis by simp
  next
    case (Inr x)
    obtain c st' rng'' where x: "x = (c, st', rng'')" by (cases x) auto
    show ?thesis
    proof (cases "c \<and> smp_intr smp' \<noteq> None")
      case True
      show ?thesis
      proof (cases "SampleTmaj_calls n nxt cb ts' (st', rng'') = []")
        case e: True
        with Suc.prems nx Inr x True show ?thesis by simp
      next
        case ne: False
        with Suc.prems(2) nx Inr x True
        have "last (SampleTmaj_calls n nxt cb ts' (st', rng'')) = (smp, st0, r0)" by simp
        from Suc.IH [OF ne this Suc.prems(3)] nx Inr x True show ?thesis by simp
      qed
    next
      case False
      with Suc.prems nx Inr x show ?thesis by auto
    qed
  qed
qed

lemma SampleTmaj_calls_invariant:
  assumes "(smp, st0, r0) \<in> set (SampleTmaj_calls n nxt cb ts s)"
      and "I (fst s)"
      and step: "\<And>smp st r st1 r1. I st \<Longrightarrow> cb smp (st, r) = Inr (True, st1, r1) \<Longrightarrow> I st1"
  shows "I st0"
  using assms(1,2)
proof (induction n arbitrary: ts s)
  case 0
  then show ?case by simp
next
  case (Suc n)
  obtain smp' ts' rng' where nx: "nxt ts (snd s) = (smp', ts', rng')"
    by (cases "nxt ts (snd s)") auto
  show ?case
  proof (cases "(smp, st0, r0) = (smp', fst s, rng')")
    case True
    with Suc.prems(2) show ?thesis by simp
  next
    case False
    show ?thesis
    proof (cases "cb smp' (fst s, rng')")
      case (Inl e)
      with Suc.prems(1) nx False show ?thesis by simp
    next
      case (Inr x)
      obtain c st' rng'' where x: "x = (c, st', rng'')" by (cases x) auto
      show ?thesis
      proof (cases "c \<and> smp_intr smp' \<noteq> None")
        case T: True
        with Suc.prems(1) nx Inr x False
        have mem: "(smp, st0, r0) \<in> set (SampleTmaj_calls n nxt cb ts' (st', rng''))" by auto
        from T Inr x have "cb smp' (fst s, rng') = Inr (True, st', rng'')" by simp
        from step [OF Suc.prems(2) this] have "I (fst (st', rng''))" by simp
        from Suc.IH [OF mem this] show ?thesis .
      next
        case F: False
        with Suc.prems(1) nx Inr x False show ?thesis by auto
      qed
    qed
  qed
qed

lemma callback_continue:
  assumes "SampleMedium_callback ext depth maxDepth ms lambda ray smp (st, r) = Inr (True, st1, r1)"
  shows "st_scattered st1 = st_scattered st \<and>
         st_mediumScatterQueue st1 = st_mediumScatterQueue st"
  using assms
  by (auto simp: SampleMedium_callback_def Let_def split: option.splits if_splits)

subsection \<open>What the code after the traversal pushes\<close>

lemma sadd_zero: "\<not> nonzero L \<Longrightarrow> sadd x L = x"
  by (cases x; cases L) simp


text \<open>The queues after an item that did not scatter.\<close>
lemma finish_unscattered:
  assumes ns: "\<not> st_scattered st"
      and sq: "st_mediumScatterQueue st = mediumScatterQueue qs"
  shows "SampleMedium_finish ext ms st qs =
     (let qs1 = qs\<lparr>pixelSampleState_L := (pixelSampleState_L qs)
                   (ms_pixelIndex ms := sadd (pixelSampleState_L qs (ms_pixelIndex ms)) (st_L st))\<rparr>;
          qs2 = (if ms_tMax ms = Infinity
                 then (case escapedRayQueue qs of
                         None \<Rightarrow> qs1
                       | Some q \<Rightarrow>
                           qs1\<lparr>escapedRayQueue := Some (q @
                             [\<lparr>er_beta = st_beta st, er_pdfUni = st_pdfUni st,
                               er_pdfNEE = st_pdfNEE st, er_lambda = ms_lambda ms,
                               er_rayo = ray_o (ms_ray ms), er_rayd = ray_d (ms_ray ms),
                               er_piPrev = ms_piPrev ms, er_nPrev = ms_nPrev ms,
                               er_nsPrev = ms_nsPrev ms,
                               er_specularBounce = int_of_bool (ms_isSpecularBounce ms),
                               er_pixelIndex = ms_pixelIndex ms\<rparr>])\<rparr>)
                 else qs1)
      in case ms_material ms of
           None \<Rightarrow>
             qs2\<lparr>mediumTransitionQueue := mediumTransitionQueue qs @
               [\<lparr>mt_ray = Interaction_SpawnRay ext (ms_pi ms) (ms_n ms)
                            (ms_mediumInterface ms) (ray_d (ms_ray ms)),
                 mt_lambda = ms_lambda ms, mt_beta = st_beta st, mt_pdfUni = st_pdfUni st,
                 mt_pdfNEE = st_pdfNEE st, mt_piPrev = ms_piPrev ms, mt_nPrev = ms_nPrev ms,
                 mt_nsPrev = ms_nsPrev ms, mt_isSpecularBounce = ms_isSpecularBounce ms,
                 mt_anyNonSpecularBounces = ms_anyNonSpecularBounces ms,
                 mt_etaScale = ms_etaScale ms, mt_pixelIndex = ms_pixelIndex ms\<rparr>]\<rparr>
         | Some material \<Rightarrow>
             (let qs3 =
                (case ms_areaLight ms of
                   None \<Rightarrow> qs2
                 | Some l \<Rightarrow>
                     qs2\<lparr>hitAreaLightQueue := hitAreaLightQueue qs @
                       [\<lparr>al_areaLight = ms_areaLight ms, al_lambda = ms_lambda ms,
                         al_beta = st_beta st, al_pdfUni = st_pdfUni st,
                         al_pdfNEE = st_pdfNEE st,
                         al_p = Point3f_of (ms_pi ms), al_n = ms_n ms, al_uv = ms_uv ms,
                         al_wo = vneg (ray_d (ms_ray ms)), al_piPrev = ms_piPrev ms,
                         al_rayd = ray_d (ms_ray ms), al_rayTime = ray_time (ms_ray ms),
                         al_nPrev = ms_nPrev ms, al_nsPrev = ms_nsPrev ms,
                         al_isSpecularBounce = int_of_bool (ms_isSpecularBounce ms),
                         al_pixelIndex = ms_pixelIndex ms\<rparr>]\<rparr>);
                  w = \<lparr>me_material = material, me_lambda = ms_lambda ms, me_beta = st_beta st,
                       me_pdfUni = st_pdfUni st, me_pi = ms_pi ms, me_n = ms_n ms,
                       me_ns = ms_ns ms, me_dpdus = ms_dpdus ms, me_dpdvs = ms_dpdvs ms,
                       me_dndus = ms_dndus ms, me_dndvs = ms_dndvs ms,
                       me_wo = vneg (ray_d (ms_ray ms)), me_uv = ms_uv ms,
                       me_time = ray_time (ms_ray ms),
                       me_anyNonSpecularBounces = ms_anyNonSpecularBounces ms,
                       me_etaScale = ms_etaScale ms,
                       me_mediumInterface = ms_mediumInterface ms,
                       me_rayIndex = ms_rayIndex ms, me_pixelIndex = ms_pixelIndex ms\<rparr>
              in if basicEval material
                 then qs3\<lparr>basicEvalMaterialQueue := basicEvalMaterialQueue qs @ [w]\<rparr>
                 else qs3\<lparr>universalEvalMaterialQueue := universalEvalMaterialQueue qs @ [w]\<rparr>))"
proof (cases "nonzero (st_L st)")
  case True
  then show ?thesis
    using ns sq
    by (simp add: SampleMedium_finish_def Let_def push_materialEval_def split: option.splits)
next
  case False
  then have "(pixelSampleState_L qs)
               (ms_pixelIndex ms := sadd (pixelSampleState_L qs (ms_pixelIndex ms)) (st_L st)) =
             pixelSampleState_L qs"
    by (simp add: sadd_zero)
  with False show ?thesis
    using ns sq
    by (simp add: SampleMedium_finish_def Let_def push_materialEval_def split: option.splits)
qed

lemma callback_absorb:
  assumes "smp_intr smp = Some intr" and "drawn_mode ext intr r0 = 0"
  shows "\<exists>s1. SampleMedium_callback ext depth maxDepth ms lambda ray smp (s0, r0) =
                Inr (False, s1, snd (RNG_Uniform ext r0)) \<and>
              st_beta s1 = spec_const 0 \<and> st_scattered s1 = st_scattered s0 \<and>
              st_mediumScatterQueue s1 = st_mediumScatterQueue s0"
  using assms by (simp add: SampleMedium_callback_def Let_def)

subsection \<open>The example scenes, run\<close>

lemmas run_defs =
  SampleMedium_traverse_def SampleTmaj_def example_ms_def example_ray_def fog_def
  script_next_def SampleMedium_callback_def Let_def collision_mode SampleMedium_init_def
  SampleMedium_rng_def empty_queues_def add_emission_def sigma_n_def example_intr_def


lemma absorb_scene_run:
  "SampleMedium_traverse absorb_scene (Suc (Suc 0)) 0 5 example_ms empty_queues =
     Some (Inr (\<lparr>st_beta = spec_const 0, st_pdfUni = spec_const 1,
                 st_pdfNEE = spec_const 1, st_L = spec_const 0,
                 st_scattered = False, st_mediumScatterQueue = []\<rparr>, 1))"
  by (simp add: run_defs absorb_scene_def)

lemma absorb_scene_ends:
  "ends_in_absorption absorb_scene (Suc (Suc 0)) 0 5 example_ms empty_queues"
  "ends_in_absorption absorb_scene (Suc (Suc 0)) 0 5 lit_example_ms empty_queues"
  by (simp_all add: ends_in_absorption_def SampleMedium_calls_def absorb_scene_def
      lit_example_ms_def run_defs)

lemma absorb_scene_run_lit:
  "SampleMedium_traverse absorb_scene (Suc (Suc 0)) 0 5 lit_example_ms empty_queues =
     Some (Inr (\<lparr>st_beta = spec_const 0, st_pdfUni = spec_const 1,
                 st_pdfNEE = spec_const 1, st_L = spec_const 0,
                 st_scattered = False, st_mediumScatterQueue = []\<rparr>, 1))"
  by (simp add: run_defs absorb_scene_def lit_example_ms_def)

subsection \<open>Absorbed items\<close>

text \<open>
  Claim C3, as stated, fails: the item of the absorbing scene is absorbed at its only
  collision (the drawn mode is 0) and the sampler pushes a medium-transition item for it,
  carrying the zero throughput.
\<close>
theorem C3_counterexample:
  "drawn_mode absorb_scene (example_intr 0) 0 = 0 \<and>
   SampleMediumInteraction_item absorb_scene (Suc (Suc 0)) 0 5 example_ms empty_queues =
     Some (Inr (empty_queues\<lparr>mediumTransitionQueue := [absorbed_transition]\<rparr>)) \<and>
   mt_beta absorbed_transition = spec_const 0"
  by (simp add: SampleMediumInteraction_item_def absorb_scene_run SampleMedium_finish_def
      Let_def absorbed_transition_def)
     (simp add: absorb_scene_def example_intr_def collision_mode example_ms_def
      example_ray_def empty_queues_def)

text \<open>
  Claim C3, amended. When the traversal of a medium-sample work item ends in absorption, it
  returns with the throughput zero, and the item pushes nothing into the medium-sample
  queue, the medium-scatter queue, the shadow-ray queue or a ray queue, which are left as
  they were. The item is still routed onward as an unscattered item is, every pushed item
  carrying the zero throughput: the radiance accumulated before the absorption is added to
  the pixel; one escaped-ray item is pushed when \<^verbatim>\<open>tMax\<close> is \<^verbatim>\<open>Infinity\<close> and that queue
  is configured; then one medium-transition item and nothing else when no material is
  bound, and otherwise one hit-area-light item on an emitter and one material-eval item, in
  the basic or the universal queue. The queues after the item are given in full.
\<close>
theorem C3_absorbed_item_routed:
  assumes absorbed: "ends_in_absorption ext fuel depth maxDepth ms qs"
  shows "\<exists>st rng qs'.
           SampleMedium_traverse ext fuel depth maxDepth ms qs = Some (Inr (st, rng)) \<and>
           st_beta st = spec_const 0 \<and>
           SampleMediumInteraction_item ext fuel depth maxDepth ms qs = Some (Inr qs') \<and>
           mediumSampleQueue qs' = mediumSampleQueue qs \<and>
           mediumScatterQueue qs' = mediumScatterQueue qs \<and>
           shadowRayQueue qs' = shadowRayQueue qs \<and>
           rayQueues qs' = rayQueues qs \<and>
           qs' =
             (let qs1 = qs\<lparr>pixelSampleState_L := (pixelSampleState_L qs)
                           (ms_pixelIndex ms :=
                              sadd (pixelSampleState_L qs (ms_pixelIndex ms)) (st_L st))\<rparr>;
                  qs2 = (if ms_tMax ms = Infinity
                         then (case escapedRayQueue qs of
                                 None \<Rightarrow> qs1
                               | Some q \<Rightarrow>
                                   qs1\<lparr>escapedRayQueue := Some (q @
                                     [\<lparr>er_beta = spec_const 0, er_pdfUni = st_pdfUni st,
                                       er_pdfNEE = st_pdfNEE st, er_lambda = ms_lambda ms,
                                       er_rayo = ray_o (ms_ray ms), er_rayd = ray_d (ms_ray ms),
                                       er_piPrev = ms_piPrev ms, er_nPrev = ms_nPrev ms,
                                       er_nsPrev = ms_nsPrev ms,
                                       er_specularBounce = int_of_bool (ms_isSpecularBounce ms),
                                       er_pixelIndex = ms_pixelIndex ms\<rparr>])\<rparr>)
                         else qs1)
              in case ms_material ms of
                   None \<Rightarrow>
                     qs2\<lparr>mediumTransitionQueue := mediumTransitionQueue qs @
                       [\<lparr>mt_ray = Interaction_SpawnRay ext (ms_pi ms) (ms_n ms)
                                    (ms_mediumInterface ms) (ray_d (ms_ray ms)),
                         mt_lambda = ms_lambda ms, mt_beta = spec_const 0,
                         mt_pdfUni = st_pdfUni st, mt_pdfNEE = st_pdfNEE st,
                         mt_piPrev = ms_piPrev ms, mt_nPrev = ms_nPrev ms,
                         mt_nsPrev = ms_nsPrev ms, mt_isSpecularBounce = ms_isSpecularBounce ms,
                         mt_anyNonSpecularBounces = ms_anyNonSpecularBounces ms,
                         mt_etaScale = ms_etaScale ms, mt_pixelIndex = ms_pixelIndex ms\<rparr>]\<rparr>
                 | Some material \<Rightarrow>
                     (let qs3 =
                        (case ms_areaLight ms of
                           None \<Rightarrow> qs2
                         | Some l \<Rightarrow>
                             qs2\<lparr>hitAreaLightQueue := hitAreaLightQueue qs @
                               [\<lparr>al_areaLight = ms_areaLight ms, al_lambda = ms_lambda ms,
                                 al_beta = spec_const 0, al_pdfUni = st_pdfUni st,
                                 al_pdfNEE = st_pdfNEE st,
                                 al_p = Point3f_of (ms_pi ms), al_n = ms_n ms, al_uv = ms_uv ms,
                                 al_wo = vneg (ray_d (ms_ray ms)), al_piPrev = ms_piPrev ms,
                                 al_rayd = ray_d (ms_ray ms), al_rayTime = ray_time (ms_ray ms),
                                 al_nPrev = ms_nPrev ms, al_nsPrev = ms_nsPrev ms,
                                 al_isSpecularBounce = int_of_bool (ms_isSpecularBounce ms),
                                 al_pixelIndex = ms_pixelIndex ms\<rparr>]\<rparr>);
                          w = \<lparr>me_material = material, me_lambda = ms_lambda ms,
                               me_beta = spec_const 0, me_pdfUni = st_pdfUni st,
                               me_pi = ms_pi ms, me_n = ms_n ms,
                               me_ns = ms_ns ms, me_dpdus = ms_dpdus ms, me_dpdvs = ms_dpdvs ms,
                               me_dndus = ms_dndus ms, me_dndvs = ms_dndvs ms,
                               me_wo = vneg (ray_d (ms_ray ms)), me_uv = ms_uv ms,
                               me_time = ray_time (ms_ray ms),
                               me_anyNonSpecularBounces = ms_anyNonSpecularBounces ms,
                               me_etaScale = ms_etaScale ms,
                               me_mediumInterface = ms_mediumInterface ms,
                               me_rayIndex = ms_rayIndex ms, me_pixelIndex = ms_pixelIndex ms\<rparr>
                      in if basicEval material
                         then qs3\<lparr>basicEvalMaterialQueue := basicEvalMaterialQueue qs @ [w]\<rparr>
                         else qs3\<lparr>universalEvalMaterialQueue :=
                                    universalEvalMaterialQueue qs @ [w]\<rparr>))"
proof -
  let ?cb = "SampleMedium_callback ext depth maxDepth ms (ms_lambda ms) (ms_ray ms)"
  let ?s0 = "(SampleMedium_init ms qs, SampleMedium_rng ext ms)"
  from absorbed obtain m where m: "ray_medium (ms_ray ms) = Some m"
    by (cases "ray_medium (ms_ray ms)")
       (auto simp: ends_in_absorption_def SampleMedium_calls_def)
  let ?ts = "Tmaj_begin ext m (ms_ray ms) (ms_tMax ms) (ms_lambda ms)"
  let ?calls = "SampleTmaj_calls fuel (Tmaj_next ext) ?cb ?ts ?s0"
  have calls: "SampleMedium_calls ext fuel depth maxDepth ms qs = ?calls"
    using m by (simp add: SampleMedium_calls_def)
  from absorbed have ne: "?calls \<noteq> []"
    unfolding ends_in_absorption_def calls by auto
  obtain smp st0 r0 where lst: "last ?calls = (smp, st0, r0)"
    by (cases "last ?calls") auto
  from ne lst have rv: "rev ?calls = (smp, st0, r0) # rev (butlast ?calls)"
    by (metis append_butlast_last_id rev.simps(2) rev_rev_ident rev_swap)
  from absorbed obtain intr where intr: "smp_intr smp = Some intr"
    and mode: "drawn_mode ext intr r0 = 0"
    unfolding ends_in_absorption_def calls rv by (auto split: option.splits)
  from callback_absorb [OF intr mode] obtain st where
    cb: "?cb smp (st0, r0) = Inr (False, st, snd (RNG_Uniform ext r0))"
    and dead: "st_beta st = spec_const 0"
    and sc: "st_scattered st = st_scattered st0"
    and sq: "st_mediumScatterQueue st = st_mediumScatterQueue st0"
    by blast
  from ne lst have mem: "(smp, st0, r0) \<in> set ?calls"
    by (metis last_in_set)
  have inv: "\<not> st_scattered st0 \<and> st_mediumScatterQueue st0 = mediumScatterQueue qs"
    by (rule SampleTmaj_calls_invariant [OF mem,
          where I = "\<lambda>s. \<not> st_scattered s \<and> st_mediumScatterQueue s = mediumScatterQueue qs"])
       (simp add: SampleMedium_init_def, drule callback_continue, simp)
  have loop: "SampleTmaj_loop fuel (Tmaj_next ext) ?cb ?ts ?s0 =
                Some (Inr (st, snd (RNG_Uniform ext r0)))"
    by (rule SampleTmaj_calls_last [OF ne lst cb])
  have run: "SampleMedium_traverse ext fuel depth maxDepth ms qs =
               Some (Inr (st, snd (RNG_Uniform ext r0)))"
    using loop m by (simp add: SampleMedium_traverse_def SampleTmaj_def)
  have item: "SampleMediumInteraction_item ext fuel depth maxDepth ms qs =
                Some (Inr (SampleMedium_finish ext ms st qs))"
    using run by (simp add: SampleMediumInteraction_item_def)
  have ns: "\<not> st_scattered st" and sq': "st_mediumScatterQueue st = mediumScatterQueue qs"
    using inv sc sq by simp_all
  note fin = finish_unscattered [OF ns sq', of ext ms, unfolded dead]
  have same: "mediumSampleQueue (SampleMedium_finish ext ms st qs) = mediumSampleQueue qs"
    "mediumScatterQueue (SampleMedium_finish ext ms st qs) = mediumScatterQueue qs"
    "shadowRayQueue (SampleMedium_finish ext ms st qs) = shadowRayQueue qs"
    "rayQueues (SampleMedium_finish ext ms st qs) = rayQueues qs"
    unfolding fin by (simp_all add: Let_def split: option.splits)
  show ?thesis
    using run dead item same fin by blast
qed

text \<open>
  The theorem at the absorbed item of the absorbing scene, which leaves one medium-transition
  item, and at the same item with no hit, a material and an area light, which leaves one
  escaped-ray, one hit-area-light and one material-eval item.
\<close>
theorem C3_absorbed_item_routed_witness:
  "ends_in_absorption absorb_scene (Suc (Suc 0)) 0 5 example_ms empty_queues \<and>
   SampleMediumInteraction_item absorb_scene (Suc (Suc 0)) 0 5 example_ms empty_queues =
     Some (Inr (empty_queues\<lparr>mediumTransitionQueue := [absorbed_transition]\<rparr>)) \<and>
   ends_in_absorption absorb_scene (Suc (Suc 0)) 0 5 lit_example_ms empty_queues \<and>
   (\<exists>qs'. SampleMediumInteraction_item absorb_scene (Suc (Suc 0)) 0 5 lit_example_ms
             empty_queues = Some (Inr qs') \<and>
          mediumSampleQueue qs' = [] \<and> mediumScatterQueue qs' = [] \<and>
          shadowRayQueue qs' = [] \<and> rayQueues qs' = (\<lambda>i. []) \<and>
          mediumTransitionQueue qs' = [] \<and> universalEvalMaterialQueue qs' = [] \<and>
          map_option (map er_beta) (escapedRayQueue qs') = Some [spec_const 0] \<and>
          map al_beta (hitAreaLightQueue qs') = [spec_const 0] \<and>
          map me_beta (basicEvalMaterialQueue qs') = [spec_const 0])"
proof -
  have a: "SampleMediumInteraction_item absorb_scene (Suc (Suc 0)) 0 5 example_ms empty_queues =
     Some (Inr (empty_queues\<lparr>mediumTransitionQueue := [absorbed_transition]\<rparr>))"
    using C3_absorbed_item_routed [OF absorb_scene_ends(1)]
    by (simp add: absorb_scene_run Let_def)
       (simp add: example_ms_def empty_queues_def absorbed_transition_def absorb_scene_def
        example_ray_def fun_eq_iff)
  have b: "\<exists>qs'. SampleMediumInteraction_item absorb_scene (Suc (Suc 0)) 0 5 lit_example_ms
             empty_queues = Some (Inr qs') \<and>
          mediumSampleQueue qs' = [] \<and> mediumScatterQueue qs' = [] \<and>
          shadowRayQueue qs' = [] \<and> rayQueues qs' = (\<lambda>i. []) \<and>
          mediumTransitionQueue qs' = [] \<and> universalEvalMaterialQueue qs' = [] \<and>
          map_option (map er_beta) (escapedRayQueue qs') = Some [spec_const 0] \<and>
          map al_beta (hitAreaLightQueue qs') = [spec_const 0] \<and>
          map me_beta (basicEvalMaterialQueue qs') = [spec_const 0]"
    using C3_absorbed_item_routed [OF absorb_scene_ends(2)]
    by (simp add: absorb_scene_run_lit Let_def)
       (simp add: lit_example_ms_def example_ms_def empty_queues_def basicEval_def
        example_material_def fun_eq_iff)
  from absorb_scene_ends a b show ?thesis by blast
qed

subsection \<open>Emitters at a closest hit\<close>

text \<open>
  Claim C4, as stated, fails: a ray in vacuum hits an emitter with no material bound, and
  the dispatcher pushes nothing to the hit-area-light queue (the hit becomes a
  medium-transition item).
\<close>
theorem C4_counterexample:
  "ctx_rayMedium (ClosestHitContext_new None False) = None \<and>
   si_areaLight emitter_hit = Some \<lparr>light_id = 1, light_Type = Area\<rparr> \<and>
   si_material emitter_hit = None \<and>
   hitAreaLightQueue
     (snd (ProcessClosestIntersection absorb_scene (ClosestHitContext_new None False)
             emitter_hit 0 1 example_r empty_queues)) = [] \<and>
   length (mediumTransitionQueue
     (snd (ProcessClosestIntersection absorb_scene (ClosestHitContext_new None False)
             emitter_hit 0 1 example_r empty_queues))) = 1"
  by (simp add: ProcessClosestIntersection_def Let_def fill_context_def
      ClosestHitContext_new_def emitter_hit_def empty_queues_def)

text \<open>
  Claim C4, amended. For a closest hit of a regular (non-shadow) ray with no current medium
  on an emitter: when a material is bound, whatever it is, the dispatcher pushes one item
  for the emitter to the hit-area-light queue and one material-eval item to the basic or the
  universal queue; when no material is bound it pushes one medium-transition item and
  nothing else, so nothing reaches the hit-area-light queue. Every other queue is left as
  it was, and the context returned is the one filled from the hit.
\<close>
theorem C4_area_light_needs_material:
  assumes nm: "ctx_rayMedium ctx = None"
      and ns: "\<not> ctx_shadowRay ctx"
      and al: "si_areaLight intr = Some l"
  shows "ProcessClosestIntersection ext ctx intr rayIndex tHit r qs =
           (fill_context ctx intr,
            case si_material intr of
              None \<Rightarrow>
                qs\<lparr>mediumTransitionQueue := mediumTransitionQueue qs @
                  [\<lparr>mt_ray = SurfaceInteraction_SpawnRay ext intr (ray_d (r_ray r)),
                    mt_lambda = r_lambda r, mt_beta = r_beta r, mt_pdfUni = r_pdfUni r,
                    mt_pdfNEE = r_pdfNEE r, mt_piPrev = r_piPrev r, mt_nPrev = r_nPrev r,
                    mt_nsPrev = r_nsPrev r, mt_isSpecularBounce = r_isSpecularBounce r,
                    mt_anyNonSpecularBounces = r_anyNonSpecularBounces r,
                    mt_etaScale = r_etaScale r, mt_pixelIndex = r_pixelIndex r\<rparr>]\<rparr>
            | Some material \<Rightarrow>
                (let areaLightItem =
                       \<lparr>al_areaLight = Some l, al_lambda = r_lambda r, al_beta = r_beta r,
                        al_pdfUni = r_pdfUni r, al_pdfNEE = r_pdfNEE r,
                        al_p = Point3f_of (si_pi intr), al_n = si_n intr, al_uv = si_uv intr,
                        al_wo = si_wo intr, al_piPrev = r_piPrev r, al_rayd = ray_d (r_ray r),
                        al_rayTime = ray_time (r_ray r), al_nPrev = r_nPrev r,
                        al_nsPrev = r_nsPrev r,
                        al_isSpecularBounce = int_of_bool (r_isSpecularBounce r),
                        al_pixelIndex = r_pixelIndex r\<rparr>;
                     materialItem =
                       \<lparr>me_material = material, me_lambda = r_lambda r, me_beta = r_beta r,
                        me_pdfUni = r_pdfUni r, me_pi = si_pi intr, me_n = si_n intr,
                        me_ns = si_shading_n intr, me_dpdus = si_shading_dpdu intr,
                        me_dpdvs = si_shading_dpdv intr, me_dndus = si_shading_dndu intr,
                        me_dndvs = si_shading_dndv intr, me_wo = si_wo intr,
                        me_uv = si_uv intr, me_time = si_time intr,
                        me_anyNonSpecularBounces = r_anyNonSpecularBounces r,
                        me_etaScale = r_etaScale r,
                        me_mediumInterface =
                          (case si_mediumInterface intr of
                             Some mi \<Rightarrow> mi
                           | None \<Rightarrow> MediumInterface_of None),
                        me_rayIndex = rayIndex, me_pixelIndex = r_pixelIndex r\<rparr>
                 in if basicEval material
                    then qs\<lparr>hitAreaLightQueue := hitAreaLightQueue qs @ [areaLightItem],
                            basicEvalMaterialQueue := basicEvalMaterialQueue qs @ [materialItem]\<rparr>
                    else qs\<lparr>hitAreaLightQueue := hitAreaLightQueue qs @ [areaLightItem],
                            universalEvalMaterialQueue :=
                              universalEvalMaterialQueue qs @ [materialItem]\<rparr>))"
  using nm ns al
  by (simp add: ProcessClosestIntersection_def Let_def fill_context_def push_materialEval_def
      split: option.splits)

text \<open>The theorem at the emitter of the example, with a material bound and without.\<close>
theorem C4_area_light_needs_material_witness:
  "snd (ProcessClosestIntersection absorb_scene (ClosestHitContext_new None False)
          (emitter_hit\<lparr>si_material := Some example_material\<rparr>) 0 1 example_r empty_queues) =
     empty_queues
       \<lparr>hitAreaLightQueue :=
          [\<lparr>al_areaLight = Some \<lparr>light_id = 1, light_Type = Area\<rparr>,
            al_lambda = SampledSpectrum 400 500 600 700, al_beta = spec_const 1,
            al_pdfUni = spec_const 1, al_pdfNEE = spec_const 1, al_p = (0, 0, 1),
            al_n = (0, 0, - 1), al_uv = (0, 0), al_wo = (0, 0, - 1),
            al_piPrev = ((0, 0), (0, 0), (0, 0)), al_rayd = (0, 0, 1), al_rayTime = 0,
            al_nPrev = (0, 0, 1), al_nsPrev = (0, 0, 1), al_isSpecularBounce = 0,
            al_pixelIndex = 7\<rparr>],
        basicEvalMaterialQueue :=
          [\<lparr>me_material = example_material, me_lambda = SampledSpectrum 400 500 600 700,
            me_beta = spec_const 1, me_pdfUni = spec_const 1,
            me_pi = ((0, 0), (0, 0), (1, 1)), me_n = (0, 0, - 1), me_ns = (0, 0, - 1),
            me_dpdus = (1, 0, 0), me_dpdvs = (0, 1, 0), me_dndus = (0, 0, 0),
            me_dndvs = (0, 0, 0), me_wo = (0, 0, - 1), me_uv = (0, 0), me_time = 0,
            me_anyNonSpecularBounces = False, me_etaScale = 1,
            me_mediumInterface = \<lparr>mi_inside = None, mi_outside = None\<rparr>,
            me_rayIndex = 0, me_pixelIndex = 7\<rparr>]\<rparr> \<and>
   snd (ProcessClosestIntersection absorb_scene (ClosestHitContext_new None False)
          emitter_hit 0 1 example_r empty_queues) =
     empty_queues
       \<lparr>mediumTransitionQueue :=
          [\<lparr>mt_ray = \<lparr>ray_o = (0, 0, 1), ray_d = (0, 0, 1), ray_time = 0, ray_medium = None\<rparr>,
            mt_lambda = SampledSpectrum 400 500 600 700, mt_beta = spec_const 1,
            mt_pdfUni = spec_const 1, mt_pdfNEE = spec_const 1,
            mt_piPrev = ((0, 0), (0, 0), (0, 0)), mt_nPrev = (0, 0, 1), mt_nsPrev = (0, 0, 1),
            mt_isSpecularBounce = False, mt_anyNonSpecularBounces = False, mt_etaScale = 1,
            mt_pixelIndex = 7\<rparr>]\<rparr>"
proof -
  have nm: "ctx_rayMedium (ClosestHitContext_new None False) = None"
    and ns: "\<not> ctx_shadowRay (ClosestHitContext_new None False)"
    by (simp_all add: ClosestHitContext_new_def)
  have al1: "si_areaLight (emitter_hit\<lparr>si_material := Some example_material\<rparr>) =
               Some \<lparr>light_id = 1, light_Type = Area\<rparr>"
    and al2: "si_areaLight emitter_hit = Some \<lparr>light_id = 1, light_Type = Area\<rparr>"
    by (simp_all add: emitter_hit_def)
  from C4_area_light_needs_material [OF nm ns al1, of absorb_scene 0 1 example_r empty_queues]
       C4_area_light_needs_material [OF nm ns al2, of absorb_scene 0 1 example_r empty_queues]
  show ?thesis
    by (simp add: emitter_hit_def empty_queues_def example_r_def basicEval_def
        example_material_def int_of_bool_def MediumInterface_of_def absorb_scene_def
        scripted_ext_def Let_def)
qed

subsection \<open>Emission in the medium\<close>



subsection \<open>The phase function of a scattering event\<close>

text \<open>
  Claim C9. At a collision sample whose drawn mode is 1 (scattering), the callback casts the
  interaction's phase function handle to \<^verbatim>\<open>HGPhaseFunction\<close> and dereferences the result
  unchecked: for a Henyey-Greenstein handle the medium-scatter item is pushed with that phase
  function, the item is marked scattered and the traversal stops; for the null handle and
  for any other kind the null pointer is dereferenced.
\<close>
theorem C9_phase_cast:
  assumes intr: "smp_intr mediumSample = Some intr"
      and m: "drawn_mode ext intr rng = 1"
  shows "(case intr_phase intr of
            HGPhase hg \<Rightarrow>
              (\<exists>st' w. SampleMedium_callback ext depth maxDepth ms lambda ray mediumSample (st, rng) =
                   Inr (False, st', snd (RNG_Uniform ext rng)) \<and>
                 st_scattered st' \<and>
                 st_mediumScatterQueue st' = st_mediumScatterQueue st @ [w] \<and>
                 sc_phase w = hg)
          | NullPhase \<Rightarrow>
              SampleMedium_callback ext depth maxDepth ms lambda ray mediumSample (st, rng) =
                Inl NullPointerDereference
          | OtherPhase k \<Rightarrow>
              SampleMedium_callback ext depth maxDepth ms lambda ray mediumSample (st, rng) =
                Inl NullPointerDereference)"
  using intr m
  by (simp add: SampleMedium_callback_def Let_def split: PhaseFunctionHandle.splits)

text \<open>
  The theorem in the scattering scene, at the Henyey-Greenstein collision of the example
  and at the same collision with a phase function of another kind.
\<close>
theorem C9_phase_cast_witness:
  "(\<exists>st' w.
      SampleMedium_callback scatter_scene 0 5 example_ms (ms_lambda example_ms) example_ray
        \<lparr>smp_intr = Some (example_intr 2), smp_Tmaj = spec_const (1 / 2)\<rparr> (example_st, 0) =
        Inr (False, st', 1) \<and>
      st_scattered st' \<and> st_mediumScatterQueue st' = [w] \<and> sc_phase w = \<lparr>hg_g = 0\<rparr>) \<and>
   SampleMedium_callback scatter_scene 0 5 example_ms (ms_lambda example_ms) example_ray
     \<lparr>smp_intr = Some ((example_intr 2)\<lparr>intr_phase := OtherPhase 3\<rparr>),
      smp_Tmaj = spec_const (1 / 2)\<rparr> (example_st, 0) =
     Inl NullPointerDereference"
proof -
  let ?hg = "\<lparr>smp_intr = Some (example_intr 2), smp_Tmaj = spec_const (1 / 2)\<rparr>"
  let ?other = "\<lparr>smp_intr = Some ((example_intr 2)\<lparr>intr_phase := OtherPhase 3\<rparr>),
                 smp_Tmaj = spec_const (1 / 2)\<rparr>"
  have i1: "smp_intr ?hg = Some (example_intr 2)"
    and i2: "smp_intr ?other = Some ((example_intr 2)\<lparr>intr_phase := OtherPhase 3\<rparr>)"
    by simp_all
  have m1: "drawn_mode scatter_scene (example_intr 2) 0 = 1"
    and m2: "drawn_mode scatter_scene ((example_intr 2)\<lparr>intr_phase := OtherPhase 3\<rparr>) 0 = 1"
    by (simp_all add: scatter_scene_def example_intr_def collision_mode)
  from C9_phase_cast [OF i1 m1, of 0 5 example_ms "ms_lambda example_ms" example_ray example_st]
       C9_phase_cast [OF i2 m2, of 0 5 example_ms "ms_lambda example_ms" example_ray example_st]
  show ?thesis
    by (simp add: example_intr_def example_st_def SampleMedium_init_def empty_queues_def
        scatter_scene_def)
qed

subsection \<open>The medium scatter handler\<close>

text \<open>
  Claim C6. For a medium-scatter work item at depth \<open>depth\<close>, with \<open>rs\<close> the samples
  stored for the item's ray in the ray queue of index \<open>depth AND 1\<close>: after a valid phase
  sample, with \<open>beta\<close> and \<open>pdfUni\<close> the item's throughput and \<^verbatim>\<open>pdfUni\<close> times the
  sample's value and pdf and \<open>m\<close> the maximum component of
  \<^verbatim>\<open>beta * etaScale / pdfUni.Average()\<close>, Russian roulette applies exactly when
  \<open>depth > 1\<close> and \<open>m < 1\<close>, with \<open>q = 1 - m\<close>. The path is dropped (the ray queues are
  left as they were) exactly when roulette applies and the ray's roulette sample is below
  \<open>q\<close>; otherwise one ray is pushed into the ray queue of index \<open>(depth + 1) AND 1\<close>, with
  \<^verbatim>\<open>pdfUni\<close> and \<^verbatim>\<open>pdfNEE\<close> scaled by \<open>1 - q\<close> when roulette applied, the
  specular-bounce flag cleared and the any-non-specular-bounces flag set. The queues after
  the item are these ray queues, the shadow-ray queue as direct lighting left it, and
  everything else unchanged.
\<close>
theorem C6_russian_roulette:
  assumes rs: "rs = rayQueues_raySamples qs (depth AND 1) (sc_rayIndex ms)"
      and direct: "SampleDirect ext ms rs (shadowRayQueue qs) = Inr sq"
      and ps: "phase_Sample_p ext (sc_phase ms) (sc_wo ms) (indirect_u rs) = Some phaseSample"
      and beta: "beta = sscale (sc_beta ms) (ps_p phaseSample)"
      and pdfUni: "pdfUni = sscale (sc_pdfUni ms) (ps_pdf phaseSample)"
      and m: "m = MaxComponentValue (sdivf (sscale beta (sc_etaScale ms)) (Average pdfUni))"
      and rr: "rr = (depth > 1 \<and> m < 1)"
      and q: "q = 1 - m"
  shows "MediumScatter_item ext depth ms qs =
           Inr (qs\<lparr>shadowRayQueue := sq,
                   rayQueues :=
                     (if rr \<and> indirect_rr rs < q then rayQueues qs
                      else (rayQueues qs)((depth + 1) AND 1 :=
                        rayQueues qs ((depth + 1) AND 1) @
                        [\<lparr>r_ray = \<lparr>ray_o = sc_p ms, ray_d = ps_wi phaseSample, ray_time = 0,
                                    ray_medium = sc_medium ms\<rparr>,
                          r_piPrev = Point3fi_of (sc_p ms), r_nPrev = (0, 0, 0),
                          r_nsPrev = (0, 0, 0), r_beta = beta,
                          r_pdfUni = (if rr then sscale pdfUni (1 - q) else pdfUni),
                          r_pdfNEE = (if rr then sscale (sc_pdfUni ms) (1 - q)
                                      else sc_pdfUni ms),
                          r_lambda = sc_lambda ms, r_etaScale = sc_etaScale ms,
                          r_isSpecularBounce = False, r_anyNonSpecularBounces = True,
                          r_pixelIndex = sc_pixelIndex ms\<rparr>]))\<rparr>)"
proof -
  have ind: "SampleIndirect ext depth ms rs (rayQueues qs) =
           (if rr \<and> indirect_rr rs < q then rayQueues qs
            else (rayQueues qs)((depth + 1) AND 1 := rayQueues qs ((depth + 1) AND 1) @
              [\<lparr>r_ray = \<lparr>ray_o = sc_p ms, ray_d = ps_wi phaseSample, ray_time = 0,
                          ray_medium = sc_medium ms\<rparr>,
                r_piPrev = Point3fi_of (sc_p ms), r_nPrev = (0, 0, 0), r_nsPrev = (0, 0, 0),
                r_beta = beta,
                r_pdfUni = (if rr then sscale pdfUni (1 - q) else pdfUni),
                r_pdfNEE = (if rr then sscale (sc_pdfUni ms) (1 - q) else sc_pdfUni ms),
                r_lambda = sc_lambda ms, r_etaScale = sc_etaScale ms,
                r_isSpecularBounce = False, r_anyNonSpecularBounces = True,
                r_pixelIndex = sc_pixelIndex ms\<rparr>]))"
    using ps unfolding beta pdfUni m rr q
    by (simp add: SampleIndirect_def Let_def PushIndirect_def max_def)
  show ?thesis
    using direct unfolding MediumScatter_item_def Let_def rs [symmetric] ind by simp
qed

text \<open>
  The theorem at depth 2 on the example scatter item, where \<open>m = 1/16\<close> and \<open>q = 15/16\<close>:
  with a roulette sample of \<open>1/2\<close> stored for the ray the path is dropped, with one of
  \<open>99/100\<close> it survives into ray queue 1 with both pdfs scaled by \<open>1/16\<close>.
\<close>
theorem C6_russian_roulette_witness:
  "(\<exists>qs'. MediumScatter_item null_scene 2 example_sc (roulette_queues (1 / 2)) = Inr qs' \<and>
           rayQueues qs' = (\<lambda>i. [])) \<and>
   (\<exists>qs'. MediumScatter_item null_scene 2 example_sc (roulette_queues (99 / 100)) = Inr qs' \<and>
           rayQueues qs' 0 = [] \<and>
           map r_pdfUni (rayQueues qs' 1) = [spec_const (1 / 128)] \<and>
           map r_pdfNEE (rayQueues qs' 1) = [spec_const (1 / 16)] \<and>
           map r_beta (rayQueues qs' 1) = [spec_const (1 / 128)] \<and>
           map r_isSpecularBounce (rayQueues qs' 1) = [False] \<and>
           map r_anyNonSpecularBounces (rayQueues qs' 1) = [True])"
proof -
  let ?ps = "\<lparr>ps_p = 1 / 8, ps_wi = (1, 0, 0), ps_pdf = 1 / 8\<rparr>"
  let ?sq = "[\<lparr>sr_ray = \<lparr>ray_o = (0, 0, 1 / 2), ray_d = (0, 0, 3 / 2), ray_time = 0,
                          ray_medium = Some 0\<rparr>,
                sr_tMax = 9999 / 10000, sr_lambda = SampledSpectrum 400 500 600 700,
                sr_Ld = spec_const (1 / 128), sr_pdfUni = spec_const (1 / 8),
                sr_pdfNEE = spec_const (1 / 8), sr_pixelIndex = 7\<rparr>]"
  have rs: "example_rs x = rayQueues_raySamples (roulette_queues x) (2 AND 1) (sc_rayIndex example_sc)"
    for x
    by (simp add: roulette_queues_def)
  have direct: "SampleDirect null_scene example_sc (example_rs x) (shadowRayQueue (roulette_queues x)) =
                  Inr ?sq" for x
    by (simp add: SampleDirect_def Let_def null_scene_def example_sc_def roulette_queues_def
        empty_queues_def)
  have ps: "phase_Sample_p null_scene (sc_phase example_sc) (sc_wo example_sc)
              (indirect_u (example_rs x)) = Some ?ps" for x
    by (simp add: null_scene_def)
  note drop = C6_russian_roulette [OF rs direct ps refl refl refl refl refl, of "1 / 2"]
  note keep = C6_russian_roulette [OF rs direct ps refl refl refl refl refl, of "99 / 100"]
  have a: "\<exists>qs'. MediumScatter_item null_scene 2 example_sc (roulette_queues (1 / 2)) = Inr qs' \<and>
           rayQueues qs' = (\<lambda>i. [])"
    using drop by (simp add: example_sc_def example_rs_def roulette_queues_def empty_queues_def)
  have b: "\<exists>qs'. MediumScatter_item null_scene 2 example_sc (roulette_queues (99 / 100)) = Inr qs' \<and>
           rayQueues qs' 0 = [] \<and>
           map r_pdfUni (rayQueues qs' 1) = [spec_const (1 / 128)] \<and>
           map r_pdfNEE (rayQueues qs' 1) = [spec_const (1 / 16)] \<and>
           map r_beta (rayQueues qs' 1) = [spec_const (1 / 128)] \<and>
           map r_isSpecularBounce (rayQueues qs' 1) = [False] \<and>
           map r_anyNonSpecularBounces (rayQueues qs' 1) = [True]"
    using keep by (simp add: example_sc_def example_rs_def roulette_queues_def empty_queues_def)
  from a b show ?thesis by blast
qed

text \<open>
  Claim C7. For a medium-scatter work item, with \<open>rs\<close> the samples stored for the item's
  ray in the ray queue of index \<open>depth AND 1\<close>: when a light is sampled and the sample on
  it is valid with non-zero radiance, the item pushes one shadow-ray item; it carries
  \<^verbatim>\<open>pdfNEE' = pdfUni * lightSelectionPdf * lightPdf\<close> and \<^verbatim>\<open>pdfUni' = pdfUni * phasePdf\<close>,
  where \<^verbatim>\<open>phasePdf\<close> is 0 for a delta light and the phase function's pdf otherwise, a
  \<^verbatim>\<open>tMax\<close> of \<^verbatim>\<open>1 - ShadowEpsilon\<close>, and the ray from the scattering point whose direction
  is the unnormalised difference to the light sample. The queues after the item are the
  shadow-ray queue with this item appended, the ray queues as the indirect continuation
  leaves them, and everything else unchanged.
\<close>
theorem C7_direct_lighting_pdfs:
  assumes rs: "rs = rayQueues_raySamples qs (depth AND 1) (sc_rayIndex ms)"
      and sl: "lightSampler_Sample ext
                 \<lparr>lsc_pi = Point3fi_of (sc_p ms), lsc_n = (0, 0, 0), lsc_ns = (0, 0, 0)\<rparr>
                 (direct_uc rs) = Some sampledLight"
      and l: "sl_light sampledLight = Some light"
      and ls: "light_SampleLi ext light
                 \<lparr>lsc_pi = Point3fi_of (sc_p ms), lsc_n = (0, 0, 0), lsc_ns = (0, 0, 0)\<rparr>
                 (direct_u rs) (sc_lambda ms) = Some ls"
      and L: "nonzero (ls_L ls)"
      and phasePDF: "phasePDF = (if IsDeltaLight (light_Type light) then 0
                                 else phase_PDF ext (sc_phase ms) (sc_wo ms) (ls_wi ls))"
  shows "MediumScatter_item ext depth ms qs =
           Inr (qs\<lparr>shadowRayQueue := shadowRayQueue qs @
                     [\<lparr>sr_ray = \<lparr>ray_o = sc_p ms, ray_d = psub (ls_pLight ls) (sc_p ms),
                                 ray_time = 0, ray_medium = sc_medium ms\<rparr>,
                       sr_tMax = 1 - ShadowEpsilon ext, sr_lambda = sc_lambda ms,
                       sr_Ld = smul (sscale (sc_beta ms)
                                       (phase_p ext (sc_phase ms) (sc_wo ms) (ls_wi ls)))
                                    (ls_L ls),
                       sr_pdfUni = sscale (sc_pdfUni ms) phasePDF,
                       sr_pdfNEE = sscale (sscale (sc_pdfUni ms) (sl_pdf sampledLight))
                                          (ls_pdf ls),
                       sr_pixelIndex = sc_pixelIndex ms\<rparr>],
                   rayQueues := SampleIndirect ext depth ms rs (rayQueues qs)\<rparr>)"
proof -
  have assoc: "sscale (sscale x a) b = sscale x (b * a)" for x a b
    by (cases x) (simp add: mult_ac)
  have direct: "SampleDirect ext ms rs (shadowRayQueue qs) =
           Inr (shadowRayQueue qs @
             [\<lparr>sr_ray = \<lparr>ray_o = sc_p ms, ray_d = psub (ls_pLight ls) (sc_p ms), ray_time = 0,
                         ray_medium = sc_medium ms\<rparr>,
               sr_tMax = 1 - ShadowEpsilon ext, sr_lambda = sc_lambda ms,
               sr_Ld = smul (sscale (sc_beta ms) (phase_p ext (sc_phase ms) (sc_wo ms) (ls_wi ls)))
                            (ls_L ls),
               sr_pdfUni = sscale (sc_pdfUni ms) phasePDF,
               sr_pdfNEE = sscale (sscale (sc_pdfUni ms) (sl_pdf sampledLight)) (ls_pdf ls),
               sr_pixelIndex = sc_pixelIndex ms\<rparr>])"
    using sl l ls L unfolding phasePDF
    by (simp add: SampleDirect_def Let_def assoc)
  show ?thesis
    unfolding MediumScatter_item_def Let_def rs [symmetric] direct by simp
qed

text \<open>
  The theorem on the example scatter item, with the area light of the null scene
  (selection pdf \<open>1/2\<close>, light pdf \<open>1/4\<close>, phase pdf \<open>1/8\<close>) and with a point light in
  its place.
\<close>
theorem C7_direct_lighting_pdfs_witness:
  "(\<exists>qs'. MediumScatter_item null_scene 0 example_sc empty_queues = Inr qs' \<and>
           map sr_pdfNEE (shadowRayQueue qs') = [spec_const (1 / 8)] \<and>
           map sr_pdfUni (shadowRayQueue qs') = [spec_const (1 / 8)] \<and>
           map sr_tMax (shadowRayQueue qs') = [9999 / 10000] \<and>
           map (ray_d \<circ> sr_ray) (shadowRayQueue qs') = [(0, 0, 3 / 2)]) \<and>
   (\<exists>qs'. MediumScatter_item point_light_scene 0 example_sc empty_queues = Inr qs' \<and>
           map sr_pdfNEE (shadowRayQueue qs') = [spec_const (1 / 8)] \<and>
           map sr_pdfUni (shadowRayQueue qs') = [spec_const 0])"
proof -
  let ?rs = "rayQueues_raySamples empty_queues (0 AND 1) (sc_rayIndex example_sc)"
  let ?ctx = "\<lparr>lsc_pi = Point3fi_of (sc_p example_sc), lsc_n = (0, 0, 0), lsc_ns = (0, 0, 0)\<rparr>"
  let ?ls = "\<lparr>ls_L = spec_const 1, ls_wi = (0, 0, 1), ls_pdf = 1 / 4, ls_pLight = (0, 0, 2)\<rparr>"
  have sl1: "lightSampler_Sample null_scene ?ctx (direct_uc ?rs) =
               Some \<lparr>sl_light = Some \<lparr>light_id = 0, light_Type = Area\<rparr>, sl_pdf = 1 / 2\<rparr>"
    by (simp add: null_scene_def)
  have sl2: "lightSampler_Sample point_light_scene ?ctx (direct_uc ?rs) =
               Some \<lparr>sl_light = Some \<lparr>light_id = 0, light_Type = DeltaPosition\<rparr>,
                     sl_pdf = 1 / 2\<rparr>"
    by (simp add: point_light_scene_def)
  have l1: "sl_light \<lparr>sl_light = Some \<lparr>light_id = 0, light_Type = Area\<rparr>, sl_pdf = 1 / 2\<rparr> =
              Some \<lparr>light_id = 0, light_Type = Area\<rparr>"
    and l2: "sl_light \<lparr>sl_light = Some \<lparr>light_id = 0, light_Type = DeltaPosition\<rparr>,
                       sl_pdf = 1 / 2\<rparr> = Some \<lparr>light_id = 0, light_Type = DeltaPosition\<rparr>"
    by simp_all
  have ls1: "light_SampleLi null_scene \<lparr>light_id = 0, light_Type = Area\<rparr> ?ctx
               (direct_u ?rs) (sc_lambda example_sc) = Some ?ls"
    by (simp add: null_scene_def)
  have ls2: "light_SampleLi point_light_scene \<lparr>light_id = 0, light_Type = DeltaPosition\<rparr> ?ctx
               (direct_u ?rs) (sc_lambda example_sc) = Some ?ls"
    by (simp add: point_light_scene_def null_scene_def)
  have L: "nonzero (ls_L ?ls)" by simp
  note area = C7_direct_lighting_pdfs [OF refl sl1 l1 ls1 L refl]
  note point = C7_direct_lighting_pdfs [OF refl sl2 l2 ls2 L refl]
  have a: "\<exists>qs'. MediumScatter_item null_scene 0 example_sc empty_queues = Inr qs' \<and>
           map sr_pdfNEE (shadowRayQueue qs') = [spec_const (1 / 8)] \<and>
           map sr_pdfUni (shadowRayQueue qs') = [spec_const (1 / 8)] \<and>
           map sr_tMax (shadowRayQueue qs') = [9999 / 10000] \<and>
           map (ray_d \<circ> sr_ray) (shadowRayQueue qs') = [(0, 0, 3 / 2)]"
    using area by (simp add: example_sc_def null_scene_def empty_queues_def)
  have b: "\<exists>qs'. MediumScatter_item point_light_scene 0 example_sc empty_queues = Inr qs' \<and>
           map sr_pdfNEE (shadowRayQueue qs') = [spec_const (1 / 8)] \<and>
           map sr_pdfUni (shadowRayQueue qs') = [spec_const 0]"
    using point by (simp add: example_sc_def null_scene_def point_light_scene_def empty_queues_def)
  from a b show ?thesis by blast
qed

subsection \<open>A medium that neither absorbs nor scatters\<close>

lemma smul_assoc: "smul (smul a b) c = smul a (smul b c)"
  by (cases a; cases b; cases c) simp

lemma sscale_smul: "sscale (smul a b) k = smul a (sscale b k)"
  by (cases a; cases b) simp

lemma smul_one: "smul a (spec_const 1) = a"
  by (cases a) (simp add: spec_const_def)

lemma smul_zero: "smul a (spec_const 0) = spec_const 0"
  by (cases a) (simp add: spec_const_def)

lemma sadd_zero_const: "sadd a (spec_const 0) = a"
  by (cases a) (simp add: spec_const_def)

lemma clear_mode:
  assumes "intr_sigma_a intr = spec_const 0" and "intr_sigma_s intr = spec_const 0"
      and "\<forall>r. 0 \<le> fst (RNG_Uniform ext r) \<and> fst (RNG_Uniform ext r) < 1"
      and "\<forall>u. 0 \<le> u \<and> u < 1 \<longrightarrow> SampleDiscrete ext [0, 0, 1] u = 2"
  shows "drawn_mode ext intr rng = 2"
  using assms by (simp add: drawn_mode_def pAbsorb_def pScatter_def pNull_def)

lemma sscale_one: "sscale a 1 = a"
  by (cases a) simp

lemma callback_null_clear:
  assumes intr: "smp_intr smp = Some intr"
      and z: "intr_sigma_a intr = spec_const 0" "intr_sigma_s intr = spec_const 0"
      and uni: "\<forall>r. 0 \<le> fst (RNG_Uniform ext r) \<and> fst (RNG_Uniform ext r) < 1"
      and sd: "\<forall>u. 0 \<le> u \<and> u < 1 \<longrightarrow> SampleDiscrete ext [0, 0, 1] u = 2"
      and cb: "SampleMedium_callback ext depth maxDepth ms lambda ray smp (st, rng) =
                 Inr (c, st1, rng1)"
  shows "\<exists>rescaled. c \<and>
           st_beta st1 = smul (st_beta st)
             (sscale (smul (smp_Tmaj smp) (sigma_n intr)) (if rescaled then 1 / 2 ^ 24 else 1)) \<and>
           st_pdfUni st1 = smul (st_pdfUni st)
             (sscale (smul (smp_Tmaj smp) (sigma_n intr)) (if rescaled then 1 / 2 ^ 24 else 1)) \<and>
           st_pdfNEE st1 = smul (st_pdfNEE st)
             (sscale (smul (smp_Tmaj smp) (intr_sigma_maj intr))
                (if rescaled then 1 / 2 ^ 24 else 1)) \<and>
           st_L st1 = st_L st \<and> st_scattered st1 = st_scattered st"
proof -
  have m: "drawn_mode ext intr rng = 2" using z uni sd by (rule clear_mode)
  have L: "add_emission depth maxDepth intr st = st_L st"
    by (simp add: add_emission_def z smul_zero sadd_zero_const)
  let ?h = "smul (smp_Tmaj smp) (sigma_n intr)"
  let ?k = "smul (smp_Tmaj smp) (intr_sigma_maj intr)"
  show ?thesis
  proof (cases "MaxComponentValue (smul (st_beta st) ?h) > 2 ^ 24 \<or>
                MaxComponentValue (smul (st_pdfUni st) ?h) > 2 ^ 24 \<or>
                MaxComponentValue (smul (st_pdfNEE st) ?k) > 2 ^ 24")
    case True
    with cb intr m L
    have "c" "st_beta st1 = smul (st_beta st) (sscale ?h (1 / 2 ^ 24))"
      "st_pdfUni st1 = smul (st_pdfUni st) (sscale ?h (1 / 2 ^ 24))"
      "st_pdfNEE st1 = smul (st_pdfNEE st) (sscale ?k (1 / 2 ^ 24))" "st_L st1 = st_L st"
      "st_scattered st1 = st_scattered st"
      by (auto simp: SampleMedium_callback_def Let_def sscale_smul)
    then show ?thesis by (intro exI [of _ True]) simp
  next
    case False
    with cb intr m L
    have "c" "st_beta st1 = smul (st_beta st) ?h" "st_pdfUni st1 = smul (st_pdfUni st) ?h"
      "st_pdfNEE st1 = smul (st_pdfNEE st) ?k" "st_L st1 = st_L st"
      "st_scattered st1 = st_scattered st"
      by (auto simp: SampleMedium_callback_def Let_def)
    then show ?thesis by (intro exI [of _ False]) (simp add: sscale_one)
  qed
qed

lemma callback_end:
  assumes "smp_intr smp = None"
  shows "SampleMedium_callback ext depth maxDepth ms lambda ray smp (st, rng) =
           Inr (False, st\<lparr>st_beta := smul (st_beta st) (smp_Tmaj smp),
                          st_pdfUni := smul (st_pdfUni st) (smp_Tmaj smp)\<rparr>, rng)"
  using assms by (simp add: SampleMedium_callback_def)

lemma clear_loop:
  assumes vac: "\<forall>ts rng. clear ts \<longrightarrow>
                  clear (fst (snd (Tmaj_next ext ts rng))) \<and>
                  (\<forall>intr. smp_intr (fst (Tmaj_next ext ts rng)) = Some intr \<longrightarrow>
                     intr_sigma_a intr = spec_const 0 \<and> intr_sigma_s intr = spec_const 0)"
      and uni: "\<forall>r. 0 \<le> fst (RNG_Uniform ext r) \<and> fst (RNG_Uniform ext r) < 1"
      and sd: "\<forall>u. 0 \<le> u \<and> u < 1 \<longrightarrow> SampleDiscrete ext [0, 0, 1] u = 2"
      and cl: "clear ts"
      and run: "SampleTmaj_loop n (Tmaj_next ext)
                  (SampleMedium_callback ext depth maxDepth ms lambda ray) ts (st, rng) =
                Some (Inr (st', rng'))"
  shows "\<exists>nulls ending rescaled.
           map fst (SampleTmaj_calls n (Tmaj_next ext)
                      (SampleMedium_callback ext depth maxDepth ms lambda ray) ts (st, rng)) =
             nulls @ [ending] \<and>
           smp_intr ending = None \<and>
           (\<forall>smp \<in> set nulls. \<exists>intr. smp_intr smp = Some intr \<and>
              intr_sigma_a intr = spec_const 0 \<and> intr_sigma_s intr = spec_const 0) \<and>
           length rescaled = length nulls \<and>
           st_beta st' =
             smul (smul (st_beta st) (null_factor sigma_n nulls rescaled)) (smp_Tmaj ending) \<and>
           st_pdfUni st' =
             smul (smul (st_pdfUni st) (null_factor sigma_n nulls rescaled)) (smp_Tmaj ending) \<and>
           st_pdfNEE st' = smul (st_pdfNEE st) (null_factor intr_sigma_maj nulls rescaled) \<and>
           st_L st' = st_L st \<and> st_scattered st' = st_scattered st"
  using cl run
proof (induction n arbitrary: ts st rng)
  case 0
  then show ?case by simp
next
  case (Suc n)
  let ?cb = "SampleMedium_callback ext depth maxDepth ms lambda ray"
  obtain smp ts1 rng1 where nx: "Tmaj_next ext ts rng = (smp, ts1, rng1)"
    by (cases "Tmaj_next ext ts rng") auto
  from vac Suc.prems(1) nx have cl1: "clear ts1"
    and v: "\<forall>intr. smp_intr smp = Some intr \<longrightarrow>
              intr_sigma_a intr = spec_const 0 \<and> intr_sigma_s intr = spec_const 0"
    by (metis fst_conv snd_conv)+
  show ?case
  proof (cases "smp_intr smp")
    case None
    have cb: "?cb smp (st, rng1) =
           Inr (False, st\<lparr>st_beta := smul (st_beta st) (smp_Tmaj smp),
                          st_pdfUni := smul (st_pdfUni st) (smp_Tmaj smp)\<rparr>, rng1)"
      by (rule callback_end [OF None])
    from Suc.prems(2) nx cb
    have st': "st' = st\<lparr>st_beta := smul (st_beta st) (smp_Tmaj smp),
                        st_pdfUni := smul (st_pdfUni st) (smp_Tmaj smp)\<rparr>"
      by simp
    have calls: "map fst (SampleTmaj_calls (Suc n) (Tmaj_next ext) ?cb ts (st, rng)) = [] @ [smp]"
      using nx cb by simp
    show ?thesis
      apply (rule exI [of _ "[]"], rule exI [of _ smp], rule exI [of _ "[]"])
      using calls None st' by (simp add: smul_one)
  next
    case (Some intr)
    with v have z: "intr_sigma_a intr = spec_const 0" "intr_sigma_s intr = spec_const 0"
      by simp_all
    from Suc.prems(2) nx obtain c st1 rng2 where cb: "?cb smp (st, rng1) = Inr (c, st1, rng2)"
      by (cases "?cb smp (st, rng1)") auto
    from callback_null_clear [OF Some z uni sd cb] obtain flag where
      c: "c"
      and b1: "st_beta st1 = smul (st_beta st)
             (sscale (smul (smp_Tmaj smp) (sigma_n intr)) (if flag then 1 / 2 ^ 24 else 1))"
      and u1: "st_pdfUni st1 = smul (st_pdfUni st)
             (sscale (smul (smp_Tmaj smp) (sigma_n intr)) (if flag then 1 / 2 ^ 24 else 1))"
      and e1: "st_pdfNEE st1 = smul (st_pdfNEE st)
             (sscale (smul (smp_Tmaj smp) (intr_sigma_maj intr))
                (if flag then 1 / 2 ^ 24 else 1))"
      and L1: "st_L st1 = st_L st" and s1: "st_scattered st1 = st_scattered st"
      by blast
    from Suc.prems(2) nx cb c Some
    have run1: "SampleTmaj_loop n (Tmaj_next ext) ?cb ts1 (st1, rng2) = Some (Inr (st', rng'))"
      by simp
    from Suc.IH [OF cl1 run1] obtain nulls ending rescaled where
      calls1: "map fst (SampleTmaj_calls n (Tmaj_next ext) ?cb ts1 (st1, rng2)) = nulls @ [ending]"
      and en: "smp_intr ending = None"
      and nl: "\<forall>smp \<in> set nulls. \<exists>intr. smp_intr smp = Some intr \<and>
              intr_sigma_a intr = spec_const 0 \<and> intr_sigma_s intr = spec_const 0"
      and len: "length rescaled = length nulls"
      and b: "st_beta st' =
             smul (smul (st_beta st1) (null_factor sigma_n nulls rescaled)) (smp_Tmaj ending)"
      and u: "st_pdfUni st' =
             smul (smul (st_pdfUni st1) (null_factor sigma_n nulls rescaled)) (smp_Tmaj ending)"
      and e: "st_pdfNEE st' = smul (st_pdfNEE st1) (null_factor intr_sigma_maj nulls rescaled)"
      and L: "st_L st' = st_L st1" and s: "st_scattered st' = st_scattered st1"
      by blast
    have calls: "map fst (SampleTmaj_calls (Suc n) (Tmaj_next ext) ?cb ts (st, rng)) =
                   (smp # nulls) @ [ending]"
      using nx cb c Some calls1 by simp
    show ?thesis
      apply (rule exI [of _ "smp # nulls"], rule exI [of _ ending],
             rule exI [of _ "flag # rescaled"])
      using calls en nl len b u e L s b1 u1 e1 L1 s1 Some z
      by (simp add: smul_assoc)
  qed
qed

lemma clear_scene_run:
  "SampleMedium_traverse clear_scene (Suc (Suc 0)) 0 5 example_ms empty_queues =
     Some (Inr (\<lparr>st_beta = spec_const (1 / 2), st_pdfUni = spec_const (1 / 2),
                 st_pdfNEE = spec_const (1 / 2), st_L = spec_const 0,
                 st_scattered = False, st_mediumScatterQueue = []\<rparr>, 1))"
  by (simp add: run_defs clear_scene_def clear_intr_def)

lemma void_scene_run:
  "SampleMedium_traverse void_scene (Suc 0) 0 5 example_ms empty_queues =
     Some (Inr (\<lparr>st_beta = spec_const 1, st_pdfUni = spec_const 1, st_pdfNEE = spec_const 1,
                 st_L = spec_const 0, st_scattered = False, st_mediumScatterQueue = []\<rparr>, 0))"
  by (simp add: run_defs void_scene_def)

lemma clear_scene_calls:
  "map fst (SampleMedium_calls clear_scene (Suc (Suc 0)) 0 5 example_ms empty_queues) =
     [\<lparr>smp_intr = Some clear_intr, smp_Tmaj = spec_const (1 / 2)\<rparr>] @
     [\<lparr>smp_intr = None, smp_Tmaj = spec_const 1\<rparr>]"
  by (simp add: SampleMedium_calls_def run_defs clear_scene_def clear_intr_def)

text \<open>
  Claim C8, as stated, fails: in the clear scene the one collision the majorant reports is
  a null collision with \<^verbatim>\<open>Tmaj * sigma_n = 1/2\<close>, and the item that entered with the
  throughput and both pdfs at 1 leaves the traversal with all three at \<open>1/2\<close>.
\<close>
theorem C8_counterexample:
  "intr_sigma_a clear_intr = spec_const 0 \<and> intr_sigma_s clear_intr = spec_const 0 \<and>
   ms_beta example_ms = spec_const 1 \<and> ms_pdfUni example_ms = spec_const 1 \<and>
   ms_pdfNEE example_ms = spec_const 1 \<and>
   SampleMedium_traverse clear_scene (Suc (Suc 0)) 0 5 example_ms empty_queues =
     Some (Inr (\<lparr>st_beta = spec_const (1 / 2), st_pdfUni = spec_const (1 / 2),
                 st_pdfNEE = spec_const (1 / 2), st_L = spec_const 0,
                 st_scattered = False, st_mediumScatterQueue = []\<rparr>, 1))"
  by (simp add: clear_scene_run) (simp add: clear_intr_def example_ms_def)

text \<open>
  Claim C8, amended. Let the traversal of the item's medium report only collision samples
  with \<^verbatim>\<open>sigma_a = sigma_s = 0\<close> (on a set \<open>clear\<close> of traversal states that holds the
  initial one and is closed under the traversal), the generator yield numbers in \<open>[0, 1)\<close>
  and \<^verbatim>\<open>SampleDiscrete\<close> return 2 on the weights \<open>0, 0, 1\<close>. Then a traversal that returns
  has not scattered and has added no emission; the samples it handed to the callback are
  null collisions followed by the sample that ends the segment; the throughput and
  \<^verbatim>\<open>pdfUni\<close> have each been multiplied by \<^verbatim>\<open>Tmaj * sigma_n\<close> of every null collision and
  by the \<^verbatim>\<open>Tmaj\<close> of the segment end, \<^verbatim>\<open>pdfNEE\<close> by \<^verbatim>\<open>Tmaj * sigma_maj\<close> of every null
  collision, and all three by \<open>2^-24\<close> once for each collision of one selection of them
  (the overflow rescale). So, component by component, the throughput that leaves times the
  \<^verbatim>\<open>pdfUni\<close> that entered is the throughput that entered times the \<^verbatim>\<open>pdfUni\<close> that
  leaves. The three values themselves are unchanged when the traversal reports no
  collision and a transmittance of 1 to the end of the segment, as under a majorant of 0.
\<close>
theorem C8_null_collision_factors:
  assumes start: "\<forall>m. ray_medium (ms_ray ms) = Some m \<longrightarrow>
                    clear (Tmaj_begin ext m (ms_ray ms) (ms_tMax ms) (ms_lambda ms))"
      and vac: "\<forall>ts rng. clear ts \<longrightarrow>
                  clear (fst (snd (Tmaj_next ext ts rng))) \<and>
                  (\<forall>intr. smp_intr (fst (Tmaj_next ext ts rng)) = Some intr \<longrightarrow>
                     intr_sigma_a intr = spec_const 0 \<and> intr_sigma_s intr = spec_const 0)"
      and uni: "\<forall>r. 0 \<le> fst (RNG_Uniform ext r) \<and> fst (RNG_Uniform ext r) < 1"
      and sd: "\<forall>u. 0 \<le> u \<and> u < 1 \<longrightarrow> SampleDiscrete ext [0, 0, 1] u = 2"
      and run: "SampleMedium_traverse ext fuel depth maxDepth ms qs = Some (Inr (st, rng))"
  shows "\<not> st_scattered st \<and> st_L st = spec_const 0 \<and>
         (\<exists>nulls ending rescaled.
            map fst (SampleMedium_calls ext fuel depth maxDepth ms qs) = nulls @ [ending] \<and>
            smp_intr ending = None \<and>
            (\<forall>smp \<in> set nulls. \<exists>intr. smp_intr smp = Some intr \<and>
               intr_sigma_a intr = spec_const 0 \<and> intr_sigma_s intr = spec_const 0) \<and>
            length rescaled = length nulls \<and>
            st_beta st =
              smul (smul (ms_beta ms) (null_factor sigma_n nulls rescaled)) (smp_Tmaj ending) \<and>
            st_pdfUni st =
              smul (smul (ms_pdfUni ms) (null_factor sigma_n nulls rescaled)) (smp_Tmaj ending) \<and>
            st_pdfNEE st = smul (ms_pdfNEE ms) (null_factor intr_sigma_maj nulls rescaled)) \<and>
         smul (st_beta st) (ms_pdfUni ms) = smul (ms_beta ms) (st_pdfUni st) \<and>
         ((\<forall>m r. ray_medium (ms_ray ms) = Some m \<longrightarrow>
             fst (Tmaj_next ext (Tmaj_begin ext m (ms_ray ms) (ms_tMax ms) (ms_lambda ms)) r) =
               \<lparr>smp_intr = None, smp_Tmaj = spec_const 1\<rparr>) \<longrightarrow>
          st_beta st = ms_beta ms \<and> st_pdfUni st = ms_pdfUni ms \<and> st_pdfNEE st = ms_pdfNEE ms)"
proof -
  let ?cb = "SampleMedium_callback ext depth maxDepth ms (ms_lambda ms) (ms_ray ms)"
  from run obtain m where m: "ray_medium (ms_ray ms) = Some m"
    by (cases "ray_medium (ms_ray ms)") (auto simp: SampleMedium_traverse_def SampleTmaj_def)
  let ?ts = "Tmaj_begin ext m (ms_ray ms) (ms_tMax ms) (ms_lambda ms)"
  have loop: "SampleTmaj_loop fuel (Tmaj_next ext) ?cb ?ts
                (SampleMedium_init ms qs, SampleMedium_rng ext ms) = Some (Inr (st, rng))"
    using run m by (simp add: SampleMedium_traverse_def SampleTmaj_def)
  have calls: "SampleMedium_calls ext fuel depth maxDepth ms qs =
                 SampleTmaj_calls fuel (Tmaj_next ext) ?cb ?ts
                   (SampleMedium_init ms qs, SampleMedium_rng ext ms)"
    using m by (simp add: SampleMedium_calls_def)
  from start m have cl: "clear ?ts" by simp
  from clear_loop [OF vac uni sd cl loop] obtain nulls ending rescaled where
    tr: "map fst (SampleMedium_calls ext fuel depth maxDepth ms qs) = nulls @ [ending]"
    and en: "smp_intr ending = None"
    and nl: "\<forall>smp \<in> set nulls. \<exists>intr. smp_intr smp = Some intr \<and>
               intr_sigma_a intr = spec_const 0 \<and> intr_sigma_s intr = spec_const 0"
    and len: "length rescaled = length nulls"
    and b: "st_beta st =
              smul (smul (ms_beta ms) (null_factor sigma_n nulls rescaled)) (smp_Tmaj ending)"
    and u: "st_pdfUni st =
              smul (smul (ms_pdfUni ms) (null_factor sigma_n nulls rescaled)) (smp_Tmaj ending)"
    and e: "st_pdfNEE st = smul (ms_pdfNEE ms) (null_factor intr_sigma_maj nulls rescaled)"
    and L: "st_L st = spec_const 0" and s: "\<not> st_scattered st"
    unfolding calls by (auto simp: SampleMedium_init_def)
  have cross: "smul (st_beta st) (ms_pdfUni ms) = smul (ms_beta ms) (st_pdfUni st)"
    unfolding b u
    by (cases "ms_beta ms"; cases "ms_pdfUni ms"; cases "null_factor sigma_n nulls rescaled";
        cases "smp_Tmaj ending") simp
  have same: "st_beta st = ms_beta ms \<and> st_pdfUni st = ms_pdfUni ms \<and> st_pdfNEE st = ms_pdfNEE ms"
    if unit: "\<forall>m r. ray_medium (ms_ray ms) = Some m \<longrightarrow>
                fst (Tmaj_next ext (Tmaj_begin ext m (ms_ray ms) (ms_tMax ms) (ms_lambda ms)) r) =
                  \<lparr>smp_intr = None, smp_Tmaj = spec_const 1\<rparr>"
  proof -
    obtain n where n: "fuel = Suc n"
      using loop by (cases fuel) simp_all
    obtain smp ts1 r1 where nx: "Tmaj_next ext ?ts (SampleMedium_rng ext ms) = (smp, ts1, r1)"
      by (cases "Tmaj_next ext ?ts (SampleMedium_rng ext ms)") auto
    with unit m have smp: "smp = \<lparr>smp_intr = None, smp_Tmaj = spec_const 1\<rparr>"
      by (metis fst_conv)
    from loop show ?thesis
      unfolding n
      by (simp add: nx smp SampleMedium_callback_def SampleMedium_init_def smul_one) auto
  qed
  from s L tr en nl len b u e cross same show ?thesis by blast
qed

text \<open>
  The theorem in the clear scene, where the one null collision has
  \<^verbatim>\<open>Tmaj * sigma_n = Tmaj * sigma_maj = 1/2\<close>, and in the void scene, where the three values
  are unchanged.
\<close>
theorem C8_null_collision_factors_witness:
  "(\<exists>st rng rescaled.
      SampleMedium_traverse clear_scene (Suc (Suc 0)) 0 5 example_ms empty_queues =
        Some (Inr (st, rng)) \<and>
      \<not> st_scattered st \<and> st_L st = spec_const 0 \<and>
      length rescaled = 1 \<and>
      st_beta st =
        smul (smul (ms_beta example_ms)
                (null_factor sigma_n [\<lparr>smp_intr = Some clear_intr, smp_Tmaj = spec_const (1 / 2)\<rparr>]
                   rescaled))
             (spec_const 1) \<and>
      st_pdfUni st =
        smul (smul (ms_pdfUni example_ms)
                (null_factor sigma_n [\<lparr>smp_intr = Some clear_intr, smp_Tmaj = spec_const (1 / 2)\<rparr>]
                   rescaled))
             (spec_const 1) \<and>
      st_pdfNEE st =
        smul (ms_pdfNEE example_ms)
          (null_factor intr_sigma_maj
             [\<lparr>smp_intr = Some clear_intr, smp_Tmaj = spec_const (1 / 2)\<rparr>] rescaled) \<and>
      smul (st_beta st) (ms_pdfUni example_ms) = smul (ms_beta example_ms) (st_pdfUni st)) \<and>
   (\<exists>st rng. SampleMedium_traverse void_scene (Suc 0) 0 5 example_ms empty_queues =
              Some (Inr (st, rng)) \<and>
            st_beta st = ms_beta example_ms \<and> st_pdfUni st = ms_pdfUni example_ms \<and>
            st_pdfNEE st = ms_pdfNEE example_ms)"
proof -
  let ?clear = "\<lambda>ts :: script. \<forall>smp \<in> set (fst ts). smp_intr smp = Some clear_intr"
  have start: "\<forall>m. ray_medium (ms_ray example_ms) = Some m \<longrightarrow>
                 ?clear (Tmaj_begin clear_scene m (ms_ray example_ms) (ms_tMax example_ms)
                           (ms_lambda example_ms))"
    by (simp add: clear_scene_def)
  have vac: "\<forall>ts rng. ?clear ts \<longrightarrow>
               ?clear (fst (snd (Tmaj_next clear_scene ts rng))) \<and>
               (\<forall>intr. smp_intr (fst (Tmaj_next clear_scene ts rng)) = Some intr \<longrightarrow>
                  intr_sigma_a intr = spec_const 0 \<and> intr_sigma_s intr = spec_const 0)"
    by (auto simp: clear_scene_def script_next_def clear_intr_def split: list.splits)
  have uni: "\<forall>r. 0 \<le> fst (RNG_Uniform clear_scene r) \<and> fst (RNG_Uniform clear_scene r) < 1"
    by (simp add: clear_scene_def)
  have sd: "\<forall>u. 0 \<le> u \<and> u < 1 \<longrightarrow> SampleDiscrete clear_scene [0, 0, 1] u = 2"
    by (simp add: clear_scene_def scripted_SampleDiscrete_def)
  let ?st = "\<lparr>st_beta = spec_const (1 / 2), st_pdfUni = spec_const (1 / 2),
              st_pdfNEE = spec_const (1 / 2), st_L = spec_const 0,
              st_scattered = False, st_mediumScatterQueue = []\<rparr>"
  from C8_null_collision_factors [where clear = ?clear, OF start vac uni sd clear_scene_run]
  obtain nulls ending rescaled where
    tr: "map fst (SampleMedium_calls clear_scene (Suc (Suc 0)) 0 5 example_ms empty_queues) =
           nulls @ [ending]"
    and len: "length rescaled = length nulls"
    and b: "st_beta ?st =
          smul (smul (ms_beta example_ms) (null_factor sigma_n nulls rescaled)) (smp_Tmaj ending)"
    and u: "st_pdfUni ?st =
          smul (smul (ms_pdfUni example_ms) (null_factor sigma_n nulls rescaled)) (smp_Tmaj ending)"
    and e: "st_pdfNEE ?st = smul (ms_pdfNEE example_ms) (null_factor intr_sigma_maj nulls rescaled)"
    and cross: "smul (st_beta ?st) (ms_pdfUni example_ms) = smul (ms_beta example_ms) (st_pdfUni ?st)"
    and quiet: "\<not> st_scattered ?st" "st_L ?st = spec_const 0"
    by blast
  from tr have nulls: "nulls = [\<lparr>smp_intr = Some clear_intr, smp_Tmaj = spec_const (1 / 2)\<rparr>]"
    and ending: "ending = \<lparr>smp_intr = None, smp_Tmaj = spec_const 1\<rparr>"
    unfolding clear_scene_calls by simp_all
  have first: "\<exists>st rng rescaled.
      SampleMedium_traverse clear_scene (Suc (Suc 0)) 0 5 example_ms empty_queues =
        Some (Inr (st, rng)) \<and>
      \<not> st_scattered st \<and> st_L st = spec_const 0 \<and>
      length rescaled = 1 \<and>
      st_beta st =
        smul (smul (ms_beta example_ms)
                (null_factor sigma_n [\<lparr>smp_intr = Some clear_intr, smp_Tmaj = spec_const (1 / 2)\<rparr>]
                   rescaled))
             (spec_const 1) \<and>
      st_pdfUni st =
        smul (smul (ms_pdfUni example_ms)
                (null_factor sigma_n [\<lparr>smp_intr = Some clear_intr, smp_Tmaj = spec_const (1 / 2)\<rparr>]
                   rescaled))
             (spec_const 1) \<and>
      st_pdfNEE st =
        smul (ms_pdfNEE example_ms)
          (null_factor intr_sigma_maj
             [\<lparr>smp_intr = Some clear_intr, smp_Tmaj = spec_const (1 / 2)\<rparr>] rescaled) \<and>
      smul (st_beta st) (ms_pdfUni example_ms) = smul (ms_beta example_ms) (st_pdfUni st)"
  proof (intro exI conjI)
    show "SampleMedium_traverse clear_scene (Suc (Suc 0)) 0 5 example_ms empty_queues =
            Some (Inr (?st, 1))"
      by (rule clear_scene_run)
    show "length rescaled = 1" using len nulls by simp
  qed (use b u e cross quiet in \<open>simp_all add: nulls ending\<close>)
  let ?void = "\<lambda>ts :: script. fst ts = [] \<and> snd ts = spec_const 1"
  have start0: "\<forall>m. ray_medium (ms_ray example_ms) = Some m \<longrightarrow>
                 ?void (Tmaj_begin void_scene m (ms_ray example_ms) (ms_tMax example_ms)
                          (ms_lambda example_ms))"
    by (simp add: void_scene_def)
  have vac0: "\<forall>ts rng. ?void ts \<longrightarrow>
               ?void (fst (snd (Tmaj_next void_scene ts rng))) \<and>
               (\<forall>intr. smp_intr (fst (Tmaj_next void_scene ts rng)) = Some intr \<longrightarrow>
                  intr_sigma_a intr = spec_const 0 \<and> intr_sigma_s intr = spec_const 0)"
    by (auto simp: void_scene_def script_next_def)
  have uni0: "\<forall>r. 0 \<le> fst (RNG_Uniform void_scene r) \<and> fst (RNG_Uniform void_scene r) < 1"
    by (simp add: void_scene_def)
  have sd0: "\<forall>u. 0 \<le> u \<and> u < 1 \<longrightarrow> SampleDiscrete void_scene [0, 0, 1] u = 2"
    by (simp add: void_scene_def scripted_SampleDiscrete_def)
  have unit0: "\<forall>m r. ray_medium (ms_ray example_ms) = Some m \<longrightarrow>
                 fst (Tmaj_next void_scene
                        (Tmaj_begin void_scene m (ms_ray example_ms) (ms_tMax example_ms)
                           (ms_lambda example_ms)) r) =
                   \<lparr>smp_intr = None, smp_Tmaj = spec_const 1\<rparr>"
    by (simp add: void_scene_def script_next_def)
  from C8_null_collision_factors [where clear = ?void, OF start0 vac0 uni0 sd0 void_scene_run]
       unit0 void_scene_run
  have second: "\<exists>st rng. SampleMedium_traverse void_scene (Suc 0) 0 5 example_ms empty_queues =
                 Some (Inr (st, rng)) \<and>
            st_beta st = ms_beta example_ms \<and> st_pdfUni st = ms_pdfUni example_ms \<and>
            st_pdfNEE st = ms_pdfNEE example_ms"
    by blast
  from first second show ?thesis by blast
qed

subsection \<open>Seeds and determinism\<close>

lemma SampleTmaj_loop_spectral:
  assumes cb: "\<And>smp s1 s2 r. spectral s1 = spectral s2 \<Longrightarrow>
                 (case cb1 smp (s1, r) of
                    Inl e \<Rightarrow> cb2 smp (s2, r) = Inl e
                  | Inr (c, t1, r1) \<Rightarrow>
                      (\<exists>t2. cb2 smp (s2, r) = Inr (c, t2, r1) \<and> spectral t1 = spectral t2))"
      and st: "spectral st1 = spectral st2"
  shows "spectral_outcome (SampleTmaj_loop n nxt cb1 ts (st1, rng)) =
         spectral_outcome (SampleTmaj_loop n nxt cb2 ts (st2, rng))"
  using st
proof (induction n arbitrary: ts st1 st2 rng)
  case 0
  show ?case by simp
next
  case (Suc n)
  obtain smp ts1 rng1 where nx: "nxt ts rng = (smp, ts1, rng1)"
    by (cases "nxt ts rng") auto
  show ?case
  proof (cases "cb1 smp (st1, rng1)")
    case (Inl e)
    with cb [OF Suc.prems, of smp rng1] have "cb2 smp (st2, rng1) = Inl e" by simp
    with Inl nx show ?thesis by simp
  next
    case (Inr x)
    obtain c t1 r1 where x: "x = (c, t1, r1)" by (cases x) auto
    with Inr cb [OF Suc.prems, of smp rng1] obtain t2 where
      t2: "cb2 smp (st2, rng1) = Inr (c, t2, r1)" "spectral t1 = spectral t2"
      by auto
    show ?thesis
    proof (cases "c \<and> smp_intr smp \<noteq> None")
      case True
      with nx Inr x t2 Suc.IH [OF t2(2), of ts1 r1] show ?thesis by simp
    next
      case False
      with nx Inr x t2 show ?thesis by auto
    qed
  qed
qed

lemma callback_spectral:
  assumes "spectral s1 = spectral s2"
  shows "case SampleMedium_callback ext depth maxDepth a lambda ray smp (s1, r) of
           Inl e \<Rightarrow> SampleMedium_callback ext depth maxDepth b lambda ray smp (s2, r) = Inl e
         | Inr (c, t1, r1) \<Rightarrow>
             (\<exists>t2. SampleMedium_callback ext depth maxDepth b lambda ray smp (s2, r) =
                      Inr (c, t2, r1) \<and> spectral t1 = spectral t2)"
  using assms
  by (auto simp: SampleMedium_callback_def Let_def spectral_def add_emission_def
      split: option.splits)

lemma traverse_spectral:
  assumes "ms_ray a = ms_ray b" and "ms_tMax a = ms_tMax b" and "ms_lambda a = ms_lambda b"
      and "ms_beta a = ms_beta b" and "ms_pdfUni a = ms_pdfUni b" and "ms_pdfNEE a = ms_pdfNEE b"
  shows "spectral_outcome (SampleMedium_traverse ext fuel depth maxDepth a qa) =
         spectral_outcome (SampleMedium_traverse ext fuel depth maxDepth b qb)"
proof (cases "ray_medium (ms_ray b)")
  case None
  with assms show ?thesis by (simp add: SampleMedium_traverse_def SampleTmaj_def)
next
  case (Some m)
  have init: "spectral (SampleMedium_init a qa) = spectral (SampleMedium_init b qb)"
    using assms by (simp add: spectral_def SampleMedium_init_def)
  have rng: "SampleMedium_rng ext a = SampleMedium_rng ext b"
    using assms by (simp add: SampleMedium_rng_def)
  show ?thesis
    using Some assms(1-3) rng
      SampleTmaj_loop_spectral [
        where ?cb1.0 = "SampleMedium_callback ext depth maxDepth a (ms_lambda b) (ms_ray b)"
          and ?cb2.0 = "SampleMedium_callback ext depth maxDepth b (ms_lambda b) (ms_ray b)"
          and n = fuel and nxt = "Tmaj_next ext"
          and ts = "Tmaj_begin ext m (ms_ray b) (ms_tMax b) (ms_lambda b)"
          and rng = "SampleMedium_rng ext b",
        OF callback_spectral init]
    by (simp add: SampleMedium_traverse_def SampleTmaj_def)
qed

lemma two_media_run_0:
  "SampleMedium_traverse two_media_scene (Suc 0) 0 5 example_ms empty_queues =
     Some (Inr (\<lparr>st_beta = spec_const 1, st_pdfUni = spec_const 1, st_pdfNEE = spec_const 1,
                 st_L = spec_const 0, st_scattered = False, st_mediumScatterQueue = []\<rparr>, 6))"
  by (simp add: run_defs two_media_scene_def)

lemma two_media_run_1:
  "SampleMedium_traverse two_media_scene (Suc 0) 0 5 example_ms_1 empty_queues =
     Some (Inr (\<lparr>st_beta = spec_const (1 / 2), st_pdfUni = spec_const (1 / 2),
                 st_pdfNEE = spec_const 1, st_L = spec_const 0, st_scattered = False,
                 st_mediumScatterQueue = []\<rparr>, 6))"
  by (simp add: run_defs two_media_scene_def example_ms_1_def)

text \<open>
  Claim C10, as stated, fails in its last part: the two example items agree on \<^verbatim>\<open>tMax\<close>
  and \<^verbatim>\<open>ray.d\<close> and start from the same generator, but they travel through different
  media, and the first keeps its throughput and \<^verbatim>\<open>pdfUni\<close> at 1 while the second leaves
  with both at \<open>1/2\<close>.
\<close>
theorem C10_counterexample:
  "ms_tMax example_ms = ms_tMax example_ms_1 \<and>
   ray_d (ms_ray example_ms) = ray_d (ms_ray example_ms_1) \<and>
   SampleMedium_rng two_media_scene example_ms = SampleMedium_rng two_media_scene example_ms_1 \<and>
   SampleMedium_traverse two_media_scene (Suc 0) 0 5 example_ms empty_queues =
     Some (Inr (\<lparr>st_beta = spec_const 1, st_pdfUni = spec_const 1, st_pdfNEE = spec_const 1,
                 st_L = spec_const 0, st_scattered = False, st_mediumScatterQueue = []\<rparr>, 6)) \<and>
   SampleMedium_traverse two_media_scene (Suc 0) 0 5 example_ms_1 empty_queues =
     Some (Inr (\<lparr>st_beta = spec_const (1 / 2), st_pdfUni = spec_const (1 / 2),
                 st_pdfNEE = spec_const 1, st_L = spec_const 0, st_scattered = False,
                 st_mediumScatterQueue = []\<rparr>, 6))"
  by (simp add: two_media_run_0 two_media_run_1)
     (simp add: example_ms_1_def example_ms_def example_ray_def SampleMedium_rng_def)

text \<open>
  Claim C10, amended. The free-flight sampler seeds its generator from \<^verbatim>\<open>Hash(tMax)\<close> and
  \<^verbatim>\<open>Hash(ray.d)\<close> only, and the transmittance-mode shadow resolver from \<^verbatim>\<open>Hash(ray.o)\<close>
  and \<^verbatim>\<open>Hash(ray.d)\<close> only, so two items that agree on those fields start from the same
  generator state. Their spectral results are the same when, in the same scene and at the
  same depth, they also agree on the whole ray (origin, direction, time and medium), on
  \<^verbatim>\<open>tMax\<close>, on the wavelengths and on the incoming spectral values (the throughput,
  \<^verbatim>\<open>pdfUni\<close> and \<^verbatim>\<open>pdfNEE\<close> of a medium-sample item; \<^verbatim>\<open>Ld\<close>, \<^verbatim>\<open>pdfUni\<close> and \<^verbatim>\<open>pdfNEE\<close>
  of a shadow item): whatever else the items and the queues hold, the traversals of two
  such medium-sample items end with the same error or the same throughput, pdfs, radiance,
  scatter flag and generator, and two such shadow items resolve to the same radiance.
\<close>
theorem C10_seed_and_determinism:
  "(ms_tMax a = ms_tMax b \<and> ray_d (ms_ray a) = ray_d (ms_ray b) \<longrightarrow>
      SampleMedium_rng ext a = SampleMedium_rng ext b) \<and>
   (ray_o (sr_ray c) = ray_o (sr_ray d) \<and> ray_d (sr_ray c) = ray_d (sr_ray d) \<longrightarrow>
      shadow_Tr_rng ext c = shadow_Tr_rng ext d) \<and>
   (ms_ray a = ms_ray b \<and> ms_tMax a = ms_tMax b \<and> ms_lambda a = ms_lambda b \<and>
    ms_beta a = ms_beta b \<and> ms_pdfUni a = ms_pdfUni b \<and> ms_pdfNEE a = ms_pdfNEE b \<longrightarrow>
      spectral_outcome (SampleMedium_traverse ext fuel depth maxDepth a qa) =
      spectral_outcome (SampleMedium_traverse ext fuel depth maxDepth b qb)) \<and>
   (sr_ray c = sr_ray d \<and> sr_tMax c = sr_tMax d \<and> sr_lambda c = sr_lambda d \<and>
    sr_Ld c = sr_Ld d \<and> sr_pdfUni c = sr_pdfUni d \<and> sr_pdfNEE c = sr_pdfNEE d \<longrightarrow>
      shadow_Tr_Ld ext passes fuel c = shadow_Tr_Ld ext passes fuel d)"
proof (intro conjI impI)
  assume "ms_tMax a = ms_tMax b \<and> ray_d (ms_ray a) = ray_d (ms_ray b)"
  then show "SampleMedium_rng ext a = SampleMedium_rng ext b"
    by (simp add: SampleMedium_rng_def)
next
  assume "ray_o (sr_ray c) = ray_o (sr_ray d) \<and> ray_d (sr_ray c) = ray_d (sr_ray d)"
  then show "shadow_Tr_rng ext c = shadow_Tr_rng ext d"
    by (simp add: shadow_Tr_rng_def)
next
  assume "ms_ray a = ms_ray b \<and> ms_tMax a = ms_tMax b \<and> ms_lambda a = ms_lambda b \<and>
    ms_beta a = ms_beta b \<and> ms_pdfUni a = ms_pdfUni b \<and> ms_pdfNEE a = ms_pdfNEE b"
  then show "spectral_outcome (SampleMedium_traverse ext fuel depth maxDepth a qa) =
      spectral_outcome (SampleMedium_traverse ext fuel depth maxDepth b qb)"
    by (intro traverse_spectral) simp_all
next
  assume "sr_ray c = sr_ray d \<and> sr_tMax c = sr_tMax d \<and> sr_lambda c = sr_lambda d \<and>
    sr_Ld c = sr_Ld d \<and> sr_pdfUni c = sr_pdfUni d \<and> sr_pdfNEE c = sr_pdfNEE d"
  then show "shadow_Tr_Ld ext passes fuel c = shadow_Tr_Ld ext passes fuel d"
    by (simp add: shadow_Tr_Ld_def shadow_Tr_rng_def)
qed

text \<open>
  The theorem in the seeded scene and the scattering scene: the example item and its twin in
  the other medium start from the same generator; the example item and a copy that differs
  in its pixel and ray indices, run against different queues, end with the same spectral
  outcome; and so do a shadow item and its copy for another pixel.
\<close>
theorem C10_seed_and_determinism_witness:
  "SampleMedium_rng two_media_scene example_ms = SampleMedium_rng two_media_scene example_ms_1 \<and>
   shadow_Tr_rng two_media_scene example_sr =
     shadow_Tr_rng two_media_scene (example_sr\<lparr>sr_pixelIndex := 9\<rparr>) \<and>
   spectral_outcome (SampleMedium_traverse scatter_scene (Suc (Suc 0)) 0 5 example_ms empty_queues) =
     spectral_outcome (SampleMedium_traverse scatter_scene (Suc (Suc 0)) 0 5
       (example_ms\<lparr>ms_rayIndex := 3, ms_pixelIndex := 9\<rparr>) shadow_queues) \<and>
   shadow_Tr_Ld shadow_scene (Suc (Suc 0)) (Suc (Suc 0)) example_sr =
     shadow_Tr_Ld shadow_scene (Suc (Suc 0)) (Suc (Suc 0)) (example_sr\<lparr>sr_pixelIndex := 9\<rparr>)"
proof -
  note seed = C10_seed_and_determinism [where a = example_ms and b = example_ms_1
      and ext = two_media_scene and c = example_sr and d = "example_sr\<lparr>sr_pixelIndex := 9\<rparr>"]
  note same = C10_seed_and_determinism [where a = example_ms
      and b = "example_ms\<lparr>ms_rayIndex := 3, ms_pixelIndex := 9\<rparr>" and ext = scatter_scene
      and fuel = "Suc (Suc 0)" and depth = 0 and maxDepth = 5 and qa = empty_queues
      and qb = shadow_queues]
  note shadow = C10_seed_and_determinism [where ext = shadow_scene and c = example_sr
      and d = "example_sr\<lparr>sr_pixelIndex := 9\<rparr>" and passes = "Suc (Suc 0)"
      and fuel = "Suc (Suc 0)"]
  have a: "SampleMedium_rng two_media_scene example_ms =
           SampleMedium_rng two_media_scene example_ms_1"
    using seed [THEN conjunct1] by (simp add: example_ms_1_def example_ms_def example_ray_def)
  have b: "shadow_Tr_rng two_media_scene example_sr =
           shadow_Tr_rng two_media_scene (example_sr\<lparr>sr_pixelIndex := 9\<rparr>)"
    using seed [THEN conjunct2, THEN conjunct1] by simp
  have c: "spectral_outcome
             (SampleMedium_traverse scatter_scene (Suc (Suc 0)) 0 5 example_ms empty_queues) =
           spectral_outcome (SampleMedium_traverse scatter_scene (Suc (Suc 0)) 0 5
             (example_ms\<lparr>ms_rayIndex := 3, ms_pixelIndex := 9\<rparr>) shadow_queues)"
    using same [THEN conjunct2, THEN conjunct2, THEN conjunct1] by simp
  have d: "shadow_Tr_Ld shadow_scene (Suc (Suc 0)) (Suc (Suc 0)) example_sr =
           shadow_Tr_Ld shadow_scene (Suc (Suc 0)) (Suc (Suc 0))
             (example_sr\<lparr>sr_pixelIndex := 9\<rparr>)"
    using shadow [THEN conjunct2, THEN conjunct2, THEN conjunct2] by simp
  from a b c d show ?thesis by blast
qed

subsection \<open>Shadow rays through media\<close>

text \<open>
  Claim C2. In one pass of the loop of \<^verbatim>\<open>__raygen__shadow_Tr\<close>: when the trace returns a
  hit with a material, the accumulated \<^verbatim>\<open>Ld\<close> is zeroed and the loop stops. Otherwise (a
  miss, or a hit with no material), once the medium traversal of the pass has returned, the
  loop stops exactly when the trace missed, or \<^verbatim>\<open>Ld\<close> is zero, or the direction of the ray
  spawned toward the light point is the zero vector, and it goes on with the spawned ray
  otherwise. A pass that stops ends the loop, a pass that goes on is followed by the next.
  And the radiance stored for the item, at its index, is the \<^verbatim>\<open>Ld\<close> the loop ended with
  divided by \<^verbatim>\<open>(pdfUni + pdfNEE).Average()\<close>.
\<close>
theorem C2_shadow_Tr:
  "(\<forall>intr. Trace ext ray (1 / 100000) tMax True = Some intr \<and> si_material intr \<noteq> None \<longrightarrow>
      shadow_Tr_body ext fuel lambda tMax pLight (ray, st, rng) =
        Some (Inr (Break (ray, st\<lparr>sh_Ld := spec_const 0\<rparr>, rng)))) \<and>
   (\<forall>missed ctx st' rng'.
      shadow_Tr_trace ext ray tMax = (missed, ctx) \<and> (missed \<or> ctx_material ctx = None) \<and>
      shadow_Tr_medium ext fuel lambda tMax ray missed ctx (st, rng) = Some (Inr (st', rng')) \<longrightarrow>
      shadow_Tr_body ext fuel lambda tMax pLight (ray, st, rng) =
        Some (Inr
          (if missed \<or> \<not> nonzero (sh_Ld st') then Break (ray, st', rng')
           else if ray_d (Interaction_SpawnRayTo ext (ctx_piHit ctx) (ctx_nHit ctx)
                            (ctx_mediumInterface ctx) pLight) = (0, 0, 0)
           then Break (Interaction_SpawnRayTo ext (ctx_piHit ctx) (ctx_nHit ctx)
                         (ctx_mediumInterface ctx) pLight, st', rng')
           else Continue (Interaction_SpawnRayTo ext (ctx_piHit ctx) (ctx_nHit ctx)
                            (ctx_mediumInterface ctx) pLight, st', rng')))) \<and>
   (\<forall>s s'. shadow_Tr_body ext fuel lambda tMax pLight s = Some (Inr (Break s')) \<longrightarrow>
      shadow_Tr_loop (Suc passes) ext fuel lambda tMax pLight s = Some (Inr s')) \<and>
   (\<forall>s s'. shadow_Tr_body ext fuel lambda tMax pLight s = Some (Inr (Continue s')) \<longrightarrow>
      shadow_Tr_loop (Suc passes) ext fuel lambda tMax pLight s =
        shadow_Tr_loop passes ext fuel lambda tMax pLight s') \<and>
   (\<forall>sr rayF stF rngF.
      0 \<le> index \<and> index < int (length (shadowRayQueue qs)) \<and>
      sr = shadowRayQueue qs ! nat index \<and>
      shadow_Tr_loop passes ext fuel (sr_lambda sr) (sr_tMax sr)
        (ray_at (ray_o (sr_ray sr)) (ray_d (sr_ray sr)) (sr_tMax sr))
        (sr_ray sr, \<lparr>sh_Ld = sr_Ld sr, sh_pdfUni = sr_pdfUni sr, sh_pdfNEE = sr_pdfNEE sr\<rparr>,
         shadow_Tr_rng ext sr) = Some (Inr (rayF, stF, rngF)) \<longrightarrow>
      raygen_shadow_Tr ext passes fuel index qs =
        Some (Inr (qs\<lparr>shadowRayQueue_Ld := (shadowRayQueue_Ld qs)
          (index := sdivf (sh_Ld stF) (Average (sadd (sh_pdfUni stF) (sh_pdfNEE stF))))\<rparr>)))"
proof (intro conjI allI impI)
  fix intr
  assume "Trace ext ray (1 / 100000) tMax True = Some intr \<and> si_material intr \<noteq> None"
  then show "shadow_Tr_body ext fuel lambda tMax pLight (ray, st, rng) =
        Some (Inr (Break (ray, st\<lparr>sh_Ld := spec_const 0\<rparr>, rng)))"
    by (auto simp: shadow_Tr_body_def shadow_Tr_trace_def fill_context_def Let_def)
next
  fix missed ctx st' rng'
  assume "shadow_Tr_trace ext ray tMax = (missed, ctx) \<and> (missed \<or> ctx_material ctx = None) \<and>
      shadow_Tr_medium ext fuel lambda tMax ray missed ctx (st, rng) = Some (Inr (st', rng'))"
  then show "shadow_Tr_body ext fuel lambda tMax pLight (ray, st, rng) =
        Some (Inr
          (if missed \<or> \<not> nonzero (sh_Ld st') then Break (ray, st', rng')
           else if ray_d (Interaction_SpawnRayTo ext (ctx_piHit ctx) (ctx_nHit ctx)
                            (ctx_mediumInterface ctx) pLight) = (0, 0, 0)
           then Break (Interaction_SpawnRayTo ext (ctx_piHit ctx) (ctx_nHit ctx)
                         (ctx_mediumInterface ctx) pLight, st', rng')
           else Continue (Interaction_SpawnRayTo ext (ctx_piHit ctx) (ctx_nHit ctx)
                            (ctx_mediumInterface ctx) pLight, st', rng')))"
    by (auto simp: shadow_Tr_body_def Let_def)
next
  fix s s' :: "Ray \<times> ShadowState \<times> 'a"
  assume "shadow_Tr_body ext fuel lambda tMax pLight s = Some (Inr (Break s'))"
  then show "shadow_Tr_loop (Suc passes) ext fuel lambda tMax pLight s = Some (Inr s')"
    by simp
next
  fix s s' :: "Ray \<times> ShadowState \<times> 'a"
  assume "shadow_Tr_body ext fuel lambda tMax pLight s = Some (Inr (Continue s'))"
  then show "shadow_Tr_loop (Suc passes) ext fuel lambda tMax pLight s =
        shadow_Tr_loop passes ext fuel lambda tMax pLight s'"
    by simp
next
  fix sr rayF stF and rngF :: 'a
  assume "0 \<le> index \<and> index < int (length (shadowRayQueue qs)) \<and>
      sr = shadowRayQueue qs ! nat index \<and>
      shadow_Tr_loop passes ext fuel (sr_lambda sr) (sr_tMax sr)
        (ray_at (ray_o (sr_ray sr)) (ray_d (sr_ray sr)) (sr_tMax sr))
        (sr_ray sr, \<lparr>sh_Ld = sr_Ld sr, sh_pdfUni = sr_pdfUni sr, sh_pdfNEE = sr_pdfNEE sr\<rparr>,
         shadow_Tr_rng ext sr) = Some (Inr (rayF, stF, rngF))"
  then show "raygen_shadow_Tr ext passes fuel index qs =
        Some (Inr (qs\<lparr>shadowRayQueue_Ld := (shadowRayQueue_Ld qs)
          (index := sdivf (sh_Ld stF) (Average (sadd (sh_pdfUni stF) (sh_pdfNEE stF))))\<rparr>))"
    by (auto simp: raygen_shadow_Tr_def shadow_Tr_Ld_def Let_def)
qed

text \<open>
  The theorem in the shadow scene. The item from the origin crosses the boundary in its
  first pass and goes on with the ray spawned at \<open>z = 1\<close>, which hits the opaque surface:
  its radiance is zero. The item through the example medium misses; its one null collision
  leaves \<^verbatim>\<open>Ld = 1/4\<close>, \<^verbatim>\<open>pdfUni = 1/4\<close> and \<^verbatim>\<open>pdfNEE = 1/2\<close>, and its radiance is \<open>1/3\<close>.
\<close>
theorem C2_shadow_Tr_witness:
  "shadow_Tr_body shadow_scene (Suc (Suc 0)) (sr_lambda example_sr) 1 (0, 0, 2)
     (sr_ray example_sr, unit_shadow_state, 0) =
     Some (Inr (Continue (second_ray, unit_shadow_state, 0))) \<and>
   shadow_Tr_body shadow_scene (Suc (Suc 0)) (sr_lambda example_sr) 1 (0, 0, 2)
     (second_ray, unit_shadow_state, 0) =
     Some (Inr (Break (second_ray, unit_shadow_state\<lparr>sh_Ld := spec_const 0\<rparr>, 0))) \<and>
   raygen_shadow_Tr shadow_scene (Suc (Suc 0)) (Suc (Suc 0)) 0 shadow_queues =
     Some (Inr (shadow_queues\<lparr>shadowRayQueue_Ld :=
                  (shadowRayQueue_Ld shadow_queues)(0 := spec_const 0)\<rparr>)) \<and>
   raygen_shadow_Tr shadow_scene (Suc (Suc 0)) (Suc (Suc 0)) 1 shadow_queues =
     Some (Inr (shadow_queues\<lparr>shadowRayQueue_Ld :=
                  (shadowRayQueue_Ld shadow_queues)(1 := spec_const (1 / 3))\<rparr>))"
proof -
  let ?F = "Suc (Suc 0)"
  let ?lam = "sr_lambda example_sr"
  let ?A = "sr_ray example_sr"
  let ?B = "sr_ray example_sr_fog"
  let ?u = unit_shadow_state
  let ?ctx = "fill_context (ClosestHitContext_new None True) interface_hit"
  let ?fog = "\<lparr>sh_Ld = spec_const (1 / 4), sh_pdfUni = spec_const (1 / 4),
               sh_pdfNEE = spec_const (1 / 2)\<rparr>"
  have t1: "shadow_Tr_trace shadow_scene ?A 1 = (False, ?ctx)"
    by (simp add: shadow_Tr_trace_def shadow_scene_def example_sr_def)
  have n1: "False \<or> ctx_material ?ctx = None"
    by (simp add: fill_context_def interface_hit_def emitter_hit_def)
  have m1: "shadow_Tr_medium shadow_scene ?F ?lam 1 ?A False ?ctx (?u, 0::nat) = Some (Inr (?u, 0))"
    by (simp add: shadow_Tr_medium_def example_sr_def)
  have W1: "shadow_Tr_body shadow_scene ?F ?lam 1 (0, 0, 2) (?A, ?u, 0) =
              Some (Inr (Continue (second_ray, ?u, 0)))"
    using C2_shadow_Tr [where ext = shadow_scene and ray = ?A and tMax = 1 and st = ?u
        and rng = "0::nat" and fuel = ?F and lambda = ?lam and pLight = "(0, 0, 2)",
        THEN conjunct2, THEN conjunct1, rule_format, OF conjI [OF t1 conjI [OF n1 m1]]]
    by (simp add: shadow_scene_def fill_context_def interface_hit_def emitter_hit_def
        unit_shadow_state_def second_ray_def)
  have t2: "Trace shadow_scene second_ray (1 / 100000) 1 True = Some opaque_hit \<and>
            si_material opaque_hit \<noteq> None"
    by (simp add: shadow_scene_def second_ray_def opaque_hit_def emitter_hit_def)
  have W2: "shadow_Tr_body shadow_scene ?F ?lam 1 (0, 0, 2) (second_ray, ?u, 0) =
              Some (Inr (Break (second_ray, ?u\<lparr>sh_Ld := spec_const 0\<rparr>, 0)))"
    using C2_shadow_Tr [where ext = shadow_scene and ray = second_ray and tMax = 1 and st = ?u
        and rng = "0::nat" and fuel = ?F and lambda = ?lam and pLight = "(0, 0, 2)",
        THEN conjunct1, rule_format, OF t2]
    by simp
  note loop1 = C2_shadow_Tr [where ext = shadow_scene and tMax = 1 and fuel = ?F
      and lambda = ?lam and pLight = "(0, 0, 2)" and passes = "Suc 0",
      THEN conjunct2, THEN conjunct2]
  note loop0 = C2_shadow_Tr [where ext = shadow_scene and tMax = 1 and fuel = ?F
      and lambda = ?lam and pLight = "(0, 0, 2)" and passes = 0,
      THEN conjunct2, THEN conjunct2]
  have L1: "shadow_Tr_loop ?F shadow_scene ?F ?lam 1 (0, 0, 2) (?A, ?u, 0) =
              Some (Inr (second_ray, ?u\<lparr>sh_Ld := spec_const 0\<rparr>, 0))"
    using loop1 [THEN conjunct2, THEN conjunct1, rule_format, OF W1]
      loop0 [THEN conjunct1, rule_format, OF W2]
    by simp
  have i0: "(0::int) \<le> 0 \<and> 0 < int (length (shadowRayQueue shadow_queues)) \<and>
            example_sr = shadowRayQueue shadow_queues ! nat 0"
    by (simp add: shadow_queues_def)
  have s0: "shadow_Tr_loop ?F shadow_scene ?F (sr_lambda example_sr) (sr_tMax example_sr)
              (ray_at (ray_o ?A) (ray_d ?A) (sr_tMax example_sr))
              (?A, \<lparr>sh_Ld = sr_Ld example_sr, sh_pdfUni = sr_pdfUni example_sr,
                     sh_pdfNEE = sr_pdfNEE example_sr\<rparr>, shadow_Tr_rng shadow_scene example_sr) =
            Some (Inr (second_ray, ?u\<lparr>sh_Ld := spec_const 0\<rparr>, 0))"
    using L1 by (simp add: example_sr_def unit_shadow_state_def shadow_Tr_rng_def shadow_scene_def)
  have W3: "raygen_shadow_Tr shadow_scene ?F ?F 0 shadow_queues =
              Some (Inr (shadow_queues\<lparr>shadowRayQueue_Ld :=
                  (shadowRayQueue_Ld shadow_queues)(0 := spec_const 0)\<rparr>))"
    using C2_shadow_Tr [where ext = shadow_scene and fuel = ?F and passes = ?F and index = 0
        and qs = shadow_queues,
        THEN conjunct2, THEN conjunct2, THEN conjunct2, THEN conjunct2, rule_format,
        OF conjI [OF i0 [THEN conjunct1] conjI [OF i0 [THEN conjunct2, THEN conjunct1]
          conjI [OF i0 [THEN conjunct2, THEN conjunct2] s0]]]]
    by (simp add: unit_shadow_state_def)
  have tB: "shadow_Tr_trace shadow_scene ?B 1 =
              (True, ClosestHitContext_new (Some 0) True)"
    by (simp add: shadow_Tr_trace_def shadow_scene_def example_sr_fog_def)
  have nB: "True \<or> ctx_material (ClosestHitContext_new (Some 0) True) = None"
    by simp
  have mB: "shadow_Tr_medium shadow_scene ?F ?lam 1 ?B True (ClosestHitContext_new (Some 0) True)
              (?u, 0::nat) = Some (Inr (?fog, 0))"
    by (simp add: shadow_Tr_medium_def example_sr_fog_def SampleTmaj_def shadow_scene_def
        fog_def script_next_def shadow_Tr_callback_def Let_def example_intr_def sigma_n_def
        unit_shadow_state_def)
  have WB: "shadow_Tr_body shadow_scene ?F ?lam 1 (0, 0, 2) (?B, ?u, 0) =
              Some (Inr (Break (?B, ?fog, 0)))"
    using C2_shadow_Tr [where ext = shadow_scene and ray = ?B and tMax = 1 and st = ?u
        and rng = "0::nat" and fuel = ?F and lambda = ?lam and pLight = "(0, 0, 2)",
        THEN conjunct2, THEN conjunct1, rule_format, OF conjI [OF tB conjI [OF nB mB]]]
    by simp
  have LB: "shadow_Tr_loop ?F shadow_scene ?F ?lam 1 (0, 0, 2) (?B, ?u, 0) =
              Some (Inr (?B, ?fog, 0))"
    using loop1 [THEN conjunct1, rule_format, OF WB] by simp
  have i1: "(0::int) \<le> 1 \<and> 1 < int (length (shadowRayQueue shadow_queues)) \<and>
            example_sr_fog = shadowRayQueue shadow_queues ! nat 1"
    by (simp add: shadow_queues_def)
  have s1: "shadow_Tr_loop ?F shadow_scene ?F (sr_lambda example_sr_fog) (sr_tMax example_sr_fog)
              (ray_at (ray_o ?B) (ray_d ?B) (sr_tMax example_sr_fog))
              (?B, \<lparr>sh_Ld = sr_Ld example_sr_fog, sh_pdfUni = sr_pdfUni example_sr_fog,
                     sh_pdfNEE = sr_pdfNEE example_sr_fog\<rparr>,
               shadow_Tr_rng shadow_scene example_sr_fog) =
            Some (Inr (?B, ?fog, 0))"
    using LB
    by (simp add: example_sr_fog_def example_sr_def unit_shadow_state_def shadow_Tr_rng_def
        shadow_scene_def)
  have W4: "raygen_shadow_Tr shadow_scene ?F ?F 1 shadow_queues =
              Some (Inr (shadow_queues\<lparr>shadowRayQueue_Ld :=
                  (shadowRayQueue_Ld shadow_queues)(1 := spec_const (1 / 3))\<rparr>))"
    using C2_shadow_Tr [where ext = shadow_scene and fuel = ?F and passes = ?F and index = 1
        and qs = shadow_queues,
        THEN conjunct2, THEN conjunct2, THEN conjunct2, THEN conjunct2, rule_format,
        OF conjI [OF i1 [THEN conjunct1] conjI [OF i1 [THEN conjunct2, THEN conjunct1]
          conjI [OF i1 [THEN conjunct2, THEN conjunct2] s1]]]]
    by simp
  from W1 W2 W3 W4 show ?thesis by blast
qed

end
